theory Spec2Isabelle
  imports Main "HOL-Library.Word"
begin

unbundle bit_operations_syntax

section \<open>The HLSL front end of d3dcompiler: data model\<close>

text \<open>
  The development follows \<^verbatim>\<open>hlsl.y\<close>, the parser of the HLSL compiler. The declarations
  of \<^verbatim>\<open>d3dcompiler_private.h\<close> and the helpers of \<^verbatim>\<open>utils.c\<close> are not among the sources;
  what is taken from the specification instead is marked at the definition.
\<close>

subsection \<open>Machine integers\<close>

text \<open>\<^verbatim>\<open>unsigned int\<close> is a natural number below \<open>2^32\<close>; arithmetic wraps around.\<close>

definition UINT_MAX :: nat where
  "UINT_MAX = 4294967295"

definition to_uint :: "nat \<Rightarrow> nat" where
  "to_uint n = n mod 4294967296"

subsection \<open>Source locations, modifiers and types\<close>

record source_location =
  loc_file :: "string option"
  line :: nat
  col :: nat

text \<open>A zero-filled location, as \<^verbatim>\<open>d3dcompiler_alloc\<close> leaves it.\<close>

definition no_location :: source_location where
  "no_location = \<lparr>loc_file = None, line = 0, col = 0\<rparr>"

text \<open>
  Modelled from the spec: the bit values of the modifier flags are declared in
  \<^verbatim>\<open>d3dcompiler_private.h\<close>. A \<^verbatim>\<open>DWORD\<close> of modifiers is the set of flags it holds:
  \<^verbatim>\<open>a & b\<close> is the intersection, \<^verbatim>\<open>a | b\<close> the union and \<^verbatim>\<open>a & ~b\<close> the difference.
\<close>

datatype modifier =
    HLSL_STORAGE_EXTERN
  | HLSL_STORAGE_NOINTERPOLATION
  | HLSL_MODIFIER_PRECISE
  | HLSL_STORAGE_SHARED
  | HLSL_STORAGE_GROUPSHARED
  | HLSL_STORAGE_STATIC
  | HLSL_STORAGE_UNIFORM
  | HLSL_STORAGE_VOLATILE
  | HLSL_MODIFIER_CONST
  | HLSL_MODIFIER_ROW_MAJOR
  | HLSL_MODIFIER_COLUMN_MAJOR
  | HLSL_STORAGE_IN
  | HLSL_STORAGE_OUT

definition HLSL_MODIFIERS_MAJORITY_MASK :: "modifier set" where
  "HLSL_MODIFIERS_MAJORITY_MASK = {HLSL_MODIFIER_ROW_MAJOR, HLSL_MODIFIER_COLUMN_MAJOR}"

text \<open>
  Modelled from the spec: \<^verbatim>\<open>enum hlsl_type_class\<close>; the numeric classes, those up to
  \<^verbatim>\<open>HLSL_CLASS_LAST_NUMERIC\<close>, are scalar, vector and matrix.
\<close>

datatype hlsl_type_class =
    HLSL_CLASS_SCALAR
  | HLSL_CLASS_VECTOR
  | HLSL_CLASS_MATRIX
  | HLSL_CLASS_STRUCT
  | HLSL_CLASS_ARRAY
  | HLSL_CLASS_OBJECT

fun le_LAST_NUMERIC :: "hlsl_type_class \<Rightarrow> bool" where
  "le_LAST_NUMERIC HLSL_CLASS_SCALAR = True"
| "le_LAST_NUMERIC HLSL_CLASS_VECTOR = True"
| "le_LAST_NUMERIC HLSL_CLASS_MATRIX = True"
| "le_LAST_NUMERIC _ = False"

datatype hlsl_base_type =
    HLSL_TYPE_FLOAT
  | HLSL_TYPE_HALF
  | HLSL_TYPE_DOUBLE
  | HLSL_TYPE_INT
  | HLSL_TYPE_UINT
  | HLSL_TYPE_BOOL
  | HLSL_TYPE_SAMPLER
  | HLSL_TYPE_TEXTURE
  | HLSL_TYPE_PIXELSHADER
  | HLSL_TYPE_VERTEXSHADER
  | HLSL_TYPE_STRING
  | HLSL_TYPE_VOID

text \<open>
  \<^verbatim>\<open>struct hlsl_type\<close>. A pointer to a type is the type it designates: a type is not
  changed once a node or a variable refers to it.
\<close>

datatype hlsl_type =
  Hlsl_type (tname: "string option") (tclass: hlsl_type_class) (base_type: hlsl_base_type)
    (dimx: nat) (dimy: nat) (modifiers: "modifier set") (reg_size: nat) (e: hlsl_type_e)
and hlsl_type_e =
    No_elements
  | Array_of hlsl_type nat
  | Elements "hlsl_struct_field list"
and hlsl_struct_field =
  Hlsl_struct_field (field_name: string) (field_type: hlsl_type)
    (field_modifiers: "modifier set") (field_semantic: "string option") (reg_offset: nat)

subsection \<open>The intermediate representation\<close>

type_synonym node_ptr = nat
type_synonym var_ptr = nat

text \<open>
  \<^verbatim>\<open>struct hlsl_deref\<close>. The array and the record of a dereference are pointers to nodes;
  \<^verbatim>\<open>hlsl_var_from_deref\<close> reads the \<^verbatim>\<open>src\<close> of the node behind them through
  \<^verbatim>\<open>deref_from_node\<close>, which asserts that the node is an \<^verbatim>\<open>HLSL_IR_DEREF\<close>. The pointer
  is kept with what is read through it: the \<^verbatim>\<open>src\<close> of the node, or \<open>None\<close> when the
  node is of another kind.
\<close>

datatype hlsl_deref =
    HLSL_IR_DEREF_VAR var_ptr
  | HLSL_IR_DEREF_ARRAY node_ptr "hlsl_deref option" node_ptr
  | HLSL_IR_DEREF_RECORD node_ptr "hlsl_deref option" string

datatype hlsl_ir_expr_op =
    HLSL_IR_UNOP_BIT_NOT
  | HLSL_IR_UNOP_LOGIC_NOT
  | HLSL_IR_UNOP_NEG
  | HLSL_IR_UNOP_PREINC
  | HLSL_IR_UNOP_PREDEC
  | HLSL_IR_UNOP_POSTINC
  | HLSL_IR_UNOP_POSTDEC
  | HLSL_IR_UNOP_CAST
  | HLSL_IR_BINOP_ADD
  | HLSL_IR_BINOP_SUB
  | HLSL_IR_BINOP_MUL
  | HLSL_IR_BINOP_DIV
  | HLSL_IR_BINOP_MOD
  | HLSL_IR_BINOP_LESS
  | HLSL_IR_BINOP_GREATER
  | HLSL_IR_BINOP_LEQUAL
  | HLSL_IR_BINOP_GEQUAL
  | HLSL_IR_BINOP_EQUAL
  | HLSL_IR_BINOP_NEQUAL

datatype hlsl_ir_jump_type =
    HLSL_IR_JUMP_BREAK
  | HLSL_IR_JUMP_CONTINUE
  | HLSL_IR_JUMP_RETURN

typedecl c_float
typedecl c_double

text \<open>
  The first element of each member of the value union of a constant: the same storage
  read as \<^verbatim>\<open>unsigned\<close>, \<^verbatim>\<open>int\<close>, \<^verbatim>\<open>float\<close>, \<^verbatim>\<open>double\<close> and \<^verbatim>\<open>BOOL\<close>.
\<close>

record hlsl_constant_value =
  value_u :: nat
  value_i :: int
  value_f :: c_float
  value_d :: c_double
  value_b :: int

text \<open>
  The fields every \<^verbatim>\<open>struct hlsl_ir_node\<close> has. \<open>addr\<close> is the address of the node, by
  which other nodes refer to it. The field \<^verbatim>\<open>last_read\<close> is written through such
  pointers and lives in a store of its own (see \<open>liveness\<close>).
\<close>

record node_hdr =
  addr :: node_ptr
  index :: nat
  data_type :: "hlsl_type option"
  loc :: source_location

text \<open>
  A node is linked into exactly one instruction list through its \<^verbatim>\<open>entry\<close> field, so the
  instruction lists of a function form a tree: an \<^verbatim>\<open>if\<close> owns its two branches, a loop
  owns its body. Operands are pointers to nodes placed earlier.
\<close>

datatype hlsl_ir_node =
    HLSL_IR_ASSIGNMENT (hdr: node_hdr) hlsl_deref node_ptr
  | HLSL_IR_CONSTANT (hdr: node_hdr) hlsl_constant_value
  | HLSL_IR_CONSTRUCTOR (hdr: node_hdr) "node_ptr list"
  | HLSL_IR_DEREF (hdr: node_hdr) hlsl_deref
  | HLSL_IR_EXPR (hdr: node_hdr) hlsl_ir_expr_op node_ptr "node_ptr option" "node_ptr option"
  | HLSL_IR_IF (hdr: node_hdr) node_ptr "hlsl_ir_node list" "hlsl_ir_node list option"
  | HLSL_IR_JUMP (hdr: node_hdr) hlsl_ir_jump_type "node_ptr option"
  | HLSL_IR_LOOP (hdr: node_hdr) "hlsl_ir_node list" nat
  | HLSL_IR_SWIZZLE (hdr: node_hdr) node_ptr "32 word"

fun set_hdr :: "node_hdr \<Rightarrow> hlsl_ir_node \<Rightarrow> hlsl_ir_node" where
  "set_hdr h (HLSL_IR_ASSIGNMENT _ l r) = HLSL_IR_ASSIGNMENT h l r"
| "set_hdr h (HLSL_IR_CONSTANT _ v) = HLSL_IR_CONSTANT h v"
| "set_hdr h (HLSL_IR_CONSTRUCTOR _ as) = HLSL_IR_CONSTRUCTOR h as"
| "set_hdr h (HLSL_IR_DEREF _ d) = HLSL_IR_DEREF h d"
| "set_hdr h (HLSL_IR_EXPR _ oper a b c) = HLSL_IR_EXPR h oper a b c"
| "set_hdr h (HLSL_IR_IF _ c t el) = HLSL_IR_IF h c t el"
| "set_hdr h (HLSL_IR_JUMP _ j r) = HLSL_IR_JUMP h j r"
| "set_hdr h (HLSL_IR_LOOP _ b n) = HLSL_IR_LOOP h b n"
| "set_hdr h (HLSL_IR_SWIZZLE _ v s) = HLSL_IR_SWIZZLE h v s"

section \<open>Instruction indexing\<close>

text \<open>
  \<^verbatim>\<open>index_instructions\<close>: the loop over a list is \<open>index_instructions\<close>, its body is
  \<open>index_instr\<close>. Both return the next free index; the nodes are returned with their
  \<^verbatim>\<open>index\<close> (and, for a loop, \<^verbatim>\<open>next_index\<close>) written.
\<close>

fun index_instr :: "hlsl_ir_node \<Rightarrow> nat \<Rightarrow> hlsl_ir_node \<times> nat"
  and index_instructions :: "hlsl_ir_node list \<Rightarrow> nat \<Rightarrow> hlsl_ir_node list \<times> nat" where
  "index_instr (HLSL_IR_IF h c then_instrs else_instrs) i =
     (let (t', i1) = index_instructions then_instrs (to_uint (i + 1));
          (e', i2) = (case else_instrs of
                        None \<Rightarrow> (None, i1)
                      | Some es \<Rightarrow> (let (es', i2) = index_instructions es i1 in (Some es', i2)))
      in (HLSL_IR_IF (h\<lparr>index := i\<rparr>) c t' e', i2))"
| "index_instr (HLSL_IR_LOOP h body next_index) i =
     (let (b', i1) = index_instructions body (to_uint (i + 1))
      in (HLSL_IR_LOOP (h\<lparr>index := i\<rparr>) b' i1, i1))"
| "index_instr instr i = (set_hdr ((hdr instr)\<lparr>index := i\<rparr>) instr, to_uint (i + 1))"
| "index_instructions [] i = ([], i)"
| "index_instructions (instr # instrs) i =
     (let (instr', i1) = index_instr instr i;
          (instrs', i2) = index_instructions instrs i1
      in (instr' # instrs', i2))"

text \<open>
  The instructions of a list in the order the traversal visits them, and their number.
\<close>

fun instrs_of :: "hlsl_ir_node \<Rightarrow> hlsl_ir_node list"
  and traversal :: "hlsl_ir_node list \<Rightarrow> hlsl_ir_node list" where
  "instrs_of (HLSL_IR_IF h c then_instrs else_instrs) =
     HLSL_IR_IF h c then_instrs else_instrs
       # traversal then_instrs @ (case else_instrs of None \<Rightarrow> [] | Some es \<Rightarrow> traversal es)"
| "instrs_of (HLSL_IR_LOOP h body next_index) = HLSL_IR_LOOP h body next_index # traversal body"
| "instrs_of instr = [instr]"
| "traversal [] = []"
| "traversal (instr # instrs) = instrs_of instr @ traversal instrs"

definition node_index :: "hlsl_ir_node \<Rightarrow> nat" where
  "node_index instr = index (hdr instr)"

fun loop_body :: "hlsl_ir_node \<Rightarrow> hlsl_ir_node list option" where
  "loop_body (HLSL_IR_LOOP h body next_index) = Some body"
| "loop_body _ = None"

fun loop_next_index :: "hlsl_ir_node \<Rightarrow> nat" where
  "loop_next_index (HLSL_IR_LOOP h body next_index) = next_index"
| "loop_next_index _ = 0"

text \<open>
  What \<^verbatim>\<open>index_instructions\<close> is to establish for a loop node: \<^verbatim>\<open>next_index\<close> is the
  index that follows the indices of the body.
\<close>

definition loop_indexed :: "hlsl_ir_node \<Rightarrow> bool" where
  "loop_indexed L =
     (case loop_body L of
        None \<Rightarrow> True
      | Some b \<Rightarrow> loop_next_index L = node_index L + 1 + length (traversal b) \<and>
                 map node_index (traversal b) = [node_index L + 1 ..< loop_next_index L])"

section \<open>Liveness\<close>

datatype bwritershader_param_register_type =
    BWRITERSPR_CONST
  | BWRITERSPR_CONSTINT
  | BWRITERSPR_CONSTBOOL
  | BWRITERSPR_SAMPLER

record reg_reservation =
  reg_type :: bwritershader_param_register_type
  regnum :: nat

text \<open>\<^verbatim>\<open>struct hlsl_ir_var\<close>.\<close>

record hlsl_ir_var =
  vname :: string
  vtype :: hlsl_type
  vloc :: source_location
  vmodifiers :: "modifier set"
  semantic :: "string option"
  var_reg_reservation :: "reg_reservation option"
  first_write :: nat
  last_read :: nat

text \<open>
  The memory the liveness pass writes: the variables, by address, and the field
  \<^verbatim>\<open>last_read\<close> of the nodes, by address.
\<close>

record ir_store =
  vars :: "var_ptr \<Rightarrow> hlsl_ir_var"
  node_last_read :: "node_ptr \<Rightarrow> nat"

definition set_first_write :: "var_ptr \<Rightarrow> nat \<Rightarrow> ir_store \<Rightarrow> ir_store" where
  "set_first_write var i st = st\<lparr>vars := (vars st)(var := (vars st var)\<lparr>first_write := i\<rparr>)\<rparr>"

definition set_last_read :: "var_ptr \<Rightarrow> nat \<Rightarrow> ir_store \<Rightarrow> ir_store" where
  "set_last_read var i st = st\<lparr>vars := (vars st)(var := (vars st var)\<lparr>last_read := i\<rparr>)\<rparr>"

definition set_node_last_read :: "node_ptr \<Rightarrow> nat \<Rightarrow> ir_store \<Rightarrow> ir_store" where
  "set_node_last_read p i st = st\<lparr>node_last_read := (node_last_read st)(p := i)\<rparr>"

text \<open>
  \<^verbatim>\<open>hlsl_var_from_deref\<close>. \<open>None\<close> is the failed assertion of \<^verbatim>\<open>deref_from_node\<close> on a
  node that is not a dereference.
\<close>

fun hlsl_var_from_deref :: "hlsl_deref \<Rightarrow> var_ptr option" where
  "hlsl_var_from_deref (HLSL_IR_DEREF_VAR var) = Some var"
| "hlsl_var_from_deref (HLSL_IR_DEREF_ARRAY array array_src idx) =
     (case array_src of None \<Rightarrow> None | Some d \<Rightarrow> hlsl_var_from_deref d)"
| "hlsl_var_from_deref (HLSL_IR_DEREF_RECORD record record_src field) =
     (case record_src of None \<Rightarrow> None | Some d \<Rightarrow> hlsl_var_from_deref d)"

text \<open>
  \<^verbatim>\<open>compute_liveness_recurse\<close>: \<open>compute_liveness_instr\<close> is the body of its loop, the
  \<^verbatim>\<open>switch\<close> on the node type. \<open>None\<close> is an assertion that failed.
\<close>

fun compute_liveness_instr ::
    "hlsl_ir_node \<Rightarrow> nat \<Rightarrow> nat \<Rightarrow> ir_store \<Rightarrow> ir_store option"
  and compute_liveness_recurse ::
    "hlsl_ir_node list \<Rightarrow> nat \<Rightarrow> nat \<Rightarrow> ir_store \<Rightarrow> ir_store option" where
  "compute_liveness_instr (HLSL_IR_ASSIGNMENT h lhs rhs) loop_first loop_last st =
     (case hlsl_var_from_deref lhs of
        None \<Rightarrow> None
      | Some var \<Rightarrow>
          Some (set_node_last_read rhs (index h)
            (if first_write (vars st var) = 0
             then set_first_write var
                    (if loop_first \<noteq> 0 then min (index h) loop_first else index h) st
             else st)))"
| "compute_liveness_instr (HLSL_IR_CONSTANT h v) loop_first loop_last st = Some st"
| "compute_liveness_instr (HLSL_IR_CONSTRUCTOR h args) loop_first loop_last st =
     Some (fold (\<lambda>arg. set_node_last_read arg (index h)) args st)"
| "compute_liveness_instr (HLSL_IR_DEREF h src) loop_first loop_last st =
     (case hlsl_var_from_deref src of
        None \<Rightarrow> None
      | Some var \<Rightarrow>
          (let st1 = set_last_read var
                       (if loop_last \<noteq> 0 then max (index h) loop_last else index h) st
           in Some (case src of
                      HLSL_IR_DEREF_ARRAY array array_src idx \<Rightarrow>
                        set_node_last_read idx (index h) st1
                    | _ \<Rightarrow> st1)))"
| "compute_liveness_instr (HLSL_IR_EXPR h oper operand0 operand1 operand2) loop_first loop_last st =
     (let st0 = set_node_last_read operand0 (index h) st;
          st1 = (case operand1 of None \<Rightarrow> st0 | Some p \<Rightarrow> set_node_last_read p (index h) st0);
          st2 = (case operand2 of None \<Rightarrow> st1 | Some p \<Rightarrow> set_node_last_read p (index h) st1)
      in Some st2)"
| "compute_liveness_instr (HLSL_IR_IF h condition then_instrs else_instrs) loop_first loop_last st =
     (case compute_liveness_recurse then_instrs loop_first loop_last st of
        None \<Rightarrow> None
      | Some st1 \<Rightarrow>
          (case (case else_instrs of
                   None \<Rightarrow> Some st1
                 | Some es \<Rightarrow> compute_liveness_recurse es loop_first loop_last st1) of
             None \<Rightarrow> None
           | Some st2 \<Rightarrow> Some (set_node_last_read condition (index h) st2)))"
| "compute_liveness_instr (HLSL_IR_JUMP h jump_type return_value) loop_first loop_last st =
     (case return_value of
        Some p \<Rightarrow>
          if jump_type = HLSL_IR_JUMP_RETURN then Some (set_node_last_read p (index h) st)
          else Some st
      | None \<Rightarrow> Some st)"
| "compute_liveness_instr (HLSL_IR_LOOP h body next_index) loop_first loop_last st =
     compute_liveness_recurse body
       (if loop_first \<noteq> 0 then loop_first else index h)
       (if loop_last \<noteq> 0 then loop_last else next_index) st"
| "compute_liveness_instr (HLSL_IR_SWIZZLE h val s) loop_first loop_last st =
     Some (set_node_last_read val (index h) st)"
| "compute_liveness_recurse [] loop_first loop_last st = Some st"
| "compute_liveness_recurse (instr # instrs) loop_first loop_last st =
     (case compute_liveness_instr instr loop_first loop_last st of
        None \<Rightarrow> None
      | Some st1 \<Rightarrow> compute_liveness_recurse instrs loop_first loop_last st1)"

text \<open>
  \<^verbatim>\<open>struct hlsl_ir_function_decl\<close>. The parameters are pointers to variables; the body is
  \<open>None\<close> for a prototype.
\<close>

record hlsl_ir_function_decl =
  return_type :: hlsl_type
  func_loc :: source_location
  parameters :: "var_ptr list"
  func_semantic :: "string option"
  func_body :: "hlsl_ir_node list option"

text \<open>
  \<^verbatim>\<open>compute_liveness\<close>: its two loops, over the variables of the global scope and over the
  parameters of the entry function, then the walk of the body. The first argument is
  \<^verbatim>\<open>hlsl_ctx.globals->vars\<close>; the body is the list \<^verbatim>\<open>entry_func->body\<close> points to.
\<close>

definition liveness_globals :: "var_ptr list \<Rightarrow> ir_store \<Rightarrow> ir_store" where
  "liveness_globals globals_vars st = fold (\<lambda>var. set_first_write var 1) globals_vars st"

definition liveness_parameter :: "var_ptr \<Rightarrow> ir_store \<Rightarrow> ir_store" where
  "liveness_parameter var st =
     (let st1 = (if HLSL_STORAGE_IN \<in> vmodifiers (vars st var)
                 then set_first_write var 1 st else st)
      in if HLSL_STORAGE_OUT \<in> vmodifiers (vars st1 var)
         then set_last_read var UINT_MAX st1 else st1)"

definition liveness_parameters :: "var_ptr list \<Rightarrow> ir_store \<Rightarrow> ir_store" where
  "liveness_parameters params st = fold liveness_parameter params st"

definition liveness_start :: "var_ptr list \<Rightarrow> var_ptr list \<Rightarrow> ir_store \<Rightarrow> ir_store" where
  "liveness_start globals_vars params st =
     liveness_parameters params (liveness_globals globals_vars st)"

definition compute_liveness ::
    "var_ptr list \<Rightarrow> var_ptr list \<Rightarrow> hlsl_ir_node list \<Rightarrow> ir_store \<Rightarrow> ir_store option" where
  "compute_liveness globals_vars params entry_body st =
     compute_liveness_recurse entry_body 0 0 (liveness_start globals_vars params st)"

text \<open>The variable an instruction reads, when it is a dereference.\<close>

fun deref_var :: "hlsl_ir_node \<Rightarrow> var_ptr option" where
  "deref_var (HLSL_IR_DEREF h src) = hlsl_var_from_deref src"
| "deref_var _ = None"

text \<open>
  The nodes an instruction refers to as operands: the right-hand side of an assignment,
  the arguments of a constructor, the index of an array dereference, the operands of an
  expression, the condition of an \<^verbatim>\<open>if\<close>, the value of a \<^verbatim>\<open>return\<close> and the value of a
  swizzle.
\<close>

fun operand_nodes :: "hlsl_ir_node \<Rightarrow> node_ptr list" where
  "operand_nodes (HLSL_IR_ASSIGNMENT h lhs rhs) = [rhs]"
| "operand_nodes (HLSL_IR_CONSTANT h v) = []"
| "operand_nodes (HLSL_IR_CONSTRUCTOR h args) = args"
| "operand_nodes (HLSL_IR_DEREF h (HLSL_IR_DEREF_ARRAY array array_src idx)) = [idx]"
| "operand_nodes (HLSL_IR_DEREF h src) = []"
| "operand_nodes (HLSL_IR_EXPR h oper operand0 operand1 operand2) =
     operand0 # (case operand1 of None \<Rightarrow> [] | Some p \<Rightarrow> [p])
       @ (case operand2 of None \<Rightarrow> [] | Some p \<Rightarrow> [p])"
| "operand_nodes (HLSL_IR_IF h condition then_instrs else_instrs) = [condition]"
| "operand_nodes (HLSL_IR_JUMP h jump_type return_value) =
     (case return_value of
        Some p \<Rightarrow> if jump_type = HLSL_IR_JUMP_RETURN then [p] else []
      | None \<Rightarrow> [])"
| "operand_nodes (HLSL_IR_LOOP h body next_index) = []"
| "operand_nodes (HLSL_IR_SWIZZLE h val s) = [val]"

definition reads :: "hlsl_ir_node list \<Rightarrow> var_ptr set" where
  "reads instrs = {v. \<exists>D \<in> set (traversal instrs). deref_var D = Some v}"

definition var_last_read :: "ir_store option \<Rightarrow> var_ptr \<Rightarrow> nat option" where
  "var_last_read r var = map_option (\<lambda>st. last_read (vars st var)) r"

definition last_read_of_node :: "ir_store option \<Rightarrow> node_ptr \<Rightarrow> nat option" where
  "last_read_of_node r p = map_option (\<lambda>st. node_last_read st p) r"

text \<open>The header of a freshly allocated, zero-filled node at address \<open>a\<close>.\<close>

definition new_hdr :: "node_ptr \<Rightarrow> node_hdr" where
  "new_hdr a = \<lparr>addr = a, index = 0, data_type = None, loc = no_location\<rparr>"

text \<open>
  A small function body used to exercise the passes: a read of variable 0, a loop reading
  variable 1 and leaving on the negated condition, and a return of the first read.
\<close>

definition example_body :: "hlsl_ir_node list" where
  "example_body =
     [HLSL_IR_DEREF (new_hdr 1) (HLSL_IR_DEREF_VAR 0),
      HLSL_IR_LOOP (new_hdr 2)
        [HLSL_IR_DEREF (new_hdr 3) (HLSL_IR_DEREF_VAR 1),
         HLSL_IR_EXPR (new_hdr 4) HLSL_IR_UNOP_LOGIC_NOT 3 None None,
         HLSL_IR_IF (new_hdr 5) 4 [HLSL_IR_JUMP (new_hdr 6) HLSL_IR_JUMP_BREAK None] None] 0,
      HLSL_IR_JUMP (new_hdr 7) HLSL_IR_JUMP_RETURN (Some 1)]"

text \<open>
  Two invariants of the walk: every variable read in a list has \<^verbatim>\<open>last_read\<close> at least
  the first index of the list and at least the enclosing loop's exit; and every variable
  read in the body of a loop has \<^verbatim>\<open>last_read\<close> at least the \<^verbatim>\<open>next_index\<close> of that loop.
\<close>

definition reads_bounded :: "hlsl_ir_node list \<Rightarrow> nat \<Rightarrow> nat \<Rightarrow> ir_store \<Rightarrow> bool" where
  "reads_bounded instrs i loop_last st \<longleftrightarrow>
     (\<forall>v \<in> reads instrs. i \<le> last_read (vars st v) \<and> loop_last \<le> last_read (vars st v))"

definition loops_live :: "hlsl_ir_node list \<Rightarrow> ir_store \<Rightarrow> bool" where
  "loops_live instrs st \<longleftrightarrow>
     (\<forall>L \<in> set instrs. \<forall>b. loop_body L = Some b \<longrightarrow>
        (\<forall>v \<in> reads b. loop_next_index L \<le> last_read (vars st v)))"

text \<open>The store before the pass, for the example: nothing written, nothing read.\<close>

definition example_type :: hlsl_type where
  "example_type =
     Hlsl_type (Some ''float'') HLSL_CLASS_SCALAR HLSL_TYPE_FLOAT 1 1 {} 1 No_elements"

definition example_var :: hlsl_ir_var where
  "example_var =
     \<lparr>vname = ''v'', vtype = example_type, vloc = no_location, vmodifiers = {},
      semantic = None, var_reg_reservation = None, first_write = 0, last_read = 0\<rparr>"

definition example_store :: ir_store where
  "example_store = \<lparr>vars = (\<lambda>var. example_var), node_last_read = (\<lambda>p. 0)\<rparr>"

text \<open>A store with an input parameter at 11 and an output parameter at 12.\<close>

definition example_params_store :: ir_store where
  "example_params_store =
     \<lparr>vars = (\<lambda>var. example_var)
        (11 := example_var\<lparr>vmodifiers := {HLSL_STORAGE_IN}\<rparr>,
         12 := example_var\<lparr>vmodifiers := {HLSL_STORAGE_OUT}\<rparr>),
      node_last_read = (\<lambda>p. 0)\<rparr>"

section \<open>Memory and diagnostics\<close>

text \<open>
  Modelled from the spec: \<^verbatim>\<open>d3dcompiler_alloc\<close> is declared in the private header. It
  returns zero-filled memory at a fresh address, or \<^verbatim>\<open>NULL\<close> on exhaustion (the spec's
  resource errors). The heap records the next fresh address and how many further
  allocations succeed. The code relies on the zero filling: it never writes the
  \<^verbatim>\<open>else\<close> branch of the \<^verbatim>\<open>if\<close> nor the index of the nodes it builds.
\<close>

record heap =
  next_free :: nat
  allocations_left :: nat

definition d3dcompiler_alloc :: "heap \<Rightarrow> nat option \<times> heap" where
  "d3dcompiler_alloc h =
     (if allocations_left h = 0 then (None, h)
      else (Some (next_free h),
            \<lparr>next_free = next_free h + 1, allocations_left = allocations_left h - 1\<rparr>))"

datatype parse_status = PARSE_SUCCESS | PARSE_WARN | PARSE_ERR

text \<open>
  Modelled from the spec: \<^verbatim>\<open>set_parse_status\<close> (the status goes from ok to warning to
  error and is never downgraded).
\<close>

fun set_parse_status :: "parse_status \<Rightarrow> parse_status \<Rightarrow> parse_status" where
  "set_parse_status current PARSE_ERR = PARSE_ERR"
| "set_parse_status current PARSE_WARN =
     (if current = PARSE_ERR then PARSE_ERR else PARSE_WARN)"
| "set_parse_status current PARSE_SUCCESS = current"

datatype hlsl_error_level = HLSL_LEVEL_ERROR | HLSL_LEVEL_WARNING | HLSL_LEVEL_NOTE

text \<open>
  A line of the message buffer is kept as the arguments of the \<^verbatim>\<open>printf\<close> that writes
  it: the location, level and text of \<^verbatim>\<open>hlsl_report_message\<close>, or the text of a direct
  \<^verbatim>\<open>hlsl_message\<close>; a text is its format with its arguments.
\<close>

datatype format_arg =
    Arg_string string
  | Arg_uint nat
  | Arg_modifiers "modifier set"

datatype message =
    Reported source_location hlsl_error_level string "format_arg list"
  | Plain string "format_arg list"

datatype hlsl_matrix_majority = HLSL_COLUMN_MAJOR | HLSL_ROW_MAJOR

text \<open>
  \<^verbatim>\<open>struct hlsl_scope\<close>: the variables in declaration order and the named types.
\<close>

record hlsl_scope =
  scope_vars :: "var_ptr list"
  scope_types :: "(string \<times> hlsl_type) list"

text \<open>
  \<^verbatim>\<open>struct hlsl_parse_ctx\<close>, the global \<^verbatim>\<open>hlsl_ctx\<close>, with the memory it points into.
  The chain of scopes from \<^verbatim>\<open>cur_scope\<close> up to the global scope is \<open>local_scopes\<close>,
  innermost first, followed by \<open>globals\<close>; \<^verbatim>\<open>cur_scope == globals\<close> is
  \<open>local_scopes = []\<close>. The function table maps a name to its overloads. The table of
  source file names is \<open>None\<close> when its pointer is \<^verbatim>\<open>NULL\<close>.
\<close>

record hlsl_parse_ctx =
  status :: parse_status
  messages :: "message list"
  source_files :: "string list option"
  matrix_majority :: hlsl_matrix_majority
  local_scopes :: "hlsl_scope list"
  globals :: hlsl_scope
  ctx_functions :: "string \<Rightarrow> hlsl_ir_function_decl list option"
  store :: ir_store
  heap :: heap

text \<open>
  \<^verbatim>\<open>hlsl_report_message\<close>. The text is formatted into a buffer from
  \<^verbatim>\<open>d3dcompiler_alloc\<close>; when that fails, the function returns with nothing appended and
  the status unchanged.
\<close>

definition hlsl_report_message ::
    "hlsl_parse_ctx \<Rightarrow> source_location \<Rightarrow> hlsl_error_level \<Rightarrow> string \<Rightarrow> format_arg list
       \<Rightarrow> hlsl_parse_ctx" where
  "hlsl_report_message ctx location level fmt fmt_args =
     (case d3dcompiler_alloc (heap ctx) of
        (None, h) \<Rightarrow> ctx\<lparr>heap := h\<rparr>
      | (Some string, h) \<Rightarrow>
          ctx\<lparr>heap := h,
              messages := messages ctx @ [Reported location level fmt fmt_args],
              status := (case level of
                           HLSL_LEVEL_ERROR \<Rightarrow> set_parse_status (status ctx) PARSE_ERR
                         | HLSL_LEVEL_WARNING \<Rightarrow> set_parse_status (status ctx) PARSE_WARN
                         | HLSL_LEVEL_NOTE \<Rightarrow> status ctx)\<rparr>)"

section \<open>Modifiers and types\<close>

text \<open>\<^verbatim>\<open>add_modifiers\<close>.\<close>

definition add_modifiers ::
    "hlsl_parse_ctx \<Rightarrow> modifier set \<Rightarrow> modifier set \<Rightarrow> source_location
       \<Rightarrow> modifier set \<times> hlsl_parse_ctx" where
  "add_modifiers ctx mods new_mod location =
     (if mods \<inter> new_mod \<noteq> {} then
        (mods, hlsl_report_message ctx location HLSL_LEVEL_ERROR
                 ''modifier '%s' already specified'' [Arg_modifiers new_mod])
      else if new_mod \<inter> HLSL_MODIFIERS_MAJORITY_MASK \<noteq> {}
              \<and> mods \<inter> HLSL_MODIFIERS_MAJORITY_MASK \<noteq> {} then
        (mods, hlsl_report_message ctx location HLSL_LEVEL_ERROR
                 ''more than one matrix majority keyword'' [])
      else (mods \<union> new_mod, ctx))"

text \<open>\<^verbatim>\<open>is_row_major\<close>.\<close>

definition is_row_major :: "hlsl_type \<Rightarrow> bool" where
  "is_row_major t \<longleftrightarrow> HLSL_MODIFIER_ROW_MAJOR \<in> modifiers t"

fun set_modifiers :: "modifier set \<Rightarrow> hlsl_type \<Rightarrow> hlsl_type" where
  "set_modifiers m (Hlsl_type n c b x y _ r el) = Hlsl_type n c b x y m r el"

fun set_reg_size :: "nat \<Rightarrow> hlsl_type \<Rightarrow> hlsl_type" where
  "set_reg_size r (Hlsl_type n c b x y m _ el) = Hlsl_type n c b x y m r el"

text \<open>
  Modelled from the spec: \<^verbatim>\<open>new_hlsl_type\<close> of \<^verbatim>\<open>utils.c\<close>. Types are constructed on
  demand from a name, a class, a base type and the two dimensions, which the descriptor
  stores as given (the predefined \<^verbatim>\<open>float1\<close> is a vector and \<^verbatim>\<open>float1x1\<close> a matrix).
  A new type has no modifiers. The register size of a matrix is the spec's (the column
  count when not row-major); that of the other classes, which the spec leaves open, is
  taken as 1. \<open>None\<close> is \<^verbatim>\<open>NULL\<close>, on exhausted memory.
\<close>

definition new_hlsl_type ::
    "heap \<Rightarrow> string option \<Rightarrow> hlsl_type_class \<Rightarrow> hlsl_base_type \<Rightarrow> nat \<Rightarrow> nat
       \<Rightarrow> hlsl_type option \<times> heap" where
  "new_hlsl_type h name cls base dx dy =
     (case d3dcompiler_alloc h of
        (None, h1) \<Rightarrow> (None, h1)
      | (Some a, h1) \<Rightarrow>
          (Some (Hlsl_type name cls base dx dy {}
                   (if cls = HLSL_CLASS_MATRIX then dx else 1) No_elements), h1))"

text \<open>
  Modelled from the spec: \<^verbatim>\<open>clone_hlsl_type\<close> of \<^verbatim>\<open>utils.c\<close>. The clone is a copy of
  the type; the default majority is injected when the type specifies none.
\<close>

definition clone_hlsl_type ::
    "heap \<Rightarrow> hlsl_type \<Rightarrow> modifier set \<Rightarrow> hlsl_type option \<times> heap" where
  "clone_hlsl_type h old default_majority =
     (case d3dcompiler_alloc h of
        (None, h1) \<Rightarrow> (None, h1)
      | (Some a, h1) \<Rightarrow>
          (Some (set_modifiers
                   (modifiers old \<union>
                      (if modifiers old \<inter> HLSL_MODIFIERS_MAJORITY_MASK = {}
                       then default_majority else {})) old), h1))"

text \<open>
  \<^verbatim>\<open>apply_type_modifiers\<close>. The first argument is \<^verbatim>\<open>HLSL_TYPE_MODIFIERS_MASK\<close>, a macro of
  the private header. The result is the type (\<open>None\<close> is \<^verbatim>\<open>NULL\<close>), the modifiers left in
  \<^verbatim>\<open>*modifiers\<close> and the context.
\<close>

definition apply_type_modifiers ::
    "modifier set \<Rightarrow> hlsl_parse_ctx \<Rightarrow> hlsl_type \<Rightarrow> modifier set \<Rightarrow> source_location
       \<Rightarrow> hlsl_type option \<times> modifier set \<times> hlsl_parse_ctx" where
  "apply_type_modifiers HLSL_TYPE_MODIFIERS_MASK ctx type mods location =
     (let default_majority =
            (if mods \<inter> HLSL_MODIFIERS_MAJORITY_MASK = {}
                \<and> modifiers type \<inter> HLSL_MODIFIERS_MAJORITY_MASK = {}
                \<and> tclass type = HLSL_CLASS_MATRIX
             then (if matrix_majority ctx = HLSL_COLUMN_MAJOR
                   then {HLSL_MODIFIER_COLUMN_MAJOR} else {HLSL_MODIFIER_ROW_MAJOR})
             else {})
      in if default_majority = {} \<and> mods \<inter> HLSL_TYPE_MODIFIERS_MASK = {}
         then (Some type, mods, ctx)
         else (case clone_hlsl_type (heap ctx) type default_majority of
                 (None, h) \<Rightarrow> (None, mods, ctx\<lparr>heap := h\<rparr>)
               | (Some new_type, h) \<Rightarrow>
                   (let (m, ctx1) = add_modifiers (ctx\<lparr>heap := h\<rparr>) (modifiers new_type) mods location;
                        new_type1 = set_modifiers m new_type;
                        new_type2 =
                          (if tclass new_type1 = HLSL_CLASS_MATRIX
                           then set_reg_size (if is_row_major new_type1 then dimy new_type1
                                              else dimx new_type1) new_type1
                           else new_type1)
                    in (Some new_type2, mods - HLSL_TYPE_MODIFIERS_MASK, ctx1))))"

text \<open>
  The modifier keywords of a declaration, as the rule \<^verbatim>\<open>var_modifiers\<close> folds them: the
  rule is right recursive, so the last keyword is added first.
\<close>

fun var_modifiers ::
    "hlsl_parse_ctx \<Rightarrow> (modifier \<times> source_location) list \<Rightarrow> modifier set \<times> hlsl_parse_ctx" where
  "var_modifiers ctx [] = ({}, ctx)"
| "var_modifiers ctx ((keyword, location) # rest) =
     (let (mods, ctx1) = var_modifiers ctx rest
      in add_modifiers ctx1 mods {keyword} location)"

section \<open>Swizzles\<close>

datatype crash = Null_dereference | Assertion_failed

text \<open>
  \<^verbatim>\<open>new_swizzle\<close>. \<open>Inl\<close> is the read through the \<^verbatim>\<open>NULL\<close> type of a value without
  one; the type returned by \<^verbatim>\<open>new_hlsl_type\<close> is stored unchecked.
\<close>

definition new_swizzle ::
    "heap \<Rightarrow> 32 word \<Rightarrow> nat \<Rightarrow> hlsl_ir_node \<Rightarrow> source_location
       \<Rightarrow> crash + (hlsl_ir_node option \<times> heap)" where
  "new_swizzle h s components val location =
     (case d3dcompiler_alloc h of
        (None, h1) \<Rightarrow> Inr (None, h1)
      | (Some a, h1) \<Rightarrow>
          (case data_type (hdr val) of
             None \<Rightarrow> Inl Null_dereference
           | Some val_type \<Rightarrow>
               (let (t, h2) = new_hlsl_type h1 None HLSL_CLASS_VECTOR (base_type val_type)
                                components 1
                in Inr (Some (HLSL_IR_SWIZZLE
                                \<lparr>addr = a, index = 0, data_type = t, loc = location\<rparr>
                                (addr (hdr val)) s), h2))))"

text \<open>
  The search of a character in one of the two component sets, the innermost loop of
  \<^verbatim>\<open>get_swizzle\<close>: the position of the first match, or the length of the set (4).
\<close>

fun component_of :: "string \<Rightarrow> char \<Rightarrow> nat" where
  "component_of [] ch = 0"
| "component_of (x # xs) ch = (if ch = x then 0 else Suc (component_of xs ch))"

datatype scan_result =
    Scan_invalid "32 word"
  | Scan_null
  | Scan_done "32 word" nat

text \<open>
  The loop over the characters of a vector swizzle for one component set: it ends with
  \<^verbatim>\<open>valid = FALSE\<close> on a character outside the set, with \<^verbatim>\<open>return NULL\<close> on a component
  the value does not have, or at the end of the string. \<^verbatim>\<open>swiz\<close> is not reset between the
  two sets.
\<close>

fun scan_vector :: "string \<Rightarrow> nat \<Rightarrow> string \<Rightarrow> 32 word \<Rightarrow> nat \<Rightarrow> scan_result" where
  "scan_vector cset dx [] swiz component = Scan_done swiz component"
| "scan_vector cset dx (ch # rest) swiz component =
     (let s = component_of cset ch
      in if s = 4 then Scan_invalid swiz
         else if s \<ge> dx then Scan_null
         else scan_vector cset dx rest
                (swiz OR push_bit (component * 2) (of_nat s)) (component + 1))"

text \<open>
  The difference of two characters converted to \<^verbatim>\<open>unsigned int\<close>. Characters are read as
  their byte value; identifiers hold no byte above 127, where a signed \<^verbatim>\<open>char\<close> would
  differ.
\<close>

definition char_diff :: "char \<Rightarrow> char \<Rightarrow> nat" where
  "char_diff a b = nat ((int (of_char a :: nat) - int (of_char b :: nat)) mod 4294967296)"

text \<open>
  The loop over the groups of a matrix swizzle, \<^verbatim>\<open>_mRC\<close> when \<open>m_swizzle\<close> and \<^verbatim>\<open>_RC\<close>
  otherwise. The length check before the loop leaves only whole groups.
\<close>

fun scan_matrix ::
    "bool \<Rightarrow> nat \<Rightarrow> nat \<Rightarrow> string \<Rightarrow> 32 word \<Rightarrow> nat \<Rightarrow> (32 word \<times> nat) option" where
  "scan_matrix m_swizzle dx dy [] swiz component = Some (swiz, component)"
| "scan_matrix True dx dy (c0 # c1 # c2 # c3 # rest) swiz component =
     (if c0 \<noteq> CHR ''_'' then None
      else if c1 \<noteq> CHR ''m'' then None
      else (let x = char_diff c2 CHR ''0''; y = char_diff c3 CHR ''0''
            in if x \<ge> dx \<or> y \<ge> dy then None
               else scan_matrix True dx dy rest
                      (swiz OR push_bit (component * 8) (push_bit 4 (of_nat y) OR of_nat x))
                      (component + 1)))"
| "scan_matrix False dx dy (c0 # c1 # c2 # rest) swiz component =
     (if c0 \<noteq> CHR ''_'' then None
      else (let x = char_diff c1 CHR ''1''; y = char_diff c2 CHR ''1''
            in if x \<ge> dx \<or> y \<ge> dy then None
               else scan_matrix False dx dy rest
                      (swiz OR push_bit (component * 8) (push_bit 4 (of_nat y) OR of_nat x))
                      (component + 1)))"
| "scan_matrix m_swizzle dx dy rest swiz component = None"

text \<open>The character at a position of a C string; the terminator beyond its end.\<close>

definition char_at :: "string \<Rightarrow> nat \<Rightarrow> char" where
  "char_at s i = (if i < length s then s ! i else CHR 0x00)"

text \<open>\<^verbatim>\<open>get_swizzle\<close>. \<open>Inr (None, h)\<close> is \<^verbatim>\<open>return NULL\<close>.\<close>

definition get_swizzle ::
    "heap \<Rightarrow> hlsl_ir_node \<Rightarrow> string \<Rightarrow> source_location
       \<Rightarrow> crash + (hlsl_ir_node option \<times> heap)" where
  "get_swizzle h val swizzle location =
     (case data_type (hdr val) of
        None \<Rightarrow> Inl Null_dereference
      | Some val_type \<Rightarrow>
          (let len = length swizzle
           in if tclass val_type = HLSL_CLASS_MATRIX then
                (if len < 3 \<or> char_at swizzle 0 \<noteq> CHR ''_'' then Inr (None, h)
                 else (let m_swizzle = (char_at swizzle 1 = CHR ''m'');
                           inc = (if m_swizzle then 4 else 3)
                       in if len mod inc \<noteq> 0 \<or> len > inc * 4 then Inr (None, h)
                          else (case scan_matrix m_swizzle (dimx val_type) (dimy val_type)
                                       swizzle 0 0 of
                                  None \<Rightarrow> Inr (None, h)
                                | Some (swiz, component) \<Rightarrow>
                                    new_swizzle h swiz component val location)))
              else if len > 4 then Inr (None, h)
              else (case scan_vector ''xyzw'' (dimx val_type) swizzle 0 0 of
                      Scan_null \<Rightarrow> Inr (None, h)
                    | Scan_done swiz component \<Rightarrow> new_swizzle h swiz component val location
                    | Scan_invalid swiz \<Rightarrow>
                        (case scan_vector ''rgba'' (dimx val_type) swizzle swiz 0 of
                           Scan_null \<Rightarrow> Inr (None, h)
                         | Scan_done swiz1 component \<Rightarrow>
                             new_swizzle h swiz1 component val location
                         | Scan_invalid swiz1 \<Rightarrow> Inr (None, h)))))"

section \<open>Loops\<close>

text \<open>
  Modelled from the spec: \<^verbatim>\<open>new_unary_expr\<close> of the private header builds the expression
  node of a unary operator over its operand (here the negation of the condition). It
  allocates one node; the type given to the node is that of the operand.
\<close>

definition new_unary_expr ::
    "heap \<Rightarrow> hlsl_ir_expr_op \<Rightarrow> hlsl_ir_node \<Rightarrow> source_location
       \<Rightarrow> hlsl_ir_node option \<times> heap" where
  "new_unary_expr h oper operand location =
     (case d3dcompiler_alloc h of
        (None, h1) \<Rightarrow> (None, h1)
      | (Some a, h1) \<Rightarrow>
          (Some (HLSL_IR_EXPR
                   \<lparr>addr = a, index = 0, data_type = data_type (hdr operand), loc = location\<rparr>
                   oper (addr (hdr operand)) None None), h1))"

text \<open>
  \<^verbatim>\<open>append_conditional_break\<close>. The result is the condition list as the function leaves it
  when it returns \<^verbatim>\<open>TRUE\<close>, and \<open>None\<close> when it returns \<^verbatim>\<open>FALSE\<close> (the caller then frees
  the list). \<^verbatim>\<open>node_from_list\<close> is the last node of a list. The four allocations are the
  negation, the \<^verbatim>\<open>if\<close>, its list of instructions and the jump.
\<close>

definition append_conditional_break ::
    "heap \<Rightarrow> hlsl_ir_node list \<Rightarrow> hlsl_ir_node list option \<times> heap" where
  "append_conditional_break h cond_list =
     (if cond_list = [] then (Some cond_list, h)
      else (let condition = last cond_list
            in case new_unary_expr h HLSL_IR_UNOP_LOGIC_NOT condition (loc (hdr condition)) of
                 (None, h1) \<Rightarrow> (None, h1)
               | (Some not_expr, h1) \<Rightarrow>
                   (case d3dcompiler_alloc h1 of
                      (None, h2) \<Rightarrow> (None, h2)
                    | (Some if_node, h2) \<Rightarrow>
                        (case d3dcompiler_alloc h2 of
                           (None, h3) \<Rightarrow> (None, h3)
                         | (Some then_instrs, h3) \<Rightarrow>
                             (case d3dcompiler_alloc h3 of
                                (None, h4) \<Rightarrow> (None, h4)
                              | (Some jump, h4) \<Rightarrow>
                                  (Some (cond_list @
                                     [not_expr,
                                      HLSL_IR_IF (new_hdr if_node) (addr (hdr not_expr))
                                        [HLSL_IR_JUMP (new_hdr jump) HLSL_IR_JUMP_BREAK None]
                                        None]), h4))))))"

datatype loop_type = LOOP_FOR | LOOP_WHILE | LOOP_DO_WHILE

text \<open>
  \<^verbatim>\<open>create_loop\<close>. \<open>init\<close> and \<open>iter\<close> may be \<^verbatim>\<open>NULL\<close> (\<open>None\<close>). The result is the new
  list, or \<open>None\<close> for the \<^verbatim>\<open>NULL\<close> of the \<^verbatim>\<open>oom\<close> exit. The three allocations are the
  list, the loop node and the list of its body.
\<close>

definition create_loop ::
    "heap \<Rightarrow> loop_type \<Rightarrow> hlsl_ir_node list option \<Rightarrow> hlsl_ir_node list
       \<Rightarrow> hlsl_ir_node list option \<Rightarrow> hlsl_ir_node list \<Rightarrow> source_location
       \<Rightarrow> hlsl_ir_node list option \<times> heap" where
  "create_loop h type init cond iter loop_instrs location =
     (case d3dcompiler_alloc h of
        (None, h1) \<Rightarrow> (None, h1)
      | (Some list, h1) \<Rightarrow>
          (case d3dcompiler_alloc h1 of
             (None, h2) \<Rightarrow> (None, h2)
           | (Some loop, h2) \<Rightarrow>
               (case d3dcompiler_alloc h2 of
                  (None, h3) \<Rightarrow> (None, h3)
                | (Some loop_list, h3) \<Rightarrow>
                    (case append_conditional_break h3 cond of
                       (None, h4) \<Rightarrow> (None, h4)
                     | (Some cond1, h4) \<Rightarrow>
                         (Some ((case init of None \<Rightarrow> [] | Some i \<Rightarrow> i) @
                            [HLSL_IR_LOOP ((new_hdr loop)\<lparr>loc := location\<rparr>)
                               ((if type \<noteq> LOOP_DO_WHILE then cond1 else []) @
                                loop_instrs @
                                (case iter of None \<Rightarrow> [] | Some it \<Rightarrow> it) @
                                (if type = LOOP_DO_WHILE then cond1 else []))
                               0]), h4)))))"

text \<open>Inputs for the examples: a read of variable \<open>k\<close> at address \<open>k\<close>, and a heap.\<close>

definition example_deref :: "nat \<Rightarrow> hlsl_ir_node" where
  "example_deref k = HLSL_IR_DEREF (new_hdr k) (HLSL_IR_DEREF_VAR k)"

definition example_heap :: heap where
  "example_heap = \<lparr>next_free = 100, allocations_left = 7\<rparr>"

text \<open>A value of type \<^verbatim>\<open>float4\<close>.\<close>

definition example_float4 :: hlsl_type where
  "example_float4 =
     Hlsl_type (Some ''float4'') HLSL_CLASS_VECTOR HLSL_TYPE_FLOAT 4 1 {} 1 No_elements"

definition example_value :: hlsl_ir_node where
  "example_value =
     HLSL_IR_DEREF \<lparr>addr = 7, index = 0, data_type = Some example_float4, loc = no_location\<rparr>
       (HLSL_IR_DEREF_VAR 0)"

section \<open>Array sizes\<close>

text \<open>The conversion of an \<^verbatim>\<open>int\<close> to \<^verbatim>\<open>unsigned int\<close>.\<close>

definition int_to_uint :: "int \<Rightarrow> nat" where
  "int_to_uint i = nat (i mod 4294967296)"

text \<open>
  \<^verbatim>\<open>evaluate_array_dimension\<close>. The conversions of a \<^verbatim>\<open>float\<close> and of a \<^verbatim>\<open>double\<close> to
  \<^verbatim>\<open>unsigned int\<close> are the first two arguments. \<open>Inl\<close> is the read through the \<^verbatim>\<open>NULL\<close>
  type of a node without one.
\<close>

definition evaluate_array_dimension ::
    "(c_float \<Rightarrow> nat) \<Rightarrow> (c_double \<Rightarrow> nat) \<Rightarrow> hlsl_ir_node \<Rightarrow> crash + nat" where
  "evaluate_array_dimension float_to_uint double_to_uint node =
     (case data_type (hdr node) of
        None \<Rightarrow> Inl Null_dereference
      | Some t \<Rightarrow>
          if tclass t \<noteq> HLSL_CLASS_SCALAR then Inr 0
          else (case node of
                  HLSL_IR_CONSTANT h v \<Rightarrow>
                    (case base_type t of
                       HLSL_TYPE_UINT \<Rightarrow> Inr (to_uint (value_u v))
                     | HLSL_TYPE_INT \<Rightarrow> Inr (int_to_uint (value_i v))
                     | HLSL_TYPE_FLOAT \<Rightarrow> Inr (to_uint (float_to_uint (value_f v)))
                     | HLSL_TYPE_DOUBLE \<Rightarrow> Inr (to_uint (double_to_uint (value_d v)))
                     | HLSL_TYPE_BOOL \<Rightarrow> Inr (int_to_uint (value_b v))
                     | _ \<Rightarrow> Inr 0)
                | _ \<Rightarrow> Inr 0))"

text \<open>
  The action of the rule \<^verbatim>\<open>array: '[' expr ']'\<close>. The result \<open>None\<close> is \<^verbatim>\<open>YYABORT\<close>.
  \<^verbatim>\<open>node_from_list\<close>, of the private header, is the last node of a list, and a null
  pointer for the empty list.
\<close>

definition array_rule ::
    "(c_float \<Rightarrow> nat) \<Rightarrow> (c_double \<Rightarrow> nat) \<Rightarrow> hlsl_parse_ctx \<Rightarrow> hlsl_ir_node list
       \<Rightarrow> source_location \<Rightarrow> crash + (nat option \<times> hlsl_parse_ctx)" where
  "array_rule float_to_uint double_to_uint ctx expr location =
     (if expr = [] then Inl Null_dereference
      else (case evaluate_array_dimension float_to_uint double_to_uint (last expr) of
              Inl c \<Rightarrow> Inl c
            | Inr array_sz \<Rightarrow>
                if array_sz = 0 then
                  Inr (None, hlsl_report_message ctx location HLSL_LEVEL_ERROR
                               ''array size is not a positive integer constant\<newline>'' [])
                else if array_sz > 65536 then
                  Inr (None, hlsl_report_message ctx location HLSL_LEVEL_ERROR
                               ''array size must be between 1 and 65536'' [])
                else Inr (Some array_sz, ctx)))"

section \<open>Declarations\<close>

datatype parse_assign_op =
    ASSIGN_OP_ASSIGN
  | ASSIGN_OP_ADD
  | ASSIGN_OP_SUB
  | ASSIGN_OP_MUL
  | ASSIGN_OP_DIV
  | ASSIGN_OP_MOD
  | ASSIGN_OP_LSHIFT
  | ASSIGN_OP_RSHIFT
  | ASSIGN_OP_AND
  | ASSIGN_OP_OR
  | ASSIGN_OP_XOR

text \<open>
  \<^verbatim>\<open>struct parse_initializer\<close>: the argument nodes (\<^verbatim>\<open>args_count\<close> is their number) and
  the instructions that compute them. \<^verbatim>\<open>struct parse_variable_def\<close>.
\<close>

record parse_initializer =
  init_args :: "hlsl_ir_node list"
  init_instrs :: "hlsl_ir_node list"

record parse_variable_def =
  def_loc :: source_location
  def_name :: string
  array_size :: nat
  def_semantic :: "string option"
  def_reg_reservation :: "reg_reservation option"
  initializer :: parse_initializer

text \<open>
  The functions of \<^verbatim>\<open>utils.c\<close> that the declaration code calls and of which the spec
  says too little to model them; they are arguments of the model. A result \<open>None\<close> is
  \<^verbatim>\<open>NULL\<close>. \<^verbatim>\<open>make_assignment\<close> may report diagnostics.
\<close>

record utils =
  new_array_type :: "hlsl_type \<Rightarrow> nat \<Rightarrow> hlsl_type option"
  components_count_type :: "hlsl_type \<Rightarrow> nat"
  new_var_deref :: "hlsl_parse_ctx \<Rightarrow> var_ptr \<Rightarrow> hlsl_ir_node option \<times> hlsl_parse_ctx"
  new_record_deref ::
    "hlsl_parse_ctx \<Rightarrow> hlsl_ir_node option \<Rightarrow> hlsl_struct_field
       \<Rightarrow> hlsl_ir_node option \<times> hlsl_parse_ctx"
  make_assignment ::
    "hlsl_parse_ctx \<Rightarrow> hlsl_ir_node \<Rightarrow> parse_assign_op \<Rightarrow> hlsl_ir_node
       \<Rightarrow> hlsl_ir_node option \<times> hlsl_parse_ctx"

text \<open>The quote characters of the message texts.\<close>

definition squote :: string where
  "squote = [CHR 0x27]"

definition dquote :: string where
  "dquote = [CHR 0x22]"

text \<open>\<^verbatim>\<open>check_invalid_matrix_modifiers\<close>.\<close>

definition check_invalid_matrix_modifiers ::
    "hlsl_parse_ctx \<Rightarrow> modifier set \<Rightarrow> source_location \<Rightarrow> hlsl_parse_ctx" where
  "check_invalid_matrix_modifiers ctx mods location =
     (if mods \<inter> HLSL_MODIFIERS_MAJORITY_MASK \<noteq> {} then
        hlsl_report_message ctx location HLSL_LEVEL_ERROR
          (squote @ ''row_major'' @ squote @ '' or '' @ squote @ ''column_major'' @ squote @
             '' modifiers are only allowed for matrices'') []
      else ctx)"

text \<open>
  Modelled from the spec: \<^verbatim>\<open>find_function\<close>, \<^verbatim>\<open>add_declaration\<close> and \<^verbatim>\<open>get_variable\<close> of
  \<^verbatim>\<open>utils.c\<close>. A function exists when the function table has its name. A declaration
  fails on a collision with the name of a prior variable of the same scope, and appends
  the variable to the scope otherwise; the scope is always \<^verbatim>\<open>hlsl_ctx.cur_scope\<close>. The
  lookup of a variable walks the scopes outwards.
\<close>

definition find_function :: "hlsl_parse_ctx \<Rightarrow> string \<Rightarrow> bool" where
  "find_function ctx name \<longleftrightarrow> ctx_functions ctx name \<noteq> None"

definition cur_scope :: "hlsl_parse_ctx \<Rightarrow> hlsl_scope" where
  "cur_scope ctx = (case local_scopes ctx of [] \<Rightarrow> globals ctx | s # outer \<Rightarrow> s)"

definition set_cur_scope :: "hlsl_scope \<Rightarrow> hlsl_parse_ctx \<Rightarrow> hlsl_parse_ctx" where
  "set_cur_scope s ctx =
     (case local_scopes ctx of
        [] \<Rightarrow> ctx\<lparr>globals := s\<rparr>
      | s0 # outer \<Rightarrow> ctx\<lparr>local_scopes := s # outer\<rparr>)"

definition find_var :: "hlsl_parse_ctx \<Rightarrow> var_ptr list \<Rightarrow> string \<Rightarrow> var_ptr option" where
  "find_var ctx vs name = find (\<lambda>v. vname (vars (store ctx) v) = name) vs"

definition add_declaration :: "hlsl_parse_ctx \<Rightarrow> var_ptr \<Rightarrow> bool \<Rightarrow> bool \<times> hlsl_parse_ctx" where
  "add_declaration ctx decl local_var =
     (case find_var ctx (scope_vars (cur_scope ctx)) (vname (vars (store ctx) decl)) of
        Some var \<Rightarrow> (False, ctx)
      | None \<Rightarrow>
          (True, set_cur_scope
                   ((cur_scope ctx)\<lparr>scope_vars := scope_vars (cur_scope ctx) @ [decl]\<rparr>) ctx))"

definition get_variable :: "hlsl_parse_ctx \<Rightarrow> string \<Rightarrow> var_ptr option" where
  "get_variable ctx name =
     find_var ctx (concat (map scope_vars (local_scopes ctx @ [globals ctx]))) name"

text \<open>
  \<^verbatim>\<open>declare_variable\<close>. \<open>Inl\<close> is the read through \<^verbatim>\<open>old\<close> when \<^verbatim>\<open>get_variable\<close> gives
  \<^verbatim>\<open>NULL\<close>.
\<close>

definition declare_variable ::
    "hlsl_parse_ctx \<Rightarrow> var_ptr \<Rightarrow> bool \<Rightarrow> crash + (bool \<times> hlsl_parse_ctx)" where
  "declare_variable ctx decl local_var =
     (let d = vars (store ctx) decl;
          ctx1 = (if tclass (vtype d) \<noteq> HLSL_CLASS_MATRIX
                  then check_invalid_matrix_modifiers ctx (vmodifiers d) (vloc d) else ctx);
          invalid = vmodifiers d \<inter> {HLSL_STORAGE_EXTERN, HLSL_STORAGE_SHARED,
                                     HLSL_STORAGE_GROUPSHARED, HLSL_STORAGE_UNIFORM};
          ctx2 = (if local_var \<and> invalid \<noteq> {}
                  then hlsl_report_message ctx1 (vloc d) HLSL_LEVEL_ERROR
                         (''modifier '' @ squote @ ''%s'' @ squote @ '' invalid for local variables'')
                         [Arg_modifiers invalid]
                  else ctx1)
      in if local_var \<and> semantic d \<noteq> None then
           Inr (False, hlsl_report_message ctx2 (vloc d) HLSL_LEVEL_ERROR
                         ''semantics are not allowed on local variables'' [])
         else if \<not> local_var \<and> find_function ctx2 (vname d) then
           Inr (False, hlsl_report_message ctx2 (vloc d) HLSL_LEVEL_ERROR
                         (''redefinition of '' @ squote @ ''%s'' @ squote) [Arg_string (vname d)])
         else (case add_declaration ctx2 decl local_var of
                 (True, ctx3) \<Rightarrow> Inr (True, ctx3)
               | (False, ctx3) \<Rightarrow>
                   (case get_variable ctx3 (vname d) of
                      None \<Rightarrow> Inl Null_dereference
                    | Some old \<Rightarrow>
                        Inr (False,
                          hlsl_report_message
                            (hlsl_report_message ctx3 (vloc d) HLSL_LEVEL_ERROR
                               (dquote @ ''%s'' @ dquote @ '' already declared'') [Arg_string (vname d)])
                            (vloc (vars (store ctx3) old)) HLSL_LEVEL_NOTE
                            (dquote @ ''%s'' @ dquote @ '' was previously declared here'')
                            [Arg_string (vname (vars (store ctx3) old))]))))"

text \<open>
  \<^verbatim>\<open>initializer_size\<close>: the loop over the arguments with the running \<^verbatim>\<open>count\<close>.
\<close>

fun initializer_size :: "utils \<Rightarrow> hlsl_ir_node list \<Rightarrow> nat \<Rightarrow> crash + nat" where
  "initializer_size U [] count = Inr count"
| "initializer_size U (arg # rest) count =
     (case data_type (hdr arg) of
        None \<Rightarrow> Inl Null_dereference
      | Some t \<Rightarrow> initializer_size U rest (to_uint (count + components_count_type U t)))"

fun set_loc :: "source_location \<Rightarrow> hlsl_ir_node \<Rightarrow> hlsl_ir_node" where
  "set_loc l node = set_hdr ((hdr node)\<lparr>loc := l\<rparr>) node"

text \<open>
  \<^verbatim>\<open>struct_var_initializer\<close>: first the loop over the fields of the structure, with the
  running index \<open>i\<close> into the arguments, then the function. A \<^verbatim>\<open>NULL\<close> from
  \<^verbatim>\<open>new_record_deref\<close> ends the loop; a \<^verbatim>\<open>NULL\<close> from \<^verbatim>\<open>make_assignment\<close> is linked
  into the list unchecked.
\<close>

fun struct_fields_loop ::
    "utils \<Rightarrow> var_ptr \<Rightarrow> hlsl_ir_node list \<Rightarrow> hlsl_struct_field list \<Rightarrow> nat
       \<Rightarrow> hlsl_ir_node list \<times> hlsl_parse_ctx
       \<Rightarrow> crash + (hlsl_ir_node list \<times> hlsl_parse_ctx)" where
  "struct_fields_loop U var as [] i (list, ctx) = Inr (list, ctx)"
| "struct_fields_loop U var as (field # flds) i (list, ctx) =
     (if i \<ge> length as then Inr (list, ctx)
      else (case data_type (hdr (as ! i)) of
              None \<Rightarrow> Inl Null_dereference
            | Some node_type \<Rightarrow>
                if components_count_type U (field_type field) = components_count_type U node_type
                then (let (var_deref, ctx1) = new_var_deref U ctx var;
                          (record_deref, ctx2) = new_record_deref U ctx1 var_deref field
                      in case record_deref of
                           None \<Rightarrow> Inr (list, ctx2)
                         | Some deref \<Rightarrow>
                             (let deref1 = set_loc (loc (hdr (as ! i))) deref
                              in case make_assignment U ctx2 deref1 ASSIGN_OP_ASSIGN (as ! i) of
                                   (None, ctx3) \<Rightarrow> Inl Null_dereference
                                 | (Some assignment, ctx3) \<Rightarrow>
                                     struct_fields_loop U var as flds (i + 1)
                                       (list @ [deref1, assignment], ctx3)))
                else struct_fields_loop U var as flds (i + 1) (list, ctx)))"

definition struct_var_initializer ::
    "utils \<Rightarrow> hlsl_parse_ctx \<Rightarrow> hlsl_ir_node list \<Rightarrow> var_ptr \<Rightarrow> parse_initializer
       \<Rightarrow> crash + (hlsl_ir_node list \<times> hlsl_parse_ctx)" where
  "struct_var_initializer U ctx list var init =
     (let type = vtype (vars (store ctx) var)
      in case initializer_size U (init_args init) 0 of
           Inl c \<Rightarrow> Inl c
         | Inr sz \<Rightarrow>
             if sz \<noteq> components_count_type U type then
               Inr (list, hlsl_report_message ctx (vloc (vars (store ctx) var)) HLSL_LEVEL_ERROR
                            ''structure initializer mismatch'' [])
             else (case e type of
                     Elements flds \<Rightarrow>
                       struct_fields_loop U var (init_args init) flds 0
                         (list @ init_instrs init, ctx)
                   | _ \<Rightarrow> Inl Null_dereference))"

text \<open>
  The body of the loop of \<^verbatim>\<open>declare_vars\<close> for one \<^verbatim>\<open>parse_variable_def\<close>, in two parts.
  \<open>new_var\<close> is the stores into the variable just allocated at \<open>var\<close>, with the storage
  \<^verbatim>\<open>uniform\<close> added at global scope. \<open>declare_var\<close> is the whole body: the state of the loop
  is the context, the statement list and the flag \<^verbatim>\<open>local\<close>, and each \<^verbatim>\<open>continue\<close> returns
  it. A variable that is freed again stays in the store, where nothing refers to it. The
  \<^verbatim>\<open>FIXME\<close> traces are not diagnostics and leave no mark.
\<close>

definition new_var ::
    "hlsl_parse_ctx \<Rightarrow> var_ptr \<Rightarrow> hlsl_type \<Rightarrow> modifier set \<Rightarrow> parse_variable_def
       \<Rightarrow> hlsl_parse_ctx" where
  "new_var ctx var type mods v =
     ctx\<lparr>store := (store ctx)\<lparr>vars := (vars (store ctx))
        (var := \<lparr>vname = def_name v, vtype = type, vloc = def_loc v,
                 vmodifiers = (if local_scopes ctx = [] then mods \<union> {HLSL_STORAGE_UNIFORM}
                               else mods),
                 semantic = def_semantic v, var_reg_reservation = def_reg_reservation v,
                 first_write = 0, last_read = 0\<rparr>)\<rparr>\<rparr>"

definition declare_var ::
    "utils \<Rightarrow> hlsl_type \<Rightarrow> modifier set \<Rightarrow> hlsl_parse_ctx \<times> hlsl_ir_node list \<times> bool
       \<Rightarrow> parse_variable_def \<Rightarrow> crash + (hlsl_parse_ctx \<times> hlsl_ir_node list \<times> bool)" where
  "declare_var U basic_type mods state v =
     (case state of (ctx, statements_list, local_in) \<Rightarrow>
      (case d3dcompiler_alloc (heap ctx) of
         (None, h) \<Rightarrow> Inr (ctx\<lparr>heap := h\<rparr>, statements_list, local_in)
       | (Some var, h) \<Rightarrow>
           (case (if array_size v \<noteq> 0 then new_array_type U basic_type (array_size v)
                  else Some basic_type) of
              None \<Rightarrow> Inl Null_dereference
            | Some type \<Rightarrow>
                (let ctx1 = new_var (ctx\<lparr>heap := h\<rparr>) var type mods v;
                     local_var = (if local_scopes ctx = [] then False else local_in);
                     as = init_args (initializer v)
                 in if HLSL_MODIFIER_CONST \<in> modifiers type
                       \<and> HLSL_STORAGE_UNIFORM \<notin> vmodifiers (vars (store ctx1) var)
                       \<and> as = [] then
                      Inr (hlsl_report_message ctx1 (def_loc v) HLSL_LEVEL_ERROR
                             ''const variable without initializer'' [],
                           statements_list, local_var)
                    else (case declare_variable ctx1 var local_var of
                            Inl c \<Rightarrow> Inl c
                          | Inr (False, ctx2) \<Rightarrow> Inr (ctx2, statements_list, local_var)
                          | Inr (True, ctx2) \<Rightarrow>
                              if as = [] then Inr (ctx2, statements_list, local_var)
                              else (case initializer_size U as 0 of
                                      Inl c \<Rightarrow> Inl c
                                    | Inr sz \<Rightarrow>
     if le_LAST_NUMERIC (tclass type) \<and> to_uint (dimx type * dimy type) \<noteq> sz \<and> sz \<noteq> 1
        \<and> sz < to_uint (dimx type * dimy type) then
       Inr (hlsl_report_message ctx2 (def_loc v) HLSL_LEVEL_ERROR
              (squote @ ''%s'' @ squote @ '' initializer does not match'')
              [Arg_string (def_name v)],
            statements_list, local_var)
     else if (tclass type = HLSL_CLASS_STRUCT \<or> tclass type = HLSL_CLASS_ARRAY)
             \<and> components_count_type U type \<noteq> sz then
       Inr (hlsl_report_message ctx2 (def_loc v) HLSL_LEVEL_ERROR
              (squote @ ''%s'' @ squote @ '' initializer does not match'')
              [Arg_string (def_name v)],
            statements_list, local_var)
     else if tclass type = HLSL_CLASS_STRUCT then
       (case struct_var_initializer U ctx2 statements_list var (initializer v) of
          Inl c \<Rightarrow> Inl c
        | Inr (list, ctx3) \<Rightarrow> Inr (ctx3, list, local_var))
     else if \<not> le_LAST_NUMERIC (tclass type) then Inr (ctx2, statements_list, local_var)
     else if array_size v > 0 then Inr (ctx2, statements_list, local_var)
     else if length as > 1 then Inr (ctx2, statements_list, local_var)
     else (case new_var_deref U ctx2 var of
             (None, ctx3) \<Rightarrow> Inl Null_dereference
           | (Some deref, ctx3) \<Rightarrow>
               (case make_assignment U ctx3 deref ASSIGN_OP_ASSIGN (hd as) of
                  (None, ctx4) \<Rightarrow> Inl Null_dereference
                | (Some assignment, ctx4) \<Rightarrow>
                    Inr (ctx4,
                         statements_list @ init_instrs (initializer v) @ [deref, assignment],
                         local_var)))))))))"

text \<open>
  \<^verbatim>\<open>declare_vars\<close>: the loop, then the function. The statement list is allocated in the
  declaration, before the assertion on the majority of a matrix type. The result \<open>None\<close> is
  the \<^verbatim>\<open>NULL\<close> returned on exhausted memory; \<open>var_list = None\<close> is a \<^verbatim>\<open>NULL\<close> list.
\<close>

fun declare_vars_loop ::
    "utils \<Rightarrow> hlsl_type \<Rightarrow> modifier set \<Rightarrow> parse_variable_def list
       \<Rightarrow> hlsl_parse_ctx \<times> hlsl_ir_node list \<times> bool
       \<Rightarrow> crash + (hlsl_parse_ctx \<times> hlsl_ir_node list \<times> bool)" where
  "declare_vars_loop U basic_type mods [] state = Inr state"
| "declare_vars_loop U basic_type mods (v # rest) state =
     (case declare_var U basic_type mods state v of
        Inl c \<Rightarrow> Inl c
      | Inr state1 \<Rightarrow> declare_vars_loop U basic_type mods rest state1)"

definition declare_vars ::
    "utils \<Rightarrow> hlsl_parse_ctx \<Rightarrow> hlsl_type \<Rightarrow> modifier set \<Rightarrow> parse_variable_def list option
       \<Rightarrow> crash + (hlsl_ir_node list option \<times> hlsl_parse_ctx)" where
  "declare_vars U ctx basic_type mods var_list =
     (case d3dcompiler_alloc (heap ctx) of
        (statements_list, h) \<Rightarrow>
          if tclass basic_type = HLSL_CLASS_MATRIX
             \<and> modifiers basic_type \<inter> HLSL_MODIFIERS_MAJORITY_MASK = {}
          then Inl Assertion_failed
          else (case statements_list of
                  None \<Rightarrow> Inr (None, ctx\<lparr>heap := h\<rparr>)
                | Some a \<Rightarrow>
                    (case var_list of
                       None \<Rightarrow> Inr (Some [], ctx\<lparr>heap := h\<rparr>)
                     | Some vs \<Rightarrow>
                         (case declare_vars_loop U basic_type mods vs (ctx\<lparr>heap := h\<rparr>, [], True) of
                            Inl c \<Rightarrow> Inl c
                          | Inr (ctx1, statements, local_var) \<Rightarrow> Inr (Some statements, ctx1)))))"

section \<open>The entry point\<close>

text \<open>\<^verbatim>\<open>get_func_entry\<close>: the first overload of the function of that name.\<close>

definition get_func_entry :: "hlsl_parse_ctx \<Rightarrow> string \<Rightarrow> hlsl_ir_function_decl option" where
  "get_func_entry ctx name =
     (case ctx_functions ctx name of
        Some (decl # overloads) \<Rightarrow> Some decl
      | _ \<Rightarrow> None)"

text \<open>
  \<^verbatim>\<open>hlsl_message\<close>. Modelled from the spec: \<^verbatim>\<open>compilation_message\<close> of \<^verbatim>\<open>utils.c\<close>, which
  appends the formatted line to the diagnostics buffer.
\<close>

definition hlsl_message :: "hlsl_parse_ctx \<Rightarrow> string \<Rightarrow> format_arg list \<Rightarrow> hlsl_parse_ctx" where
  "hlsl_message ctx fmt fmt_args = ctx\<lparr>messages := messages ctx @ [Plain fmt fmt_args]\<rparr>"

datatype shader_type = ST_VERTEX | ST_PIXEL

typedecl bwriter_shader

text \<open>
  The head of \<^verbatim>\<open>parse_hlsl\<close>, up to \<^verbatim>\<open>push_scope\<close>: the context the parser starts in,
  given the memory and the store at the call. The name of the first source file and the
  table of source files are allocated; the table stays \<^verbatim>\<open>NULL\<close> when that fails.
\<close>

definition parse_hlsl_init :: "heap \<Rightarrow> ir_store \<Rightarrow> hlsl_parse_ctx" where
  "parse_hlsl_init h st =
     (case d3dcompiler_alloc h of
        (source_file, h1) \<Rightarrow>
          (case d3dcompiler_alloc h1 of
             (files, h2) \<Rightarrow>
               \<lparr>status = PARSE_SUCCESS, messages = [],
                source_files = (case files of None \<Rightarrow> None | Some a \<Rightarrow> Some [[]]),
                matrix_majority = HLSL_COLUMN_MAJOR, local_scopes = [],
                globals = \<lparr>scope_vars = [], scope_types = []\<rparr>,
                ctx_functions = (\<lambda>name. None), store = st, heap = h2\<rparr>))"

text \<open>
  \<^verbatim>\<open>parse_hlsl\<close>. The first argument stands for \<^verbatim>\<open>declare_predefined_types\<close> followed by the
  generated parser \<^verbatim>\<open>hlsl_parse\<close> running over the input of the lexer; it returns the
  context it leaves, or the crash of one of its actions. The memory and the store the call
  starts with are the next two arguments; \<open>want_messages\<close> is \<^verbatim>\<open>messages != NULL\<close>.

  The result is the returned pointer, \<open>None\<close> for \<^verbatim>\<open>NULL\<close>, and what \<^verbatim>\<open>*messages\<close> points
  to on return: the pointer to the buffer is stored before the entry point is looked up,
  and a line written afterwards lands in the same buffer. The table of source files is
  read at index 0 when it is freed, also when its allocation failed. A prototype as
  entry function has no body to walk. The final release of the functions, scopes and
  types changes nothing the caller can reach.
\<close>

definition parse_hlsl ::
    "(hlsl_parse_ctx \<Rightarrow> crash + hlsl_parse_ctx) \<Rightarrow> heap \<Rightarrow> ir_store
       \<Rightarrow> shader_type \<Rightarrow> nat \<Rightarrow> nat \<Rightarrow> string \<Rightarrow> bool
       \<Rightarrow> crash + (bwriter_shader option \<times> message list option)" where
  "parse_hlsl hlsl_parse h st type major minor entrypoint want_messages =
     (case hlsl_parse (parse_hlsl_init h st) of
        Inl c \<Rightarrow> Inl c
      | Inr ctx \<Rightarrow>
          (let set_messages = (want_messages \<and> messages ctx \<noteq> [])
           in case source_files ctx of
                None \<Rightarrow> Inl Null_dereference
              | Some names \<Rightarrow>
                  if status ctx = PARSE_ERR then
                    Inr (None, if set_messages then Some (messages ctx) else None)
                  else (case get_func_entry ctx entrypoint of
                          None \<Rightarrow>
                            Inr (None,
                                 if set_messages
                                 then Some (messages
                                        (hlsl_message ctx ''error: entry point %s is not defined\<newline>''
                                           [Arg_string entrypoint]))
                                 else None)
                        | Some entry_func \<Rightarrow>
                            (case func_body entry_func of
                               None \<Rightarrow> Inl Null_dereference
                             | Some entry_body \<Rightarrow>
                                 (case compute_liveness (scope_vars (globals ctx))
                                         (parameters entry_func)
                                         (fst (index_instructions entry_body 2)) (store ctx) of
                                    None \<Rightarrow> Inl Assertion_failed
                                  | Some st1 \<Rightarrow>
                                      Inr (None,
                                           if set_messages then Some (messages ctx)
                                           else None))))))"

section \<open>Typedefs\<close>

text \<open>
  Modelled from the spec: \<^verbatim>\<open>get_type\<close> of \<^verbatim>\<open>utils.c\<close>, here without recursion into the
  enclosing scopes: the type of that name in the type map of the scope.
\<close>

definition get_type :: "hlsl_scope \<Rightarrow> string option \<Rightarrow> hlsl_type option" where
  "get_type scope name =
     (case name of None \<Rightarrow> None | Some n \<Rightarrow> map_of (scope_types scope) n)"

text \<open>\<^verbatim>\<open>add_type_to_scope\<close>, on the current scope. A type without a name is not looked up.\<close>

definition add_type_to_scope :: "hlsl_parse_ctx \<Rightarrow> hlsl_type \<Rightarrow> bool \<times> hlsl_parse_ctx" where
  "add_type_to_scope ctx def =
     (if get_type (cur_scope ctx) (tname def) \<noteq> None then (False, ctx)
      else (True,
            set_cur_scope
              ((cur_scope ctx)\<lparr>scope_types :=
                  (case tname def of
                     None \<Rightarrow> scope_types (cur_scope ctx)
                   | Some n \<Rightarrow> scope_types (cur_scope ctx) @ [(n, def)])\<rparr>) ctx))"

fun set_name :: "string option \<Rightarrow> hlsl_type \<Rightarrow> hlsl_type" where
  "set_name n (Hlsl_type _ c b x y m r el) = Hlsl_type n c b x y m r el"

text \<open>
  \<^verbatim>\<open>add_typedef\<close>: the loop over the declared names. The result \<open>False\<close> is the return on
  exhausted memory.
\<close>

fun add_typedef ::
    "utils \<Rightarrow> hlsl_parse_ctx \<Rightarrow> modifier set \<Rightarrow> hlsl_type \<Rightarrow> parse_variable_def list
       \<Rightarrow> bool \<times> hlsl_parse_ctx" where
  "add_typedef U ctx mods orig_type [] = (True, ctx)"
| "add_typedef U ctx mods orig_type (v # rest) =
     (case (if array_size v \<noteq> 0
            then (new_array_type U orig_type (array_size v), heap ctx)
            else clone_hlsl_type (heap ctx) orig_type {}) of
        (None, h) \<Rightarrow> (False, ctx\<lparr>heap := h\<rparr>)
      | (Some cloned, h) \<Rightarrow>
          (let type = set_modifiers (modifiers cloned \<union> mods) (set_name (Some (def_name v)) cloned);
               type1 = (if tclass type \<noteq> HLSL_CLASS_MATRIX then type
                        else set_reg_size (if is_row_major type then dimy type else dimx type)
                               type);
               ctx1 = (if tclass type \<noteq> HLSL_CLASS_MATRIX
                       then check_invalid_matrix_modifiers (ctx\<lparr>heap := h\<rparr>) (modifiers type)
                              (def_loc v)
                       else ctx\<lparr>heap := h\<rparr>);
               ctx2 = (if HLSL_MODIFIER_COLUMN_MAJOR \<in> modifiers type1
                          \<and> HLSL_MODIFIER_ROW_MAJOR \<in> modifiers type1
                       then hlsl_report_message ctx1 (def_loc v) HLSL_LEVEL_ERROR
                              ''more than one matrix majority keyword'' []
                       else ctx1)
           in case add_type_to_scope ctx2 type1 of
                (True, ctx3) \<Rightarrow> add_typedef U ctx3 mods orig_type rest
              | (False, ctx3) \<Rightarrow>
                  add_typedef U
                    (hlsl_report_message ctx3 (def_loc v) HLSL_LEVEL_ERROR
                       (''redefinition of custom type '' @ squote @ ''%s'' @ squote)
                       [Arg_string (def_name v)])
                    mods orig_type rest))"

text \<open>
  The action of the rule \<^verbatim>\<open>typedef\<close>, with \<^verbatim>\<open>HLSL_TYPE_MODIFIERS_MASK\<close> as first argument;
  the result \<open>False\<close> is \<^verbatim>\<open>YYABORT\<close>. The action of the rule \<^verbatim>\<open>declaration\<close>; the result
  \<open>None\<close> is \<^verbatim>\<open>YYABORT\<close>.
\<close>

definition typedef_rule ::
    "modifier set \<Rightarrow> utils \<Rightarrow> hlsl_parse_ctx \<Rightarrow> modifier set \<Rightarrow> hlsl_type
       \<Rightarrow> parse_variable_def list \<Rightarrow> source_location \<Rightarrow> bool \<times> hlsl_parse_ctx" where
  "typedef_rule HLSL_TYPE_MODIFIERS_MASK U ctx mods type specs location =
     (if mods - HLSL_TYPE_MODIFIERS_MASK \<noteq> {} then
        (False, hlsl_report_message ctx location HLSL_LEVEL_ERROR
                  ''modifier not allowed on typedefs'' [])
      else add_typedef U ctx mods type specs)"

definition declaration_rule ::
    "modifier set \<Rightarrow> utils \<Rightarrow> hlsl_parse_ctx \<Rightarrow> modifier set \<Rightarrow> hlsl_type
       \<Rightarrow> parse_variable_def list option \<Rightarrow> source_location
       \<Rightarrow> crash + (hlsl_ir_node list option option \<times> hlsl_parse_ctx)" where
  "declaration_rule HLSL_TYPE_MODIFIERS_MASK U ctx mods type defs location =
     (case apply_type_modifiers HLSL_TYPE_MODIFIERS_MASK ctx type mods location of
        (None, mods1, ctx1) \<Rightarrow> Inr (None, ctx1)
      | (Some type1, mods1, ctx1) \<Rightarrow>
          (case declare_vars U ctx1 type1 mods1 defs of
             Inl c \<Rightarrow> Inl c
           | Inr (statements, ctx2) \<Rightarrow> Inr (Some statements, ctx2)))"

section \<open>Examples of declarations\<close>

text \<open>
  Modelled from the spec: an instance of the functions of \<^verbatim>\<open>utils.c\<close> for the examples,
  which declare numeric variables only. A numeric type has as many components as the
  product of its dimensions; a dereference and an assignment are new nodes.
\<close>

definition example_new_deref ::
    "hlsl_parse_ctx \<Rightarrow> hlsl_type option \<Rightarrow> source_location \<Rightarrow> hlsl_deref
       \<Rightarrow> hlsl_ir_node option \<times> hlsl_parse_ctx" where
  "example_new_deref ctx t l src =
     (case d3dcompiler_alloc (heap ctx) of
        (None, h) \<Rightarrow> (None, ctx\<lparr>heap := h\<rparr>)
      | (Some a, h) \<Rightarrow>
          (Some (HLSL_IR_DEREF \<lparr>addr = a, index = 0, data_type = t, loc = l\<rparr> src),
           ctx\<lparr>heap := h\<rparr>))"

definition example_utils :: utils where
  "example_utils =
     \<lparr>new_array_type = (\<lambda>t n.
        Some (Hlsl_type None HLSL_CLASS_ARRAY (base_type t) 1 1 (modifiers t) 1 (Array_of t n))),
      components_count_type = (\<lambda>t.
        if le_LAST_NUMERIC (tclass t) then dimx t * dimy t else 0),
      new_var_deref = (\<lambda>ctx var.
        example_new_deref ctx (Some (vtype (vars (store ctx) var))) (vloc (vars (store ctx) var))
          (HLSL_IR_DEREF_VAR var)),
      new_record_deref = (\<lambda>ctx record field.
        case record of
          None \<Rightarrow> (None, ctx)
        | Some r \<Rightarrow>
            example_new_deref ctx (Some (field_type field)) (loc (hdr r))
              (HLSL_IR_DEREF_RECORD (addr (hdr r))
                 (case r of HLSL_IR_DEREF h src \<Rightarrow> Some src | _ \<Rightarrow> None) (field_name field))),
      make_assignment = (\<lambda>ctx lhs assign_op rhs.
        case lhs of
          HLSL_IR_DEREF h src \<Rightarrow>
            (case d3dcompiler_alloc (heap ctx) of
               (None, h1) \<Rightarrow> (None, ctx\<lparr>heap := h1\<rparr>)
             | (Some a, h1) \<Rightarrow>
                 (Some (HLSL_IR_ASSIGNMENT
                          \<lparr>addr = a, index = 0, data_type = data_type h, loc = loc h\<rparr>
                          src (addr (hdr rhs))),
                  ctx\<lparr>heap := h1\<rparr>))
        | _ \<Rightarrow> (None, ctx))\<rparr>"

text \<open>
  The context inside the body of a function, with one local scope, and the context at
  global scope.
\<close>

definition example_global_ctx :: hlsl_parse_ctx where
  "example_global_ctx =
     \<lparr>status = PARSE_SUCCESS, messages = [], source_files = Some [[]],
      matrix_majority = HLSL_COLUMN_MAJOR, local_scopes = [],
      globals = \<lparr>scope_vars = [], scope_types = []\<rparr>,
      ctx_functions = (\<lambda>name. None), store = example_store, heap = example_heap\<rparr>"

definition example_ctx :: hlsl_parse_ctx where
  "example_ctx = example_global_ctx\<lparr>local_scopes := [\<lparr>scope_vars = [], scope_types = []\<rparr>]\<rparr>"

definition example_def :: "string \<Rightarrow> hlsl_ir_node list \<Rightarrow> parse_variable_def" where
  "example_def name as =
     \<lparr>def_loc = no_location, def_name = name, array_size = 0, def_semantic = None,
      def_reg_reservation = None, initializer = \<lparr>init_args = as, init_instrs = as\<rparr>\<rparr>"

definition example_numeric :: "hlsl_type_class \<Rightarrow> nat \<Rightarrow> nat \<Rightarrow> modifier set \<Rightarrow> hlsl_type" where
  "example_numeric cls x y m =
     Hlsl_type None cls HLSL_TYPE_FLOAT x y m (if cls = HLSL_CLASS_MATRIX then x else 1)
       No_elements"

text \<open>
  A constant of the given type. The constants the rule \<^verbatim>\<open>primary_expr\<close> builds from an
  integer literal and from \<^verbatim>\<open>true\<close> or \<^verbatim>\<open>false\<close>: a scalar of base type \<^verbatim>\<open>int\<close> or \<^verbatim>\<open>bool\<close> with
  the value in \<^verbatim>\<open>value.i[0]\<close> or \<^verbatim>\<open>value.b[0]\<close>; the rest of the zero-filled node is 0.
\<close>

definition example_constant :: "nat \<Rightarrow> hlsl_type \<Rightarrow> hlsl_ir_node" where
  "example_constant a t =
     HLSL_IR_CONSTANT \<lparr>addr = a, index = 0, data_type = Some t, loc = no_location\<rparr>
       \<lparr>value_u = 0, value_i = 0, value_f = undefined, value_d = undefined, value_b = 0\<rparr>"

definition C_INTEGER :: "int \<Rightarrow> hlsl_ir_node" where
  "C_INTEGER i =
     HLSL_IR_CONSTANT
       \<lparr>addr = 1, index = 0,
        data_type = Some (Hlsl_type (Some ''int'') HLSL_CLASS_SCALAR HLSL_TYPE_INT 1 1 {} 1
                            No_elements),
        loc = no_location\<rparr>
       \<lparr>value_u = 0, value_i = i, value_f = undefined, value_d = undefined, value_b = 0\<rparr>"

definition boolean :: "bool \<Rightarrow> hlsl_ir_node" where
  "boolean b =
     HLSL_IR_CONSTANT
       \<lparr>addr = 1, index = 0,
        data_type = Some (Hlsl_type (Some ''bool'') HLSL_CLASS_SCALAR HLSL_TYPE_BOOL 1 1 {} 1
                            No_elements),
        loc = no_location\<rparr>
       \<lparr>value_u = 0, value_i = 0, value_f = undefined, value_d = undefined,
        value_b = (if b then 1 else 0)\<rparr>"

text \<open>
  The examples of array sizes hold no floating-point constant; the conversions they are
  run with are never applied.
\<close>

definition example_float_to_uint :: "c_float \<Rightarrow> nat" where
  "example_float_to_uint x = 0"

definition example_double_to_uint :: "c_double \<Rightarrow> nat" where
  "example_double_to_uint x = 0"

text \<open>
  The type \<^verbatim>\<open>cm\<close> of \<^verbatim>\<open>typedef const float4x4 cm;\<close> and the context after that typedef at
  global scope. The mask of the examples holds the qualifiers and the majorities.
\<close>

definition example_cm :: hlsl_type where
  "example_cm =
     Hlsl_type (Some ''cm'') HLSL_CLASS_MATRIX HLSL_TYPE_FLOAT 4 4 {HLSL_MODIFIER_CONST} 4
       No_elements"

definition example_cm_ctx :: hlsl_parse_ctx where
  "example_cm_ctx =
     example_global_ctx
       \<lparr>globals := \<lparr>scope_vars = [], scope_types = [(''cm'', example_cm)]\<rparr>,
        heap := \<lparr>next_free = 101, allocations_left = 6\<rparr>\<rparr>"

definition example_mask :: "modifier set" where
  "example_mask =
     {HLSL_MODIFIER_PRECISE, HLSL_MODIFIER_CONST, HLSL_MODIFIER_ROW_MAJOR,
      HLSL_MODIFIER_COLUMN_MAJOR}"

text \<open>
  A run of the parser that reports nothing and leaves one function, \<^verbatim>\<open>main\<close>, whose body is
  the example body.
\<close>

definition example_entry :: hlsl_ir_function_decl where
  "example_entry =
     \<lparr>return_type = example_type, func_loc = no_location, parameters = [],
      func_semantic = None, func_body = Some example_body\<rparr>"

definition example_parser :: "hlsl_parse_ctx \<Rightarrow> crash + hlsl_parse_ctx" where
  "example_parser ctx =
     Inr (ctx\<lparr>ctx_functions := (ctx_functions ctx)(''main'' \<mapsto> [example_entry])\<rparr>)"

section \<open>Properties\<close>

subsection \<open>Instruction indexing\<close>


lemma instrs_of_hd: "\<exists>ys. instrs_of x = x # ys"
  by (cases x) auto

lemma upt_app: "i \<le> j \<Longrightarrow> j \<le> k \<Longrightarrow> [i..<j] @ [j..<k] = [i..<(k::nat)]"
  by (metis le_Suc_ex upt_add_eq_append)

lemma node_index_simps [simp]:
  "node_index (HLSL_IR_IF h c t el) = index h"
  "node_index (HLSL_IR_LOOP h b n) = index h"
  "node_index (set_hdr h x) = index h"
  by (cases x; simp add: node_index_def)+

lemma upt_hd: "i < j \<Longrightarrow> i # [i + 1 ..< j] = [i ..< j]"
  by (simp add: upt_conv_Cons)

lemma upt_hd_app: "i < j \<Longrightarrow> j \<le> k \<Longrightarrow> i # [i + 1 ..< j] @ [j ..< k] = [i ..< k]"
  using upt_app[of i j k] upt_hd[of i j] by (metis append_Cons less_imp_le)

lemma index_range:
  "index_instr x i = (x', i') \<Longrightarrow> i + length (instrs_of x) < 4294967296 \<Longrightarrow>
     i' = i + length (instrs_of x) \<and> map node_index (instrs_of x') = [i ..< i']"
  "index_instructions xs i = (xs', i') \<Longrightarrow> i + length (traversal xs) < 4294967296 \<Longrightarrow>
     i' = i + length (traversal xs) \<and> map node_index (traversal xs') = [i ..< i']"
proof (induction x i and xs i arbitrary: x' i' and xs' i' rule: index_instr_index_instructions.induct)
  case (1 h c then_instrs else_instrs i)
  obtain t' i1 where t: "index_instructions then_instrs (to_uint (i + 1)) = (t', i1)"
    by fastforce
  have ui: "to_uint (i + 1) = i + 1" using "1.prems"(2) by (simp add: to_uint_def)
  have t_ok: "i1 = i + 1 + length (traversal then_instrs) \<and> map node_index (traversal t') = [i + 1 ..< i1]"
    using "1.IH"(1)[OF t] "1.prems"(2) ui by simp
  show ?case
  proof (cases else_instrs)
    case None
    have res: "x' = HLSL_IR_IF (h\<lparr>index := i\<rparr>) c t' None" "i' = i1"
      using "1.prems"(1) t None by auto
    have "map node_index (instrs_of x') = i # [i + 1 ..< i1]"
      using res t_ok by simp
    then show ?thesis using res t_ok None upt_hd[of i i1] by simp
  next
    case (Some es)
    obtain es' i2 where e: "index_instructions es i1 = (es', i2)" by fastforce
    have e_ok: "i2 = i1 + length (traversal es) \<and> map node_index (traversal es') = [i1 ..< i2]"
      using "1.IH"(2)[OF t[symmetric] refl Some e] "1.prems"(2) t_ok Some by simp
    have res: "x' = HLSL_IR_IF (h\<lparr>index := i\<rparr>) c t' (Some es')" "i' = i2"
      using "1.prems"(1) t e Some by auto
    have "map node_index (instrs_of x') = i # [i + 1 ..< i1] @ [i1 ..< i2]"
      using res t_ok e_ok by simp
    then show ?thesis using res t_ok e_ok Some upt_hd_app[of i i1 i2] by simp
  qed
next
  case (2 h body next_index i)
  obtain b' i1 where b: "index_instructions body (to_uint (i + 1)) = (b', i1)"
    by fastforce
  have ui: "to_uint (i + 1) = i + 1" using "2.prems"(2) by (simp add: to_uint_def)
  have b_ok: "i1 = i + 1 + length (traversal body) \<and> map node_index (traversal b') = [i + 1 ..< i1]"
    using "2.IH"[OF b] "2.prems"(2) ui by simp
  have res: "x' = HLSL_IR_LOOP (h\<lparr>index := i\<rparr>) b' i1" "i' = i1"
    using "2.prems"(1) b by auto
  have "map node_index (instrs_of x') = i # [i + 1 ..< i1]"
    using res b_ok by simp
  then show ?case using res b_ok upt_hd[of i i1] by simp
next
  case (5 instr instrs i)
  obtain x1 i1 where x: "index_instr instr i = (x1, i1)" by fastforce
  obtain xs1 i2 where xs: "index_instructions instrs i1 = (xs1, i2)" by fastforce
  have x_ok: "i1 = i + length (instrs_of instr) \<and> map node_index (instrs_of x1) = [i ..< i1]"
    using "5.IH"(1)[OF x] "5.prems"(2) by simp
  have xs_ok: "i2 = i1 + length (traversal instrs) \<and> map node_index (traversal xs1) = [i1 ..< i2]"
    using "5.IH"(2)[OF x[symmetric] refl xs] "5.prems"(2) x_ok by simp
  have "[i ..< i1] @ [i1 ..< i2] = [i ..< i2]"
    using x_ok xs_ok by (intro upt_app) auto
  then show ?case using "5.prems" x xs x_ok xs_ok by auto
qed (auto simp: to_uint_def upt_conv_Cons node_index_def)

lemma index_length:
  assumes "index_instructions xs i = (xs', i')" "i + length (traversal xs) < 4294967296"
  shows "length (traversal xs') = length (traversal xs)"
proof -
  have r: "i' = i + length (traversal xs)" "map node_index (traversal xs') = [i ..< i']"
    using index_range(2)[OF assms] by simp_all
  have "length (map node_index (traversal xs')) = length [i ..< i']"
    by (simp only: r(2))
  then show ?thesis using r(1) by simp
qed

lemma index_loops:
  "index_instr x i = (x', i') \<Longrightarrow> i + length (instrs_of x) < 4294967296 \<Longrightarrow>
     (\<forall>L \<in> set (instrs_of x'). loop_indexed L)"
  "index_instructions xs i = (xs', i') \<Longrightarrow> i + length (traversal xs) < 4294967296 \<Longrightarrow>
     (\<forall>L \<in> set (traversal xs'). loop_indexed L)"
proof (induction x i and xs i arbitrary: x' i' and xs' i' rule: index_instr_index_instructions.induct)
  case (1 h c then_instrs else_instrs i)
  obtain t' i1 where t: "index_instructions then_instrs (to_uint (i + 1)) = (t', i1)"
    by fastforce
  have ui: "to_uint (i + 1) = i + 1" using "1.prems"(2) by (simp add: to_uint_def)
  have t_rng: "i1 = i + 1 + length (traversal then_instrs)"
    using index_range(2)[OF t] "1.prems"(2) ui by simp
  have t_ok: "\<forall>L \<in> set (traversal t'). loop_indexed L"
    using "1.IH"(1)[OF t] "1.prems"(2) ui by simp
  show ?case
  proof (cases else_instrs)
    case None
    then show ?thesis using "1.prems"(1) t t_ok by (auto simp: loop_indexed_def)
  next
    case (Some es)
    obtain es' i2 where e: "index_instructions es i1 = (es', i2)" by fastforce
    have e_ok: "\<forall>L \<in> set (traversal es'). loop_indexed L"
      using "1.IH"(2)[OF t[symmetric] refl Some e] "1.prems"(2) t_rng Some by simp
    show ?thesis using "1.prems"(1) t e Some t_ok e_ok by (auto simp: loop_indexed_def)
  qed
next
  case (2 h body next_index i)
  obtain b' i1 where b: "index_instructions body (to_uint (i + 1)) = (b', i1)"
    by fastforce
  have ui: "to_uint (i + 1) = i + 1" using "2.prems"(2) by (simp add: to_uint_def)
  have bound: "i + 1 + length (traversal body) < 4294967296" using "2.prems"(2) by simp
  have b_rng: "i1 = i + 1 + length (traversal body) \<and> map node_index (traversal b') = [i + 1 ..< i1]"
    using index_range(2)[OF b] bound ui by simp
  have b_len: "length (traversal b') = length (traversal body)"
    using index_length[OF b] bound ui by simp
  have b_ok: "\<forall>L \<in> set (traversal b'). loop_indexed L"
    using "2.IH"[OF b] bound ui by simp
  have res: "x' = HLSL_IR_LOOP (h\<lparr>index := i\<rparr>) b' i1"
    using "2.prems"(1) b by auto
  have "loop_indexed x'" using res b_rng b_len by (simp add: loop_indexed_def)
  then show ?case using res b_ok by simp
next
  case (5 instr instrs i)
  obtain x1 i1 where x: "index_instr instr i = (x1, i1)" by fastforce
  obtain xs1 i2 where xs: "index_instructions instrs i1 = (xs1, i2)" by fastforce
  have x_rng: "i1 = i + length (instrs_of instr)"
    using index_range(1)[OF x] "5.prems"(2) by simp
  have x_ok: "\<forall>L \<in> set (instrs_of x1). loop_indexed L"
    using "5.IH"(1)[OF x] "5.prems"(2) by simp
  have xs_ok: "\<forall>L \<in> set (traversal xs1). loop_indexed L"
    using "5.IH"(2)[OF x[symmetric] refl xs] "5.prems"(2) x_rng by simp
  show ?case using "5.prems"(1) x xs x_ok xs_ok by auto
qed (auto simp: loop_indexed_def)


lemma example_indexed:
  "index_instructions example_body 2 =
     ([HLSL_IR_DEREF ((new_hdr 1)\<lparr>index := 2\<rparr>) (HLSL_IR_DEREF_VAR 0),
      HLSL_IR_LOOP ((new_hdr 2)\<lparr>index := 3\<rparr>)
        [HLSL_IR_DEREF ((new_hdr 3)\<lparr>index := 4\<rparr>) (HLSL_IR_DEREF_VAR 1),
         HLSL_IR_EXPR ((new_hdr 4)\<lparr>index := 5\<rparr>) HLSL_IR_UNOP_LOGIC_NOT 3 None None,
         HLSL_IR_IF ((new_hdr 5)\<lparr>index := 6\<rparr>) 4 [HLSL_IR_JUMP ((new_hdr 6)\<lparr>index := 7\<rparr>) HLSL_IR_JUMP_BREAK None] None] 8,
      HLSL_IR_JUMP ((new_hdr 7)\<lparr>index := 8\<rparr>) HLSL_IR_JUMP_RETURN (Some 1)], 9)"
  by (simp add: example_body_def to_uint_def)

text \<open>
  C1. Started at 2 on a function body whose instruction count fits an \<^verbatim>\<open>unsigned int\<close>,
  the indexer returns 2 plus the number of instructions and gives the instructions, in
  traversal order (descending into the branches of an \<^verbatim>\<open>if\<close> and into loop bodies),
  the indices 2, 3, 4, ...: they are unique and strictly increasing. Every loop node gets
  \<^verbatim>\<open>next_index\<close> = its own index + 1 + the number of instructions of its body; the body
  holds exactly the indices between the loop's index and \<^verbatim>\<open>next_index\<close>, all of them
  smaller than \<^verbatim>\<open>next_index\<close>, and the instruction that follows the loop in the
  traversal has index \<^verbatim>\<open>next_index\<close>.
\<close>

theorem index_instructions_unique_increasing:
  assumes run: "index_instructions body 2 = (body', n)"
    and fits: "2 + length (traversal body) < 4294967296"
  shows "n = 2 + length (traversal body) \<and>
         map node_index (traversal body') = [2 ..< n] \<and>
         distinct (map node_index (traversal body')) \<and>
         sorted_wrt (<) (map node_index (traversal body')) \<and>
         (\<forall>L \<in> set (traversal body'). \<forall>b. loop_body L = Some b \<longrightarrow>
            loop_next_index L = node_index L + 1 + length (traversal b) \<and>
            map node_index (traversal b) = [node_index L + 1 ..< loop_next_index L] \<and>
            (\<forall>x \<in> set (traversal b). node_index x < loop_next_index L)) \<and>
         (\<forall>pre L b y post. traversal body' = pre @ L # traversal b @ y # post \<and>
            loop_body L = Some b \<longrightarrow> node_index y = loop_next_index L)"
proof -
  have rng: "n = 2 + length (traversal body)" "map node_index (traversal body') = [2 ..< n]"
    using index_range(2)[OF run fits] by simp_all
  have loops: "\<forall>L \<in> set (traversal body'). loop_indexed L"
    using index_loops(2)[OF run fits] .
  have d: "distinct (map node_index (traversal body'))"
    by (simp only: rng(2) distinct_upt)
  have s: "sorted_wrt (<) (map node_index (traversal body'))"
    by (simp only: rng(2) sorted_wrt_upt)
  have l: "loop_next_index L = node_index L + 1 + length (traversal b) \<and>
           map node_index (traversal b) = [node_index L + 1 ..< loop_next_index L] \<and>
           (\<forall>x \<in> set (traversal b). node_index x < loop_next_index L)"
    if "L \<in> set (traversal body')" "loop_body L = Some b" for L b
  proof -
    have li: "loop_next_index L = node_index L + 1 + length (traversal b)"
      "map node_index (traversal b) = [node_index L + 1 ..< loop_next_index L]"
      using loops that by (auto simp: loop_indexed_def)
    have "node_index x < loop_next_index L" if "x \<in> set (traversal b)" for x
    proof -
      have "node_index x \<in> set (map node_index (traversal b))" using that by simp
      then show ?thesis by (simp only: li(2)) simp
    qed
    then show ?thesis using li by blast
  qed
  have nx: "node_index y = loop_next_index L"
    if dec: "traversal body' = pre @ L # traversal b @ y # post" and lb: "loop_body L = Some b"
    for pre L b y post
  proof -
    have "L \<in> set (traversal body')" using dec by simp
    then have li: "loop_next_index L = node_index L + 1 + length (traversal b)"
      using l lb by blast
    have m: "map node_index (pre @ L # traversal b @ y # post) = [2 ..< n]"
      using rng(2) dec by simp
    have "length (pre @ L # traversal b @ y # post) = n - 2"
      using arg_cong[OF m, of length] by simp
    then have len: "length pre + 1 + length (traversal b) < n - 2" by simp
    have "map node_index (pre @ L # traversal b @ y # post) ! (length pre) = node_index L"
      by (simp add: nth_append)
    then have iL: "node_index L = 2 + length pre"
      using len by (simp only: m) simp
    have "(pre @ L # traversal b @ y # post) ! (length pre + 1 + length (traversal b)) = y"
      by (simp add: nth_append)
    then have "map node_index (pre @ L # traversal b @ y # post) ! (length pre + 1 + length (traversal b)) = node_index y"
      using len by (simp add: nth_append)
    then have "node_index y = 2 + (length pre + 1 + length (traversal b))"
      using len by (simp only: m) simp
    then show ?thesis using li iL by simp
  qed
  show ?thesis using rng d s l nx by blast
qed

theorem index_instructions_unique_increasing_witness:
  "2 + length (traversal example_body) < 4294967296 \<and>
   snd (index_instructions example_body 2) = 9 \<and>
   map node_index (traversal (fst (index_instructions example_body 2))) = [2, 3, 4, 5, 6, 7, 8] \<and>
   (\<exists>L \<in> set (traversal (fst (index_instructions example_body 2))).
      loop_body L \<noteq> None \<and> node_index L = 3 \<and> loop_next_index L = 8)"
proof -
  have fits: "2 + length (traversal example_body) < 4294967296"
    by (simp add: example_body_def)
  have run: "index_instructions example_body 2 =
      (fst (index_instructions example_body 2), snd (index_instructions example_body 2))"
    by simp
  have len: "length (traversal example_body) = 7"
    by (simp add: example_body_def)
  note r = index_instructions_unique_increasing [OF run fits]
  have n: "snd (index_instructions example_body 2) = 9"
    using r len by simp
  have m: "map node_index (traversal (fst (index_instructions example_body 2))) = [2 ..< 9]"
    using r n by simp
  have "[2 ..< 9] = [2, 3, 4, 5, 6, 7, 8 :: nat]"
    by (simp add: upt_conv_Cons)
  moreover have "\<exists>L \<in> set (traversal (fst (index_instructions example_body 2))).
      loop_body L \<noteq> None \<and> node_index L = 3 \<and> loop_next_index L = 8"
    by (simp add: example_indexed new_hdr_def)
  ultimately show ?thesis using fits n m by simp
qed

subsection \<open>Liveness of variables read in loops\<close>

lemma reads_Nil [simp]: "reads [] = {}"
  by (simp add: reads_def)

lemma reads_Cons: "reads (x # xs) = reads [x] \<union> reads xs"
  by (auto simp: reads_def)

lemma reads_If [simp]:
  "reads [HLSL_IR_IF h c t el] = reads t \<union> (case el of None \<Rightarrow> {} | Some es \<Rightarrow> reads es)"
  by (auto simp: reads_def split: option.splits)

lemma reads_Loop [simp]: "reads [HLSL_IR_LOOP h b n] = reads b"
  by (auto simp: reads_def)

lemma reads_Deref [simp]: "reads [HLSL_IR_DEREF h d] = set_option (hlsl_var_from_deref d)"
  by (auto simp: reads_def)

lemma reads_other [simp]:
  "reads [HLSL_IR_ASSIGNMENT h l r] = {}"
  "reads [HLSL_IR_CONSTANT h v] = {}"
  "reads [HLSL_IR_CONSTRUCTOR h as] = {}"
  "reads [HLSL_IR_EXPR h oper a b c] = {}"
  "reads [HLSL_IR_JUMP h j rv] = {}"
  "reads [HLSL_IR_SWIZZLE h p s] = {}"
  by (simp_all add: reads_def)

lemma vars_set_node_last_read [simp]: "vars (set_node_last_read p i st) = vars st"
  by (simp add: set_node_last_read_def)

lemma vars_fold_set_node_last_read [simp]:
  "vars (fold (\<lambda>arg. set_node_last_read arg i) as st) = vars st"
  by (induction as arbitrary: st) simp_all

lemma last_read_set_first_write [simp]:
  "last_read (vars (set_first_write var i st) v) = last_read (vars st v)"
  by (simp add: set_first_write_def)

lemma last_read_set_last_read [simp]:
  "last_read (vars (set_last_read var i st) v) = (if v = var then i else last_read (vars st v))"
  by (simp add: set_last_read_def)

lemma liveness_frame:
  "compute_liveness_instr x lf ll st = Some st' \<Longrightarrow> v \<notin> reads [x] \<Longrightarrow>
     last_read (vars st' v) = last_read (vars st v)"
  "compute_liveness_recurse xs lf ll st = Some st' \<Longrightarrow> v \<notin> reads xs \<Longrightarrow>
     last_read (vars st' v) = last_read (vars st v)"
proof (induction x lf ll st and xs lf ll st arbitrary: st' and st'
    rule: compute_liveness_instr_compute_liveness_recurse.induct)
  case (1 h lhs rhs loop_first loop_last st)
  then show ?case by (cases "hlsl_var_from_deref lhs") (auto split: if_splits)
next
  case (2 h v loop_first loop_last st)
  then show ?case by simp
next
  case (3 h args loop_first loop_last st)
  then show ?case by auto
next
  case (4 h src loop_first loop_last st)
  then obtain var where var: "hlsl_var_from_deref src = Some var"
    by (cases "hlsl_var_from_deref src") auto
  with "4.prems" have "v \<noteq> var" by auto
  with "4.prems"(1) var show ?case by (cases src) (auto simp: Let_def)
next
  case (5 h oper operand0 operand1 operand2 loop_first loop_last st)
  then show ?case by (cases operand1; cases operand2) (auto simp: Let_def)
next
  case (6 h condition then_instrs else_instrs loop_first loop_last st)
  from "6.prems"(1) obtain st1 where
    s1: "compute_liveness_recurse then_instrs loop_first loop_last st = Some st1"
    by (cases "compute_liveness_recurse then_instrs loop_first loop_last st") auto
  have nt: "v \<notin> reads then_instrs" using "6.prems"(2) by simp
  have f1: "last_read (vars st1 v) = last_read (vars st v)"
    using "6.IH"(1)[OF s1 nt] .
  show ?case
  proof (cases else_instrs)
    case None
    then show ?thesis using "6.prems"(1) s1 f1 by auto
  next
    case (Some es)
    from "6.prems"(1) s1 Some obtain st2 where
      s2: "compute_liveness_recurse es loop_first loop_last st1 = Some st2"
      and r: "st' = set_node_last_read condition (index h) st2"
      by (cases "compute_liveness_recurse es loop_first loop_last st1") auto
    have ne: "v \<notin> reads es" using "6.prems"(2) Some by simp
    have "last_read (vars st2 v) = last_read (vars st1 v)"
      using "6.IH"(2)[OF s1 Some s2 ne] .
    then show ?thesis using r f1 by simp
  qed
next
  case (7 h jump_type return_value loop_first loop_last st)
  then show ?case by (cases return_value) (auto split: if_splits)
next
  case (8 h body next_index loop_first loop_last st)
  then show ?case by simp
next
  case (9 h val s loop_first loop_last st)
  then show ?case by auto
next
  case (10 loop_first loop_last st)
  then show ?case by simp
next
  case (11 instr instrs loop_first loop_last st)
  from "11.prems"(1) obtain st1 where
    s1: "compute_liveness_instr instr loop_first loop_last st = Some st1" and
    s2: "compute_liveness_recurse instrs loop_first loop_last st1 = Some st'"
    by (cases "compute_liveness_instr instr loop_first loop_last st") auto
  have nv: "v \<notin> reads [instr]" "v \<notin> reads instrs"
    using "11.prems"(2) reads_Cons[of instr instrs] by auto
  show ?case using "11.IH"(1)[OF s1 nv(1)] "11.IH"(2)[OF s1 s2 nv(2)] by simp
qed

lemma index_mono:
  "index_instr x i = (x', i') \<Longrightarrow> i + length (instrs_of x) < 4294967296 \<Longrightarrow> i < i'"
  "index_instructions xs i = (xs', i') \<Longrightarrow> i + length (traversal xs) < 4294967296 \<Longrightarrow> i \<le> i'"
  using index_range(1)[of x i x' i'] index_range(2)[of xs i xs' i'] instrs_of_hd[of x]
  by auto

lemma index_loops_bound:
  "index_instr x i = (x', i') \<Longrightarrow> i + length (instrs_of x) < 4294967296 \<Longrightarrow>
     (\<forall>L \<in> set (instrs_of x'). \<forall>b. loop_body L = Some b \<longrightarrow> loop_next_index L \<le> i')"
  "index_instructions xs i = (xs', i') \<Longrightarrow> i + length (traversal xs) < 4294967296 \<Longrightarrow>
     (\<forall>L \<in> set (traversal xs'). \<forall>b. loop_body L = Some b \<longrightarrow> loop_next_index L \<le> i')"
proof (induction x i and xs i arbitrary: x' i' and xs' i' rule: index_instr_index_instructions.induct)
  case (1 h c then_instrs else_instrs i)
  obtain t' i1 where t: "index_instructions then_instrs (to_uint (i + 1)) = (t', i1)"
    by fastforce
  have ui: "to_uint (i + 1) = i + 1" using "1.prems"(2) by (simp add: to_uint_def)
  have t_rng: "i1 = i + 1 + length (traversal then_instrs)"
    using index_range(2)[OF t] "1.prems"(2) ui by simp
  have t_ok: "\<forall>L \<in> set (traversal t'). \<forall>b. loop_body L = Some b \<longrightarrow> loop_next_index L \<le> i1"
    using "1.IH"(1)[OF t] "1.prems"(2) ui by simp
  show ?case
  proof (cases else_instrs)
    case None
    then show ?thesis using "1.prems"(1) t t_ok by auto
  next
    case (Some es)
    obtain es' i2 where e: "index_instructions es i1 = (es', i2)" by fastforce
    have eb: "i1 + length (traversal es) < 4294967296"
      using "1.prems"(2) t_rng Some by simp
    have e_ok: "\<forall>L \<in> set (traversal es'). \<forall>b. loop_body L = Some b \<longrightarrow> loop_next_index L \<le> i2"
      using "1.IH"(2)[OF t[symmetric] refl Some e eb] .
    have "i1 \<le> i2" using index_mono(2)[OF e eb] .
    then show ?thesis using "1.prems"(1) t e Some t_ok e_ok by fastforce
  qed
next
  case (2 h body next_index i)
  obtain b' i1 where b: "index_instructions body (to_uint (i + 1)) = (b', i1)"
    by fastforce
  have ui: "to_uint (i + 1) = i + 1" using "2.prems"(2) by (simp add: to_uint_def)
  have bound: "i + 1 + length (traversal body) < 4294967296" using "2.prems"(2) by simp
  have b_ok: "\<forall>L \<in> set (traversal b'). \<forall>b. loop_body L = Some b \<longrightarrow> loop_next_index L \<le> i1"
    using "2.IH"[OF b] bound ui by simp
  then show ?case using "2.prems"(1) b by auto
next
  case (5 instr instrs i)
  obtain x1 i1 where x: "index_instr instr i = (x1, i1)" by fastforce
  obtain xs1 i2 where xs: "index_instructions instrs i1 = (xs1, i2)" by fastforce
  have xb: "i + length (instrs_of instr) < 4294967296" using "5.prems"(2) by simp
  have x_rng: "i1 = i + length (instrs_of instr)"
    using index_range(1)[OF x xb] by simp
  have xsb: "i1 + length (traversal instrs) < 4294967296" using "5.prems"(2) x_rng by simp
  have x_ok: "\<forall>L \<in> set (instrs_of x1). \<forall>b. loop_body L = Some b \<longrightarrow> loop_next_index L \<le> i1"
    using "5.IH"(1)[OF x xb] .
  have xs_ok: "\<forall>L \<in> set (traversal xs1). \<forall>b. loop_body L = Some b \<longrightarrow> loop_next_index L \<le> i2"
    using "5.IH"(2)[OF x[symmetric] refl xs xsb] .
  have "i1 \<le> i2" using index_mono(2)[OF xs xsb] .
  then show ?case using "5.prems"(1) x xs x_ok xs_ok by fastforce
qed auto

lemma loops_live_frame:
  assumes "loops_live ys st1" "compute_liveness_recurse xs lf ll st1 = Some st'"
    and "reads_bounded xs i1 ll st'"
    and "\<forall>L \<in> set ys. \<forall>b. loop_body L = Some b \<longrightarrow> loop_next_index L \<le> i1"
  shows "loops_live ys st'"
  unfolding loops_live_def
proof (intro ballI allI impI)
  fix L b v assume L: "L \<in> set ys" "loop_body L = Some b" and v: "v \<in> reads b"
  have n1: "loop_next_index L \<le> last_read (vars st1 v)"
    using assms(1) L v by (auto simp: loops_live_def)
  show "loop_next_index L \<le> last_read (vars st' v)"
  proof (cases "v \<in> reads xs")
    case True
    then have "i1 \<le> last_read (vars st' v)" using assms(3) by (simp add: reads_bounded_def)
    moreover have "loop_next_index L \<le> i1" using assms(4) L by blast
    ultimately show ?thesis by simp
  next
    case False
    then show ?thesis using liveness_frame(2)[OF assms(2) False] n1 by simp
  qed
qed

lemma reads_bounded_seq:
  assumes "reads_bounded xs i ll st1" "compute_liveness_recurse ys lf ll st1 = Some st'"
    and "reads_bounded ys i1 ll st'" "i \<le> i1"
  shows "\<forall>v \<in> reads xs \<union> reads ys. i \<le> last_read (vars st' v) \<and> ll \<le> last_read (vars st' v)"
proof
  fix v assume v: "v \<in> reads xs \<union> reads ys"
  show "i \<le> last_read (vars st' v) \<and> ll \<le> last_read (vars st' v)"
  proof (cases "v \<in> reads ys")
    case True
    then show ?thesis using assms(3,4) by (auto simp: reads_bounded_def)
  next
    case False
    then have "v \<in> reads xs" using v by simp
    then show ?thesis using assms(1) liveness_frame(2)[OF assms(2) False]
      by (simp add: reads_bounded_def)
  qed
qed

lemma reads_bounded_weaken: "reads_bounded xs i ll st \<Longrightarrow> j \<le> i \<Longrightarrow> reads_bounded xs j ll st"
  by (auto simp: reads_bounded_def)

lemma reads_bounded_vars: "vars st = vars st' \<Longrightarrow> reads_bounded xs i ll st = reads_bounded xs i ll st'"
  by (simp add: reads_bounded_def)

lemma loops_live_vars: "vars st = vars st' \<Longrightarrow> loops_live xs st = loops_live xs st'"
  by (simp add: loops_live_def)

lemma loops_live_append: "loops_live (xs @ ys) st \<longleftrightarrow> loops_live xs st \<and> loops_live ys st"
  by (auto simp: loops_live_def)

lemma liveness_bounds:
  "index_instr x i = (x', i') \<Longrightarrow> i + length (instrs_of x) < 4294967296 \<Longrightarrow>
     ll = 0 \<or> i' \<le> ll \<Longrightarrow> compute_liveness_instr x' lf ll st = Some st' \<Longrightarrow>
     reads_bounded [x'] i ll st' \<and> loops_live (instrs_of x') st'"
  "index_instructions xs i = (xs', i') \<Longrightarrow> i + length (traversal xs) < 4294967296 \<Longrightarrow>
     ll = 0 \<or> i' \<le> ll \<Longrightarrow> compute_liveness_recurse xs' lf ll st = Some st' \<Longrightarrow>
     reads_bounded xs' i ll st' \<and> loops_live (traversal xs') st'"
proof (induction x i and xs i arbitrary: x' i' lf ll st st' and xs' i' lf ll st st'
    rule: index_instr_index_instructions.induct)
  case (1 h c then_instrs else_instrs i)
  obtain t' i1 where t: "index_instructions then_instrs (to_uint (i + 1)) = (t', i1)"
    by fastforce
  have ui: "to_uint (i + 1) = i + 1" using "1.prems"(2) by (simp add: to_uint_def)
  have tb: "to_uint (i + 1) + length (traversal then_instrs) < 4294967296"
    using "1.prems"(2) ui by simp
  have t_rng: "i1 = i + 1 + length (traversal then_instrs)"
    using index_range(2)[OF t tb] ui by simp
  show ?case
  proof (cases else_instrs)
    case None
    have res: "x' = HLSL_IR_IF (h\<lparr>index := i\<rparr>) c t' None" "i' = i1"
      using "1.prems"(1) t None by auto
    from "1.prems"(4) res obtain st1 where
      s1: "compute_liveness_recurse t' lf ll st = Some st1" and
      r: "st' = set_node_last_read c i st1"
      by (cases "compute_liveness_recurse t' lf ll st") auto
    have pre: "ll = 0 \<or> i1 \<le> ll" using "1.prems"(3) res by simp
    have ih: "reads_bounded t' (i + 1) ll st1" "loops_live (traversal t') st1"
      using "1.IH"(1)[OF t tb pre s1] ui by simp_all
    have v: "vars st' = vars st1" using r by simp
    have "reads_bounded [x'] i ll st'"
      using ih(1) v res by (auto simp: reads_bounded_def)
    moreover have "loops_live (instrs_of x') st'"
      using ih(2) v res by (auto simp: loops_live_def)
    ultimately show ?thesis by simp
  next
    case (Some es)
    obtain es' i2 where e: "index_instructions es i1 = (es', i2)" by fastforce
    have eb: "i1 + length (traversal es) < 4294967296"
      using "1.prems"(2) t_rng Some by simp
    have res: "x' = HLSL_IR_IF (h\<lparr>index := i\<rparr>) c t' (Some es')" "i' = i2"
      using "1.prems"(1) t e Some by auto
    from "1.prems"(4) res obtain st1 where
      s1: "compute_liveness_recurse t' lf ll st = Some st1"
      by (cases "compute_liveness_recurse t' lf ll st") auto
    from "1.prems"(4) res s1 obtain st2 where
      s2: "compute_liveness_recurse es' lf ll st1 = Some st2" and
      r: "st' = set_node_last_read c i st2"
      by (cases "compute_liveness_recurse es' lf ll st1") auto
    have m: "i1 \<le> i2" using index_mono(2)[OF e eb] .
    have pre2: "ll = 0 \<or> i2 \<le> ll" using "1.prems"(3) res by simp
    have pre1: "ll = 0 \<or> i1 \<le> ll" using pre2 m by auto
    have ih1: "reads_bounded t' (i + 1) ll st1" "loops_live (traversal t') st1"
      using "1.IH"(1)[OF t tb pre1 s1] ui by simp_all
    have ih2: "reads_bounded es' i1 ll st2" "loops_live (traversal es') st2"
      using "1.IH"(2)[OF t[symmetric] refl Some e eb pre2 s2] by simp_all
    have lb: "\<forall>L \<in> set (traversal t'). \<forall>b. loop_body L = Some b \<longrightarrow> loop_next_index L \<le> i1"
      using index_loops_bound(2)[OF t tb] .
    have l1: "loops_live (traversal t') st2"
      using loops_live_frame[OF ih1(2) s2 ih2(1) lb] .
    have b: "\<forall>v \<in> reads t' \<union> reads es'. i + 1 \<le> last_read (vars st2 v) \<and> ll \<le> last_read (vars st2 v)"
      using reads_bounded_seq[OF ih1(1) s2 ih2(1)] t_rng by simp
    have vs: "vars st' = vars st2" using r by simp
    have "reads_bounded [x'] i ll st'"
      unfolding reads_bounded_def
    proof
      fix v assume "v \<in> reads [x']"
      then have "v \<in> reads t' \<union> reads es'" using res by simp
      then have "i + 1 \<le> last_read (vars st2 v) \<and> ll \<le> last_read (vars st2 v)"
        using b by blast
      then show "i \<le> last_read (vars st' v) \<and> ll \<le> last_read (vars st' v)"
        using vs by simp
    qed
    moreover have "loops_live (instrs_of x') st'"
      using l1 ih2(2) vs res by (auto simp: loops_live_def)
    ultimately show ?thesis by simp
  qed
next
  case (2 h body next_index i)
  obtain b' i1 where b: "index_instructions body (to_uint (i + 1)) = (b', i1)"
    by fastforce
  have ui: "to_uint (i + 1) = i + 1" using "2.prems"(2) by (simp add: to_uint_def)
  have bb: "to_uint (i + 1) + length (traversal body) < 4294967296"
    using "2.prems"(2) ui by simp
  have res: "x' = HLSL_IR_LOOP (h\<lparr>index := i\<rparr>) b' i1" "i' = i1"
    using "2.prems"(1) b by auto
  let ?ll = "if ll \<noteq> 0 then ll else i1"
  let ?lf = "if lf \<noteq> 0 then lf else i"
  have s: "compute_liveness_recurse b' ?lf ?ll st = Some st'"
    using "2.prems"(4) res by (cases "lf = 0"; cases "ll = 0"; simp)
  have pre: "?ll = 0 \<or> i1 \<le> ?ll" using "2.prems"(3) res by auto
  have ih: "reads_bounded b' (i + 1) ?ll st'" "loops_live (traversal b') st'"
    using "2.IH"[OF b bb pre s] ui by simp_all
  have n: "i1 \<le> ?ll" using "2.prems"(3) res by auto
  have "reads_bounded [x'] i ll st'"
    using ih(1) res by (auto simp: reads_bounded_def split: if_splits)
  moreover have "loops_live [x'] st'"
    using ih(1) n res by (fastforce simp: reads_bounded_def loops_live_def)
  ultimately show ?case using ih(2) res loops_live_append[of "[x']" "traversal b'" st'] by simp
next
  case (5 instr instrs i)
  obtain x1 i1 where x: "index_instr instr i = (x1, i1)" by fastforce
  obtain xs1 i2 where xs: "index_instructions instrs i1 = (xs1, i2)" by fastforce
  have xb: "i + length (instrs_of instr) < 4294967296" using "5.prems"(2) by simp
  have x_rng: "i1 = i + length (instrs_of instr)"
    using index_range(1)[OF x xb] by simp
  have xsb: "i1 + length (traversal instrs) < 4294967296" using "5.prems"(2) x_rng by simp
  have res: "xs' = x1 # xs1" "i' = i2" using "5.prems"(1) x xs by auto
  from "5.prems"(4) res obtain st1 where
    s1: "compute_liveness_instr x1 lf ll st = Some st1" and
    s2: "compute_liveness_recurse xs1 lf ll st1 = Some st'"
    by (cases "compute_liveness_instr x1 lf ll st") auto
  have m: "i1 \<le> i2" using index_mono(2)[OF xs xsb] .
  have pre2: "ll = 0 \<or> i2 \<le> ll" using "5.prems"(3) res by simp
  have pre1: "ll = 0 \<or> i1 \<le> ll" using pre2 m by auto
  have ih1: "reads_bounded [x1] i ll st1" "loops_live (instrs_of x1) st1"
    using "5.IH"(1)[OF x xb pre1 s1] by simp_all
  have ih2: "reads_bounded xs1 i1 ll st'" "loops_live (traversal xs1) st'"
    using "5.IH"(2)[OF x[symmetric] refl xs xsb pre2 s2] by simp_all
  have lb: "\<forall>L \<in> set (instrs_of x1). \<forall>b. loop_body L = Some b \<longrightarrow> loop_next_index L \<le> i1"
    using index_loops_bound(1)[OF x xb] .
  have l1: "loops_live (instrs_of x1) st'"
    using loops_live_frame[OF ih1(2) s2 ih2(1) lb] .
  have "i \<le> i1" using x_rng by simp
  then have b: "\<forall>v \<in> reads [x1] \<union> reads xs1. i \<le> last_read (vars st' v) \<and> ll \<le> last_read (vars st' v)"
    using reads_bounded_seq[OF ih1(1) s2 ih2(1)] by simp
  have "reads_bounded xs' i ll st'"
    using b res reads_Cons[of x1 xs1] by (simp add: reads_bounded_def)
  moreover have "loops_live (traversal xs') st'"
    using l1 ih2(2) res by (simp add: loops_live_append)
  ultimately show ?case by simp
qed (auto simp: reads_bounded_def loops_live_def Let_def split: option.splits hlsl_deref.splits if_splits)

lemma node_last_read_set [simp]:
  "node_last_read (set_node_last_read p i st) q = (if q = p then i else node_last_read st q)"
  by (simp add: set_node_last_read_def)

lemma node_last_read_set_var [simp]:
  "node_last_read (set_last_read var i st) = node_last_read st"
  "node_last_read (set_first_write var i st) = node_last_read st"
  by (simp_all add: set_last_read_def set_first_write_def)

lemma node_last_read_fold:
  "node_last_read (fold (\<lambda>arg. set_node_last_read arg i) as st) q =
     (if q \<in> set as then i else node_last_read st q)"
  by (induction as arbitrary: st) auto

lemma node_index_ctor [simp]:
  "node_index (HLSL_IR_ASSIGNMENT h l r) = index h"
  "node_index (HLSL_IR_CONSTANT h cv) = index h"
  "node_index (HLSL_IR_CONSTRUCTOR h as) = index h"
  "node_index (HLSL_IR_DEREF h d) = index h"
  "node_index (HLSL_IR_EXPR h oper a b c) = index h"
  "node_index (HLSL_IR_JUMP h j rv) = index h"
  "node_index (HLSL_IR_SWIZZLE h p s) = index h"
  by (simp_all add: node_index_def)

lemma liveness_instr_operands:
  assumes "compute_liveness_instr I lf ll st = Some st1" "p \<in> set (operand_nodes I)"
  shows "node_last_read st1 p = node_index I"
proof (cases I)
  case (HLSL_IR_ASSIGNMENT h l r)
  then show ?thesis using assms by (cases "hlsl_var_from_deref l") (auto split: if_splits)
next
  case (HLSL_IR_CONSTANT h cv)
  then show ?thesis using assms by simp
next
  case (HLSL_IR_CONSTRUCTOR h as)
  then show ?thesis using assms by (auto simp: node_last_read_fold)
next
  case (HLSL_IR_DEREF h d)
  then show ?thesis using assms
    by (cases "hlsl_var_from_deref d"; cases d) (auto simp: Let_def)
next
  case (HLSL_IR_EXPR h oper a b c)
  then show ?thesis using assms by (cases b; cases c) (auto simp: Let_def)
next
  case (HLSL_IR_IF h c t el)
  then show ?thesis using assms by (auto split: option.splits)
next
  case (HLSL_IR_JUMP h j rv)
  then show ?thesis using assms by (cases rv) (auto split: if_splits)
next
  case (HLSL_IR_LOOP h b n)
  then show ?thesis using assms by simp
next
  case (HLSL_IR_SWIZZLE h q s)
  then show ?thesis using assms by auto
qed

lemma liveness_instr_deref:
  assumes "compute_liveness_instr I lf ll st = Some st1" "deref_var I = Some v"
  shows "last_read (vars st1 v) = (if ll \<noteq> 0 then max (node_index I) ll else node_index I)"
proof -
  from assms(2) obtain h d where I: "I = HLSL_IR_DEREF h d" and v: "hlsl_var_from_deref d = Some v"
    by (cases I) auto
  show ?thesis using assms(1) I v by (cases d) (auto simp: Let_def)
qed

text \<open>
  C2 (as the code has it). After the walk of an indexed function body, every variable
  dereferenced anywhere inside a loop, at any depth, has \<^verbatim>\<open>last_read\<close> at least the
  \<^verbatim>\<open>next_index\<close> of that loop. At each instruction, a variable dereference sets the
  variable's \<^verbatim>\<open>last_read\<close> to \<^verbatim>\<open>max(instr.index, loop_last)\<close> when an enclosing loop
  extent is set and to \<^verbatim>\<open>instr.index\<close> otherwise; an operand node (of an expression, a
  constructor, a swizzle, an assignment, an array index, the condition of an \<^verbatim>\<open>if\<close>, the
  value of a \<^verbatim>\<open>return\<close>) gets \<^verbatim>\<open>last_read = instr.index\<close>, inside a loop or not.
\<close>

theorem compute_liveness_last_read:
  assumes indexed: "index_instructions entry_body 2 = (body', n)"
    and fits: "2 + length (traversal entry_body) < 4294967296"
    and run: "compute_liveness_recurse body' 0 0 st = Some st'"
  shows "(\<forall>L \<in> set (traversal body'). \<forall>b. loop_body L = Some b \<longrightarrow>
            (\<forall>v \<in> reads b. loop_next_index L \<le> last_read (vars st' v))) \<and>
         (\<forall>I loop_first loop_last s s1.
            compute_liveness_instr I loop_first loop_last s = Some s1 \<longrightarrow>
            (\<forall>v. deref_var I = Some v \<longrightarrow>
               last_read (vars s1 v) =
                 (if loop_last \<noteq> 0 then max (node_index I) loop_last else node_index I)) \<and>
            (\<forall>p \<in> set (operand_nodes I). node_last_read s1 p = node_index I))"
proof -
  have "loops_live (traversal body') st'"
    using liveness_bounds(2)[OF indexed fits _ run] by simp
  then show ?thesis
    using liveness_instr_deref liveness_instr_operands unfolding loops_live_def by blast
qed

lemma example_liveness:
  "compute_liveness_recurse (fst (index_instructions example_body 2)) 0 0 example_store =
     Some (example_store\<lparr>vars := (vars example_store)
             (0 := example_var\<lparr>last_read := 2\<rparr>, 1 := example_var\<lparr>last_read := 8\<rparr>),
           node_last_read := (node_last_read example_store)(3 := 5, 4 := 6, 1 := 8)\<rparr>)"
  by (simp add: example_indexed new_hdr_def example_store_def set_last_read_def
      set_node_last_read_def Let_def)

theorem compute_liveness_last_read_witness:
  "2 + length (traversal example_body) < 4294967296 \<and>
   (\<exists>st'. compute_liveness_recurse (fst (index_instructions example_body 2)) 0 0 example_store
            = Some st' \<and> 8 \<le> last_read (vars st' 1)) \<and>
   (\<exists>L \<in> set (traversal (fst (index_instructions example_body 2))).
      \<exists>b. loop_body L = Some b \<and> 1 \<in> reads b \<and> loop_next_index L = 8)"
proof -
  let ?body' = "fst (index_instructions example_body 2)"
  let ?b = "[HLSL_IR_DEREF ((new_hdr 3)\<lparr>index := 4\<rparr>) (HLSL_IR_DEREF_VAR 1),
         HLSL_IR_EXPR ((new_hdr 4)\<lparr>index := 5\<rparr>) HLSL_IR_UNOP_LOGIC_NOT 3 None None,
         HLSL_IR_IF ((new_hdr 5)\<lparr>index := 6\<rparr>) 4
           [HLSL_IR_JUMP ((new_hdr 6)\<lparr>index := 7\<rparr>) HLSL_IR_JUMP_BREAK None] None]"
  let ?L = "HLSL_IR_LOOP ((new_hdr 2)\<lparr>index := 3\<rparr>) ?b 8"
  have indexed: "index_instructions example_body 2 = (?body', snd (index_instructions example_body 2))"
    by simp
  have fits: "2 + length (traversal example_body) < 4294967296"
    by (simp add: example_body_def)
  obtain st' where run: "compute_liveness_recurse ?body' 0 0 example_store = Some st'"
    using example_liveness by simp
  note r = compute_liveness_last_read [OF indexed fits run]
  have L: "?L \<in> set (traversal ?body')" by (simp add: example_indexed)
  have lb: "loop_body ?L = Some ?b" by simp
  have b: "1 \<in> reads ?b" by (simp add: reads_def)
  have "loop_next_index ?L \<le> last_read (vars st' 1)"
    using r L lb b by blast
  then have "8 \<le> last_read (vars st' 1)" by simp
  then have A: "\<exists>st'. compute_liveness_recurse ?body' 0 0 example_store = Some st' \<and>
      8 \<le> last_read (vars st' 1)"
    using run by blast
  have B: "\<exists>L \<in> set (traversal ?body'). \<exists>b. loop_body L = Some b \<and> 1 \<in> reads b \<and>
      loop_next_index L = 8"
    using L lb b by (intro bexI[of _ ?L] exI[of _ ?b]) simp_all
  show ?thesis using fits A B by blast
qed

text \<open>
  C2 as stated fails for operand nodes: in the example, node 3 is the operand of the
  expression at index 5 inside the loop whose \<^verbatim>\<open>next_index\<close> is 8, and its
  \<^verbatim>\<open>last_read\<close> is 5, not \<^verbatim>\<open>max(5, 8)\<close>.
\<close>

theorem operand_last_read_counterexample:
  "last_read_of_node
     (compute_liveness_recurse (fst (index_instructions example_body 2)) 0 0 example_store) 3
     = Some 5 \<and>
   fst (index_instructions example_body 2) ! 1 =
     HLSL_IR_LOOP ((new_hdr 2)\<lparr>index := 3\<rparr>)
        [HLSL_IR_DEREF ((new_hdr 3)\<lparr>index := 4\<rparr>) (HLSL_IR_DEREF_VAR 1),
         HLSL_IR_EXPR ((new_hdr 4)\<lparr>index := 5\<rparr>) HLSL_IR_UNOP_LOGIC_NOT 3 None None,
         HLSL_IR_IF ((new_hdr 5)\<lparr>index := 6\<rparr>) 4
           [HLSL_IR_JUMP ((new_hdr 6)\<lparr>index := 7\<rparr>) HLSL_IR_JUMP_BREAK None] None] 8 \<and>
   Some (max 5 8) \<noteq> last_read_of_node
     (compute_liveness_recurse (fst (index_instructions example_body 2)) 0 0 example_store) 3"
  unfolding last_read_of_node_def example_liveness
  by (simp add: example_store_def example_indexed)

subsection \<open>The start of the liveness pass\<close>

lemma vars_set_first_write:
  "vars (set_first_write var i st) v =
     (if v = var then (vars st var)\<lparr>first_write := i\<rparr> else vars st v)"
  by (simp add: set_first_write_def)

lemma vars_set_last_read:
  "vars (set_last_read var i st) v =
     (if v = var then (vars st var)\<lparr>last_read := i\<rparr> else vars st v)"
  by (simp add: set_last_read_def)

lemma liveness_globals_first_write:
  "first_write (vars (liveness_globals gs st) v) = (if v \<in> set gs then 1 else first_write (vars st v))"
  unfolding liveness_globals_def
  by (induction gs arbitrary: st) (auto simp: vars_set_first_write)

lemma liveness_globals_other:
  "vmodifiers (vars (liveness_globals gs st) v) = vmodifiers (vars st v)"
  "last_read (vars (liveness_globals gs st) v) = last_read (vars st v)"
  unfolding liveness_globals_def
  by (induction gs arbitrary: st) (auto simp: vars_set_first_write)

lemma liveness_parameter_vmodifiers:
  "vmodifiers (vars (liveness_parameter p st) v) = vmodifiers (vars st v)"
  by (simp add: liveness_parameter_def Let_def vars_set_first_write vars_set_last_read)

lemma liveness_parameter_first_write:
  "first_write (vars (liveness_parameter p st) v) =
     (if v = p \<and> HLSL_STORAGE_IN \<in> vmodifiers (vars st v) then 1 else first_write (vars st v))"
  by (simp add: liveness_parameter_def Let_def vars_set_first_write vars_set_last_read)

lemma liveness_parameter_last_read:
  "last_read (vars (liveness_parameter p st) v) =
     (if v = p \<and> HLSL_STORAGE_OUT \<in> vmodifiers (vars st v) then UINT_MAX else last_read (vars st v))"
  by (simp add: liveness_parameter_def Let_def vars_set_first_write vars_set_last_read)

lemma liveness_parameters_vmodifiers:
  "vmodifiers (vars (liveness_parameters ps st) v) = vmodifiers (vars st v)"
  unfolding liveness_parameters_def
  by (induction ps arbitrary: st) (simp_all add: liveness_parameter_vmodifiers)

lemma liveness_parameters_first_write:
  "first_write (vars (liveness_parameters ps st) v) =
     (if v \<in> set ps \<and> HLSL_STORAGE_IN \<in> vmodifiers (vars st v) then 1 else first_write (vars st v))"
  unfolding liveness_parameters_def
  by (induction ps arbitrary: st)
     (auto simp: liveness_parameter_first_write liveness_parameter_vmodifiers)

lemma liveness_parameters_last_read:
  "last_read (vars (liveness_parameters ps st) v) =
     (if v \<in> set ps \<and> HLSL_STORAGE_OUT \<in> vmodifiers (vars st v) then UINT_MAX else last_read (vars st v))"
  unfolding liveness_parameters_def
  by (induction ps arbitrary: st)
     (auto simp: liveness_parameter_last_read liveness_parameter_vmodifiers)

text \<open>
  C5. \<^verbatim>\<open>compute_liveness\<close> walks the body from the store in which every variable of the
  global scope has \<^verbatim>\<open>first_write = 1\<close>, every parameter of the entry function with
  \<^verbatim>\<open>HLSL_STORAGE_IN\<close> has \<^verbatim>\<open>first_write = 1\<close> and every parameter with
  \<^verbatim>\<open>HLSL_STORAGE_OUT\<close> has \<^verbatim>\<open>last_read = UINT_MAX\<close>.
\<close>

theorem compute_liveness_start:
  "compute_liveness globals_vars params entry_body st =
     compute_liveness_recurse entry_body 0 0 (liveness_start globals_vars params st) \<and>
   (\<forall>var \<in> set globals_vars.
      first_write (vars (liveness_start globals_vars params st) var) = 1) \<and>
   (\<forall>var \<in> set params. HLSL_STORAGE_IN \<in> vmodifiers (vars st var) \<longrightarrow>
      first_write (vars (liveness_start globals_vars params st) var) = 1) \<and>
   (\<forall>var \<in> set params. HLSL_STORAGE_OUT \<in> vmodifiers (vars st var) \<longrightarrow>
      last_read (vars (liveness_start globals_vars params st) var) = UINT_MAX)"
  by (simp add: compute_liveness_def liveness_start_def liveness_parameters_first_write
      liveness_parameters_last_read liveness_globals_first_write liveness_globals_other)

theorem compute_liveness_start_witness:
  "10 \<in> set [10 :: nat] \<and>
   first_write (vars (liveness_start [10] [11, 12] example_params_store) 10) = 1 \<and>
   11 \<in> set [11, 12 :: nat] \<and> HLSL_STORAGE_IN \<in> vmodifiers (vars example_params_store 11) \<and>
   first_write (vars (liveness_start [10] [11, 12] example_params_store) 11) = 1 \<and>
   12 \<in> set [11, 12 :: nat] \<and> HLSL_STORAGE_OUT \<in> vmodifiers (vars example_params_store 12) \<and>
   last_read (vars (liveness_start [10] [11, 12] example_params_store) 12) = 4294967295"
  using compute_liveness_start [of "[10]" "[11, 12]" "[]" example_params_store]
  by (simp add: example_params_store_def UINT_MAX_def)

subsection \<open>Loop lowering\<close>

lemma d3dcompiler_alloc_cases:
  "d3dcompiler_alloc h = (r, h') \<Longrightarrow>
     (allocations_left h = 0 \<and> r = None \<and> h' = h) \<or>
     (0 < allocations_left h \<and> r = Some (next_free h) \<and>
      allocations_left h' = allocations_left h - 1 \<and> next_free h' = next_free h + 1)"
  by (auto simp: d3dcompiler_alloc_def split: if_splits)

lemma new_unary_expr_cases:
  "new_unary_expr h oper operand location = (r, h') \<Longrightarrow>
     (allocations_left h = 0 \<and> r = None \<and> h' = h) \<or>
     (0 < allocations_left h \<and> allocations_left h' = allocations_left h - 1 \<and>
      (\<exists>nh. r = Some (HLSL_IR_EXPR nh oper (addr (hdr operand)) None None)))"
  by (auto simp: new_unary_expr_def d3dcompiler_alloc_def split: if_splits)

lemma append_conditional_break_Nil [simp]:
  "append_conditional_break h [] = (Some [], h)"
  by (simp add: append_conditional_break_def)

lemma append_conditional_break_shape:
  assumes "append_conditional_break h cond = (r, h')" "cond \<noteq> []"
  shows "(4 \<le> allocations_left h \<longrightarrow> r \<noteq> None \<and> allocations_left h' = allocations_left h - 4) \<and>
         (\<forall>c. r = Some c \<longrightarrow>
            (\<exists>not_hdr if_addr jump_addr.
               c = cond @
                 [HLSL_IR_EXPR not_hdr HLSL_IR_UNOP_LOGIC_NOT (addr (hdr (last cond))) None None,
                  HLSL_IR_IF (new_hdr if_addr) (addr not_hdr)
                    [HLSL_IR_JUMP (new_hdr jump_addr) HLSL_IR_JUMP_BREAK None] None]))"
proof -
  obtain r1 h1 where u: "new_unary_expr h HLSL_IR_UNOP_LOGIC_NOT (last cond) (loc (hdr (last cond))) = (r1, h1)"
    by fastforce
  obtain r2 h2 where a2: "d3dcompiler_alloc h1 = (r2, h2)" by fastforce
  obtain r3 h3 where a3: "d3dcompiler_alloc h2 = (r3, h3)" by fastforce
  obtain r4 h4 where a4: "d3dcompiler_alloc h3 = (r4, h4)" by fastforce
  note c1 = new_unary_expr_cases[OF u]
  note c2 = d3dcompiler_alloc_cases[OF a2]
  note c3 = d3dcompiler_alloc_cases[OF a3]
  note c4 = d3dcompiler_alloc_cases[OF a4]
  show ?thesis
    using assms u a2 a3 a4 c1 c2 c3 c4
    unfolding append_conditional_break_def Let_def
    by (cases r1; cases r2; cases r3; cases r4) auto
qed

text \<open>
  C3. When \<^verbatim>\<open>create_loop\<close> returns a list (which it does whenever seven allocations
  succeed), the list is the initializer instructions, if any, followed by exactly one
  loop node. The body of the loop is, for \<^verbatim>\<open>while\<close> and \<^verbatim>\<open>for\<close>, the conditional break,
  the user body and the iteration instructions; for \<^verbatim>\<open>do\<close>-\<^verbatim>\<open>while\<close>, the user body (and
  the iteration instructions, which the grammar never passes) and then the conditional
  break. The conditional break is the condition list followed by the negation of its
  last node and an \<^verbatim>\<open>if\<close> on that negation holding a single \<^verbatim>\<open>break\<close>; for an empty
  condition list it is empty.
\<close>

theorem create_loop_shape:
  assumes "create_loop h type init cond iter loop_instrs location = (r, h')"
  shows "(7 \<le> allocations_left h \<longrightarrow> r \<noteq> None) \<and>
         (\<forall>list. r = Some list \<longrightarrow>
            (\<exists>loop_addr brk.
               list = (case init of None \<Rightarrow> [] | Some i \<Rightarrow> i) @
                 [HLSL_IR_LOOP ((new_hdr loop_addr)\<lparr>loc := location\<rparr>)
                    (if type = LOOP_DO_WHILE
                     then loop_instrs @ (case iter of None \<Rightarrow> [] | Some it \<Rightarrow> it) @ brk
                     else brk @ loop_instrs @ (case iter of None \<Rightarrow> [] | Some it \<Rightarrow> it))
                    0] \<and>
               (cond = [] \<longrightarrow> brk = []) \<and>
               (cond \<noteq> [] \<longrightarrow>
                  (\<exists>not_hdr if_addr jump_addr.
                     brk = cond @
                       [HLSL_IR_EXPR not_hdr HLSL_IR_UNOP_LOGIC_NOT (addr (hdr (last cond)))
                          None None,
                        HLSL_IR_IF (new_hdr if_addr) (addr not_hdr)
                          [HLSL_IR_JUMP (new_hdr jump_addr) HLSL_IR_JUMP_BREAK None] None]))))"
proof -
  obtain r1 h1 where a1: "d3dcompiler_alloc h = (r1, h1)" by fastforce
  obtain r2 h2 where a2: "d3dcompiler_alloc h1 = (r2, h2)" by fastforce
  obtain r3 h3 where a3: "d3dcompiler_alloc h2 = (r3, h3)" by fastforce
  obtain r4 h4 where a4: "append_conditional_break h3 cond = (r4, h4)" by fastforce
  note c1 = d3dcompiler_alloc_cases[OF a1]
  note c2 = d3dcompiler_alloc_cases[OF a2]
  note c3 = d3dcompiler_alloc_cases[OF a3]
  have enough: "r \<noteq> None" if "7 \<le> allocations_left h"
  proof -
    have l3: "4 \<le> allocations_left h3" "r1 \<noteq> None" "r2 \<noteq> None" "r3 \<noteq> None"
      using that c1 c2 c3 by auto
    have "r4 \<noteq> None"
    proof (cases "cond = []")
      case True
      then show ?thesis using a4 by auto
    next
      case False
      then show ?thesis using append_conditional_break_shape[OF a4 False] l3(1) by simp
    qed
    then show ?thesis using assms a1 a2 a3 a4 l3
      by (auto simp: create_loop_def)
  qed
  have shape: "\<exists>loop_addr brk.
               list = (case init of None \<Rightarrow> [] | Some i \<Rightarrow> i) @
                 [HLSL_IR_LOOP ((new_hdr loop_addr)\<lparr>loc := location\<rparr>)
                    (if type = LOOP_DO_WHILE
                     then loop_instrs @ (case iter of None \<Rightarrow> [] | Some it \<Rightarrow> it) @ brk
                     else brk @ loop_instrs @ (case iter of None \<Rightarrow> [] | Some it \<Rightarrow> it))
                    0] \<and>
               (cond = [] \<longrightarrow> brk = []) \<and>
               (cond \<noteq> [] \<longrightarrow>
                  (\<exists>not_hdr if_addr jump_addr.
                     brk = cond @
                       [HLSL_IR_EXPR not_hdr HLSL_IR_UNOP_LOGIC_NOT (addr (hdr (last cond)))
                          None None,
                        HLSL_IR_IF (new_hdr if_addr) (addr not_hdr)
                          [HLSL_IR_JUMP (new_hdr jump_addr) HLSL_IR_JUMP_BREAK None] None]))"
    if rl: "r = Some list" for list
  proof -
    from rl assms a1 a2 a3 a4 obtain loop_addr brk where
      r4: "r4 = Some brk" and
      l: "list = (case init of None \<Rightarrow> [] | Some i \<Rightarrow> i) @
                 [HLSL_IR_LOOP ((new_hdr loop_addr)\<lparr>loc := location\<rparr>)
                    ((if type \<noteq> LOOP_DO_WHILE then brk else []) @ loop_instrs @
                     (case iter of None \<Rightarrow> [] | Some it \<Rightarrow> it) @
                     (if type = LOOP_DO_WHILE then brk else [])) 0]"
      by (cases r1; cases r2; cases r3; cases r4) (auto simp: create_loop_def)
    have e: "cond = [] \<longrightarrow> brk = []" using a4 r4 by auto
    have n: "cond \<noteq> [] \<longrightarrow>
                  (\<exists>not_hdr if_addr jump_addr.
                     brk = cond @
                       [HLSL_IR_EXPR not_hdr HLSL_IR_UNOP_LOGIC_NOT (addr (hdr (last cond)))
                          None None,
                        HLSL_IR_IF (new_hdr if_addr) (addr not_hdr)
                          [HLSL_IR_JUMP (new_hdr jump_addr) HLSL_IR_JUMP_BREAK None] None])"
      using append_conditional_break_shape[OF a4] r4 by blast
    have "list = (case init of None \<Rightarrow> [] | Some i \<Rightarrow> i) @
                 [HLSL_IR_LOOP ((new_hdr loop_addr)\<lparr>loc := location\<rparr>)
                    (if type = LOOP_DO_WHILE
                     then loop_instrs @ (case iter of None \<Rightarrow> [] | Some it \<Rightarrow> it) @ brk
                     else brk @ loop_instrs @ (case iter of None \<Rightarrow> [] | Some it \<Rightarrow> it))
                    0]"
      using l by simp
    then show ?thesis using e n by blast
  qed
  show ?thesis using enough shape by blast
qed

theorem create_loop_shape_witness:
  "create_loop example_heap LOOP_FOR (Some [example_deref 1]) [example_deref 2]
       (Some [example_deref 3]) [example_deref 4] no_location =
     (Some [example_deref 1,
            HLSL_IR_LOOP ((new_hdr 101)\<lparr>loc := no_location\<rparr>)
              [example_deref 2,
               HLSL_IR_EXPR \<lparr>addr = 103, index = 0, data_type = None, loc = no_location\<rparr>
                 HLSL_IR_UNOP_LOGIC_NOT 2 None None,
               HLSL_IR_IF (new_hdr 104) 103
                 [HLSL_IR_JUMP (new_hdr 106) HLSL_IR_JUMP_BREAK None] None,
               example_deref 4,
               example_deref 3] 0],
      \<lparr>next_free = 107, allocations_left = 0\<rparr>) \<and>
   7 \<le> allocations_left example_heap"
proof -
  have ev: "create_loop example_heap LOOP_FOR (Some [example_deref 1]) [example_deref 2]
       (Some [example_deref 3]) [example_deref 4] no_location =
     (Some [example_deref 1,
            HLSL_IR_LOOP ((new_hdr 101)\<lparr>loc := no_location\<rparr>)
              [example_deref 2,
               HLSL_IR_EXPR \<lparr>addr = 103, index = 0, data_type = None, loc = no_location\<rparr>
                 HLSL_IR_UNOP_LOGIC_NOT 2 None None,
               HLSL_IR_IF (new_hdr 104) 103
                 [HLSL_IR_JUMP (new_hdr 106) HLSL_IR_JUMP_BREAK None] None,
               example_deref 4,
               example_deref 3] 0],
      \<lparr>next_free = 107, allocations_left = 0\<rparr>)"
    by (simp add: create_loop_def append_conditional_break_def new_unary_expr_def
        d3dcompiler_alloc_def example_heap_def example_deref_def new_hdr_def Let_def)
  have "7 \<le> allocations_left example_heap" by (simp add: example_heap_def)
  then show ?thesis using create_loop_shape [OF ev] ev by simp
qed

subsection \<open>Swizzles\<close>

lemma scan_vector_done:
  "scan_vector cset dx s swiz c = Scan_done swiz' c' \<Longrightarrow> c' = c + length s"
proof (induction s arbitrary: swiz c)
  case Nil
  then show ?case by simp
next
  case (Cons a s)
  from Cons.prems have
    "scan_vector cset dx s (swiz OR push_bit (c * 2) (of_nat (component_of cset a))) (c + 1)
       = Scan_done swiz' c'"
    by (auto simp: Let_def split: if_splits)
  from Cons.IH[OF this] show ?case by simp
qed

lemma new_swizzle_type:
  assumes "new_swizzle h s k val location = Inr (Some n, h')"
    "data_type (hdr val) = Some vt" "data_type (hdr n) = Some t"
  shows "tclass t = HLSL_CLASS_VECTOR \<and> base_type t = base_type vt \<and> dimx t = k \<and> dimy t = 1"
  using assms
  by (auto simp: new_swizzle_def new_hlsl_type_def d3dcompiler_alloc_def Let_def
      split: if_splits prod.splits option.splits)

text \<open>
  Every vector swizzle that \<^verbatim>\<open>get_swizzle\<close> accepts gives a node whose type has the class
  vector, the base type of the value, as many columns as the swizzle has characters and
  one row: also for a single character.
\<close>

lemma get_swizzle_vector_type:
  assumes "get_swizzle h val swizzle location = Inr (Some n, h')"
    "data_type (hdr val) = Some vt" "tclass vt \<noteq> HLSL_CLASS_MATRIX"
    "data_type (hdr n) = Some t"
  shows "tclass t = HLSL_CLASS_VECTOR \<and> base_type t = base_type vt \<and>
         dimx t = length swizzle \<and> dimy t = 1"
proof -
  from assms(1-3) obtain swiz k where
    ns: "new_swizzle h swiz k val location = Inr (Some n, h')" and
    k: "(\<exists>s0. scan_vector ''xyzw'' (dimx vt) swizzle s0 0 = Scan_done swiz k) \<or>
        (\<exists>s0. scan_vector ''rgba'' (dimx vt) swizzle s0 0 = Scan_done swiz k)"
    by (auto simp: get_swizzle_def Let_def split: if_splits scan_result.splits)
  from k have "k = length swizzle" using scan_vector_done by fastforce
  then show ?thesis using new_swizzle_type[OF ns assms(2) assms(4)] by simp
qed

text \<open>
  C4 at the swizzle \<^verbatim>\<open>.x\<close> of a \<^verbatim>\<open>float4\<close>: the node has the type of class vector with
  dimensions (1, 1), where the claim has a scalar type.
\<close>

theorem get_swizzle_single_component:
  "get_swizzle example_heap example_value ''x'' no_location =
     Inr (Some (HLSL_IR_SWIZZLE
                  \<lparr>addr = 100, index = 0,
                   data_type = Some (Hlsl_type None HLSL_CLASS_VECTOR HLSL_TYPE_FLOAT 1 1 {} 1
                                       No_elements),
                   loc = no_location\<rparr> 7 0),
          \<lparr>next_free = 102, allocations_left = 5\<rparr>)"
  by (simp add: get_swizzle_def new_swizzle_def new_hlsl_type_def d3dcompiler_alloc_def
      example_heap_def example_value_def example_float4_def Let_def)

theorem get_swizzle_single_component_witness:
  "(case get_swizzle example_heap example_value ''x'' no_location of
      Inr (Some n, h) \<Rightarrow>
        map_option tclass (data_type (hdr n)) = Some HLSL_CLASS_VECTOR \<and>
        map_option dimx (data_type (hdr n)) = Some 1 \<and>
        map_option dimy (data_type (hdr n)) = Some 1
    | _ \<Rightarrow> False)"
  using get_swizzle_single_component by simp

subsection \<open>Diagnostics\<close>

lemma hlsl_report_message_error:
  "0 < allocations_left (heap ctx) \<Longrightarrow>
     messages (hlsl_report_message ctx l HLSL_LEVEL_ERROR fmt as) =
       messages ctx @ [Reported l HLSL_LEVEL_ERROR fmt as] \<and>
     status (hlsl_report_message ctx l HLSL_LEVEL_ERROR fmt as) = PARSE_ERR"
  by (simp add: hlsl_report_message_def d3dcompiler_alloc_def)

lemma hlsl_report_message_frame:
  "local_scopes (hlsl_report_message ctx l level fmt as) = local_scopes ctx \<and>
   globals (hlsl_report_message ctx l level fmt as) = globals ctx \<and>
   store (hlsl_report_message ctx l level fmt as) = store ctx \<and>
   ctx_functions (hlsl_report_message ctx l level fmt as) = ctx_functions ctx"
  by (simp add: hlsl_report_message_def d3dcompiler_alloc_def)

subsection \<open>Array sizes\<close>

lemma int_to_uint_less: "int_to_uint i < 4294967296"
  by (simp add: int_to_uint_def nat_less_iff)

lemma to_uint_less: "to_uint n < 4294967296"
  by (simp add: to_uint_def)

lemma evaluate_array_dimension_cases:
  assumes "data_type (hdr node) = Some t"
  shows "\<exists>n. evaluate_array_dimension f d node = Inr n \<and> n < 4294967296 \<and>
           (tclass t \<noteq> HLSL_CLASS_SCALAR \<or> (\<forall>h v. node \<noteq> HLSL_IR_CONSTANT h v) \<longrightarrow> n = 0)"
  using assms
  by (cases node; cases "base_type t")
     (auto simp: evaluate_array_dimension_def int_to_uint_less to_uint_less)

lemma evaluate_array_dimension_constant:
  assumes "data_type (hdr node) = Some t" and "node = HLSL_IR_CONSTANT h v"
    and "tclass t = HLSL_CLASS_SCALAR"
  shows "evaluate_array_dimension f d node =
           Inr (case base_type t of
                  HLSL_TYPE_UINT \<Rightarrow> to_uint (value_u v)
                | HLSL_TYPE_INT \<Rightarrow> int_to_uint (value_i v)
                | HLSL_TYPE_FLOAT \<Rightarrow> to_uint (f (value_f v))
                | HLSL_TYPE_DOUBLE \<Rightarrow> to_uint (d (value_d v))
                | HLSL_TYPE_BOOL \<Rightarrow> int_to_uint (value_b v)
                | _ \<Rightarrow> 0)"
  using assms
  by (cases "base_type t") (simp_all add: evaluate_array_dimension_def)

lemma int_to_uint_nonneg: "0 \<le> i \<Longrightarrow> i < 4294967296 \<Longrightarrow> int_to_uint i = nat i"
  by (simp add: int_to_uint_def)

lemma int_to_uint_neg:
  assumes "- 2147483648 \<le> i" and "i < 0"
  shows "65536 < int_to_uint i"
proof -
  have "(i + 4294967296) mod 4294967296 = i + 4294967296"
    using assms by (intro mod_pos_pos_trivial) auto
  moreover have "(i + 4294967296) mod 4294967296 = i mod 4294967296"
    by simp
  ultimately have "i mod 4294967296 = i + 4294967296" by simp
  then show ?thesis using assms by (simp add: int_to_uint_def)
qed

text \<open>
  C9. The size of an array declarator is the value \<open>n\<close> that \<^verbatim>\<open>evaluate_array_dimension\<close>
  folds the bracketed expression to, an unsigned 32-bit integer. It is 0 unless the
  expression is a scalar constant. For an \<^verbatim>\<open>int\<close> constant it is the value of the constant
  when that is not negative, and a number above 65536 when it is negative. For a \<^verbatim>\<open>bool\<close>
  constant it is 0 or 1; for a \<^verbatim>\<open>uint\<close> constant its value; for a \<^verbatim>\<open>float\<close> or \<^verbatim>\<open>double\<close>
  constant the conversion of its value to \<^verbatim>\<open>unsigned int\<close>; for a constant of another base
  type 0. When \<open>n\<close> is 0 or exceeds 65536 the rule reports an error and aborts the parse
  (the message is written when memory for it is left); otherwise the size is \<open>n\<close> and
  nothing is reported.
\<close>

theorem array_rule_size:
  assumes "expr \<noteq> []" and "data_type (hdr (last expr)) = Some t"
  shows "\<exists>n. evaluate_array_dimension f d (last expr) = Inr n \<and> n < 4294967296 \<and>
           (tclass t \<noteq> HLSL_CLASS_SCALAR \<or> (\<forall>h v. last expr \<noteq> HLSL_IR_CONSTANT h v)
              \<longrightarrow> n = 0) \<and>
           (\<forall>h v. last expr = HLSL_IR_CONSTANT h v \<and> tclass t = HLSL_CLASS_SCALAR \<longrightarrow>
              (base_type t = HLSL_TYPE_INT \<and> - 2147483648 \<le> value_i v \<and> value_i v < 2147483648
                 \<longrightarrow> (0 \<le> value_i v \<longrightarrow> n = nat (value_i v)) \<and>
                     (value_i v < 0 \<longrightarrow> 65536 < n)) \<and>
              (base_type t = HLSL_TYPE_BOOL \<and> (value_b v = 0 \<or> value_b v = 1)
                 \<longrightarrow> n = nat (value_b v)) \<and>
              (base_type t = HLSL_TYPE_UINT \<and> value_u v < 4294967296 \<longrightarrow> n = value_u v) \<and>
              (base_type t = HLSL_TYPE_FLOAT \<longrightarrow> n = to_uint (f (value_f v))) \<and>
              (base_type t = HLSL_TYPE_DOUBLE \<longrightarrow> n = to_uint (d (value_d v))) \<and>
              (base_type t \<notin> {HLSL_TYPE_INT, HLSL_TYPE_BOOL, HLSL_TYPE_UINT, HLSL_TYPE_FLOAT,
                               HLSL_TYPE_DOUBLE} \<longrightarrow> n = 0)) \<and>
           (if n = 0 \<or> 65536 < n then
              (\<exists>ctx'. array_rule f d ctx expr location = Inr (None, ctx') \<and>
                 ctx' = hlsl_report_message ctx location HLSL_LEVEL_ERROR
                          (if n = 0 then ''array size is not a positive integer constant\<newline>''
                           else ''array size must be between 1 and 65536'') [] \<and>
                 (0 < allocations_left (heap ctx) \<longrightarrow>
                    status ctx' = PARSE_ERR \<and>
                    messages ctx' = messages ctx @
                      [Reported location HLSL_LEVEL_ERROR
                         (if n = 0 then ''array size is not a positive integer constant\<newline>''
                          else ''array size must be between 1 and 65536'') []]))
            else array_rule f d ctx expr location = Inr (Some n, ctx))"
proof -
  from evaluate_array_dimension_cases [OF assms(2), of f d]
  obtain n where n: "evaluate_array_dimension f d (last expr) = Inr n" "n < 4294967296"
    "tclass t \<noteq> HLSL_CLASS_SCALAR \<or> (\<forall>h v. last expr \<noteq> HLSL_IR_CONSTANT h v) \<longrightarrow> n = 0"
    by blast
  have c: "\<forall>h v. last expr = HLSL_IR_CONSTANT h v \<and> tclass t = HLSL_CLASS_SCALAR \<longrightarrow>
              (base_type t = HLSL_TYPE_INT \<and> - 2147483648 \<le> value_i v \<and> value_i v < 2147483648
                 \<longrightarrow> (0 \<le> value_i v \<longrightarrow> n = nat (value_i v)) \<and>
                     (value_i v < 0 \<longrightarrow> 65536 < n)) \<and>
              (base_type t = HLSL_TYPE_BOOL \<and> (value_b v = 0 \<or> value_b v = 1)
                 \<longrightarrow> n = nat (value_b v)) \<and>
              (base_type t = HLSL_TYPE_UINT \<and> value_u v < 4294967296 \<longrightarrow> n = value_u v) \<and>
              (base_type t = HLSL_TYPE_FLOAT \<longrightarrow> n = to_uint (f (value_f v))) \<and>
              (base_type t = HLSL_TYPE_DOUBLE \<longrightarrow> n = to_uint (d (value_d v))) \<and>
              (base_type t \<notin> {HLSL_TYPE_INT, HLSL_TYPE_BOOL, HLSL_TYPE_UINT, HLSL_TYPE_FLOAT,
                               HLSL_TYPE_DOUBLE} \<longrightarrow> n = 0)"
  proof (intro allI impI)
    fix h v
    assume a: "last expr = HLSL_IR_CONSTANT h v \<and> tclass t = HLSL_CLASS_SCALAR"
    from evaluate_array_dimension_constant [OF assms(2), of h v f d] a n(1)
    have e: "n = (case base_type t of
                  HLSL_TYPE_UINT \<Rightarrow> to_uint (value_u v)
                | HLSL_TYPE_INT \<Rightarrow> int_to_uint (value_i v)
                | HLSL_TYPE_FLOAT \<Rightarrow> to_uint (f (value_f v))
                | HLSL_TYPE_DOUBLE \<Rightarrow> to_uint (d (value_d v))
                | HLSL_TYPE_BOOL \<Rightarrow> int_to_uint (value_b v)
                | _ \<Rightarrow> 0)"
      by simp
    show "(base_type t = HLSL_TYPE_INT \<and> - 2147483648 \<le> value_i v \<and> value_i v < 2147483648
                 \<longrightarrow> (0 \<le> value_i v \<longrightarrow> n = nat (value_i v)) \<and>
                     (value_i v < 0 \<longrightarrow> 65536 < n)) \<and>
              (base_type t = HLSL_TYPE_BOOL \<and> (value_b v = 0 \<or> value_b v = 1)
                 \<longrightarrow> n = nat (value_b v)) \<and>
              (base_type t = HLSL_TYPE_UINT \<and> value_u v < 4294967296 \<longrightarrow> n = value_u v) \<and>
              (base_type t = HLSL_TYPE_FLOAT \<longrightarrow> n = to_uint (f (value_f v))) \<and>
              (base_type t = HLSL_TYPE_DOUBLE \<longrightarrow> n = to_uint (d (value_d v))) \<and>
              (base_type t \<notin> {HLSL_TYPE_INT, HLSL_TYPE_BOOL, HLSL_TYPE_UINT, HLSL_TYPE_FLOAT,
                               HLSL_TYPE_DOUBLE} \<longrightarrow> n = 0)"
      unfolding e
      by (cases "base_type t")
         (auto simp: int_to_uint_nonneg int_to_uint_neg to_uint_def)
  qed
  have "n = 0 \<or> 65536 < n \<or> (n \<noteq> 0 \<and> \<not> 65536 < n)" by auto
  then have r: "if n = 0 \<or> 65536 < n then
              (\<exists>ctx'. array_rule f d ctx expr location = Inr (None, ctx') \<and>
                 ctx' = hlsl_report_message ctx location HLSL_LEVEL_ERROR
                          (if n = 0 then ''array size is not a positive integer constant\<newline>''
                           else ''array size must be between 1 and 65536'') [] \<and>
                 (0 < allocations_left (heap ctx) \<longrightarrow>
                    status ctx' = PARSE_ERR \<and>
                    messages ctx' = messages ctx @
                      [Reported location HLSL_LEVEL_ERROR
                         (if n = 0 then ''array size is not a positive integer constant\<newline>''
                          else ''array size must be between 1 and 65536'') []]))
            else array_rule f d ctx expr location = Inr (Some n, ctx)"
    using assms(1) n(1)
    by (auto simp: array_rule_def hlsl_report_message_error)
  show ?thesis
    apply (rule exI [of _ n])
    apply (intro conjI)
        apply (rule n(1))
       apply (rule n(2))
      apply (rule n(3))
     apply (rule c)
    apply (rule r)
    done
qed


theorem array_rule_size_witness:
  "array_rule example_float_to_uint example_double_to_uint example_ctx [C_INTEGER 5]
     no_location = Inr (Some 5, example_ctx) \<and>
   array_rule example_float_to_uint example_double_to_uint example_ctx [C_INTEGER 0]
     no_location =
     Inr (None, hlsl_report_message example_ctx no_location HLSL_LEVEL_ERROR
                  ''array size is not a positive integer constant\<newline>'' []) \<and>
   array_rule example_float_to_uint example_double_to_uint example_ctx [C_INTEGER 70000]
     no_location =
     Inr (None, hlsl_report_message example_ctx no_location HLSL_LEVEL_ERROR
                  ''array size must be between 1 and 65536'' []) \<and>
   status (hlsl_report_message example_ctx no_location HLSL_LEVEL_ERROR
             ''array size must be between 1 and 65536'' []) = PARSE_ERR"
proof -
  let ?t = "Hlsl_type (Some ''int'') HLSL_CLASS_SCALAR HLSL_TYPE_INT 1 1 {} 1 No_elements"
  have k: "[C_INTEGER i] \<noteq> []" for i by simp
  have d: "data_type (hdr (last [C_INTEGER i])) = Some ?t" for i
    by (simp add: C_INTEGER_def)
  have a: "0 < allocations_left (heap example_ctx)"
    by (simp add: example_ctx_def example_global_ctx_def example_heap_def)
  have 1: "array_rule example_float_to_uint example_double_to_uint example_ctx [C_INTEGER 5]
             no_location = Inr (Some 5, example_ctx)"
    using array_rule_size [OF k [of 5] d [of 5], where f = example_float_to_uint
        and d = example_double_to_uint and ctx = example_ctx and location = no_location]
    by (auto simp: C_INTEGER_def)
  have 2: "array_rule example_float_to_uint example_double_to_uint example_ctx [C_INTEGER 0]
             no_location =
           Inr (None, hlsl_report_message example_ctx no_location HLSL_LEVEL_ERROR
                        ''array size is not a positive integer constant\<newline>'' [])"
    using array_rule_size [OF k [of 0] d [of 0], where f = example_float_to_uint
        and d = example_double_to_uint and ctx = example_ctx and location = no_location]
    by (auto simp: C_INTEGER_def)
  have 3: "array_rule example_float_to_uint example_double_to_uint example_ctx
             [C_INTEGER 70000] no_location =
           Inr (None, hlsl_report_message example_ctx no_location HLSL_LEVEL_ERROR
                        ''array size must be between 1 and 65536'' []) \<and>
           status (hlsl_report_message example_ctx no_location HLSL_LEVEL_ERROR
                     ''array size must be between 1 and 65536'' []) = PARSE_ERR"
    using array_rule_size [OF k [of 70000] d [of 70000], where f = example_float_to_uint
        and d = example_double_to_uint and ctx = example_ctx and location = no_location] a
    by (auto simp: C_INTEGER_def)
  from 1 2 3 show ?thesis by (intro conjI) (elim conjE, assumption)+
qed

text \<open>
  The size \<^verbatim>\<open>true\<close>, a constant that is no integer constant, is accepted as the size 1 and
  nothing is reported.
\<close>

theorem array_size_boolean_counterexample:
  "array_rule example_float_to_uint example_double_to_uint example_ctx [boolean True]
     no_location = Inr (Some 1, example_ctx)"
  by (simp add: array_rule_def evaluate_array_dimension_def boolean_def int_to_uint_def)

subsection \<open>Declarations\<close>

lemma new_var_frame:
  "local_scopes (new_var ctx var type mods v) = local_scopes ctx \<and>
   globals (new_var ctx var type mods v) = globals ctx \<and>
   messages (new_var ctx var type mods v) = messages ctx \<and>
   status (new_var ctx var type mods v) = status ctx \<and>
   heap (new_var ctx var type mods v) = heap ctx"
  by (simp add: new_var_def)

lemma new_var_modifiers:
  "vmodifiers (vars (store (new_var ctx var type mods v)) var) =
     (if local_scopes ctx = [] then mods \<union> {HLSL_STORAGE_UNIFORM} else mods)"
  by (simp add: new_var_def)

text \<open>
  C8. A variable declared in a local scope, whose type carries \<^verbatim>\<open>const\<close>, whose modifiers do
  not include \<^verbatim>\<open>uniform\<close> and which has no initializer, is not declared: the scopes and the
  statement list stay as they are, and the error "const variable without initializer" is
  reported at the location of the declarator (the message is written when memory for it
  is left). The hypotheses are that the variable could be allocated and that its type
  exists.
\<close>

theorem const_without_initializer:
  assumes "d3dcompiler_alloc (heap ctx) = (Some var, h)"
    and "(if array_size v \<noteq> 0 then new_array_type U basic_type (array_size v)
          else Some basic_type) = Some type"
    and "HLSL_MODIFIER_CONST \<in> modifiers type"
    and "local_scopes ctx \<noteq> []"
    and "HLSL_STORAGE_UNIFORM \<notin> mods"
    and "init_args (initializer v) = []"
  shows "\<exists>ctx'. declare_var U basic_type mods (ctx, statements_list, local_var) v =
                  Inr (ctx', statements_list, local_var) \<and>
           local_scopes ctx' = local_scopes ctx \<and> globals ctx' = globals ctx \<and>
           (0 < allocations_left h \<longrightarrow>
              status ctx' = PARSE_ERR \<and>
              messages ctx' = messages ctx @
                [Reported (def_loc v) HLSL_LEVEL_ERROR ''const variable without initializer'' []])"
proof -
  let ?ctx1 = "new_var (ctx\<lparr>heap := h\<rparr>) var type mods v"
  let ?ctx' = "hlsl_report_message ?ctx1 (def_loc v) HLSL_LEVEL_ERROR
                 ''const variable without initializer'' []"
  have m: "HLSL_STORAGE_UNIFORM \<notin> vmodifiers (vars (store ?ctx1) var)"
    using assms(4,5) by (simp add: new_var_modifiers)
  have a: "declare_var U basic_type mods (ctx, statements_list, local_var) v =
          Inr (?ctx', statements_list, local_var)"
    unfolding declare_var_def assms(2) using assms(1,3,4,6) m
    by (simp add: Let_def)
  have b: "local_scopes ?ctx' = local_scopes ctx" "globals ?ctx' = globals ctx"
    by (simp_all add: hlsl_report_message_frame new_var_frame)
  have c: "0 < allocations_left h \<longrightarrow>
      status ?ctx' = PARSE_ERR \<and>
      messages ?ctx' = messages ctx @
        [Reported (def_loc v) HLSL_LEVEL_ERROR ''const variable without initializer'' []]"
    by (simp add: hlsl_report_message_error new_var_frame)
  show ?thesis
  proof (intro exI conjI)
    show "declare_var U basic_type mods (ctx, statements_list, local_var) v =
            Inr (?ctx', statements_list, local_var)" by (rule a)
    show "local_scopes ?ctx' = local_scopes ctx" by (rule b(1))
    show "globals ?ctx' = globals ctx" by (rule b(2))
    show "0 < allocations_left h \<longrightarrow>
      status ?ctx' = PARSE_ERR \<and>
      messages ?ctx' = messages ctx @
        [Reported (def_loc v) HLSL_LEVEL_ERROR ''const variable without initializer'' []]"
      by (rule c)
  qed
qed

theorem const_without_initializer_witness:
  "\<exists>ctx'. declare_var example_utils (example_numeric HLSL_CLASS_SCALAR 1 1 {HLSL_MODIFIER_CONST})
             {} (example_ctx, [], True) (example_def ''x'' []) = Inr (ctx', [], True) \<and>
          local_scopes ctx' = local_scopes example_ctx \<and> globals ctx' = globals example_ctx \<and>
          status ctx' = PARSE_ERR \<and>
          messages ctx' =
            [Reported no_location HLSL_LEVEL_ERROR ''const variable without initializer'' []]"
  using const_without_initializer [of example_ctx 100
      "\<lparr>next_free = 101, allocations_left = 6\<rparr>" "example_def ''x'' []" example_utils
      "example_numeric HLSL_CLASS_SCALAR 1 1 {HLSL_MODIFIER_CONST}"
      "example_numeric HLSL_CLASS_SCALAR 1 1 {HLSL_MODIFIER_CONST}" "{}" "[]" True]
  by (simp add: example_ctx_def example_global_ctx_def example_heap_def d3dcompiler_alloc_def
      example_def_def example_numeric_def)

text \<open>
  At global scope the variable gains \<^verbatim>\<open>uniform\<close> and the check does not apply: the variable
  goes on to \<^verbatim>\<open>declare_variable\<close>.
\<close>

lemma const_without_initializer_global:
  assumes "d3dcompiler_alloc (heap ctx) = (Some var, h)"
    and "array_size v = 0" and "local_scopes ctx = []"
    and "init_args (initializer v) = []"
    and "declare_variable (new_var (ctx\<lparr>heap := h\<rparr>) var basic_type mods v) var False =
           Inr (declared, ctx2)"
  shows "declare_var U basic_type mods (ctx, statements_list, local_var) v =
           Inr (ctx2, statements_list, False)"
  unfolding declare_var_def using assms
  by (cases declared) (simp_all add: Let_def new_var_modifiers)

subsection \<open>Initializers\<close>

text \<open>
  C7. For a numeric variable (not an array) with an initializer that was declared, the
  component count \<open>sz\<close> of the initializer decides what the loop body returns. A count
  smaller than that of the type, and not exactly one, is reported as the error
  "'name' initializer does not match" and nothing is appended to the statement list. Any
  other count (equal to that of the type, exactly one, or larger) is not reported: an
  initializer of more than one argument leaves the context and the statement list as
  \<^verbatim>\<open>declare_variable\<close> left them, and a single argument is lowered: its instructions, a
  dereference of the variable and the assignment \<^verbatim>\<open>make_assignment\<close> returns are appended.
  The hypotheses are that the variable could be allocated, that \<^verbatim>\<open>declare_variable\<close>
  accepted it, and that every argument of the initializer has a type.
\<close>

theorem initializer_count_check:
  assumes "d3dcompiler_alloc (heap ctx) = (Some var, h)"
    and "array_size v = 0"
    and "le_LAST_NUMERIC (tclass basic_type)"
    and "init_args (initializer v) \<noteq> []"
    and "initializer_size U (init_args (initializer v)) 0 = Inr sz"
    and "declare_variable (new_var (ctx\<lparr>heap := h\<rparr>) var basic_type mods v) var
           (if local_scopes ctx = [] then False else local_var) = Inr (True, ctx2)"
  shows "declare_var U basic_type mods (ctx, statements_list, local_var) v =
           (if sz < to_uint (dimx basic_type * dimy basic_type) \<and> sz \<noteq> 1 then
              Inr (hlsl_report_message ctx2 (def_loc v) HLSL_LEVEL_ERROR
                     (squote @ ''%s'' @ squote @ '' initializer does not match'')
                     [Arg_string (def_name v)],
                   statements_list, if local_scopes ctx = [] then False else local_var)
            else if 1 < length (init_args (initializer v)) then
              Inr (ctx2, statements_list, if local_scopes ctx = [] then False else local_var)
            else (case new_var_deref U ctx2 var of
                    (None, ctx3) \<Rightarrow> Inl Null_dereference
                  | (Some deref, ctx3) \<Rightarrow>
                      (case make_assignment U ctx3 deref ASSIGN_OP_ASSIGN
                              (hd (init_args (initializer v))) of
                         (None, ctx4) \<Rightarrow> Inl Null_dereference
                       | (Some assignment, ctx4) \<Rightarrow>
                           Inr (ctx4,
                                statements_list @ init_instrs (initializer v) @
                                  [deref, assignment],
                                if local_scopes ctx = [] then False else local_var)))) \<and>
         (0 < allocations_left (heap ctx2) \<longrightarrow>
            status (hlsl_report_message ctx2 (def_loc v) HLSL_LEVEL_ERROR
                      (squote @ ''%s'' @ squote @ '' initializer does not match'')
                      [Arg_string (def_name v)]) = PARSE_ERR \<and>
            messages (hlsl_report_message ctx2 (def_loc v) HLSL_LEVEL_ERROR
                        (squote @ ''%s'' @ squote @ '' initializer does not match'')
                        [Arg_string (def_name v)]) =
              messages ctx2 @
                [Reported (def_loc v) HLSL_LEVEL_ERROR
                   (squote @ ''%s'' @ squote @ '' initializer does not match'')
                   [Arg_string (def_name v)]])"
proof (intro conjI)
  have n: "tclass basic_type \<noteq> HLSL_CLASS_STRUCT" "tclass basic_type \<noteq> HLSL_CLASS_ARRAY"
    using assms(3) by auto
  show "declare_var U basic_type mods (ctx, statements_list, local_var) v =
           (if sz < to_uint (dimx basic_type * dimy basic_type) \<and> sz \<noteq> 1 then
              Inr (hlsl_report_message ctx2 (def_loc v) HLSL_LEVEL_ERROR
                     (squote @ ''%s'' @ squote @ '' initializer does not match'')
                     [Arg_string (def_name v)],
                   statements_list, if local_scopes ctx = [] then False else local_var)
            else if 1 < length (init_args (initializer v)) then
              Inr (ctx2, statements_list, if local_scopes ctx = [] then False else local_var)
            else (case new_var_deref U ctx2 var of
                    (None, ctx3) \<Rightarrow> Inl Null_dereference
                  | (Some deref, ctx3) \<Rightarrow>
                      (case make_assignment U ctx3 deref ASSIGN_OP_ASSIGN
                              (hd (init_args (initializer v))) of
                         (None, ctx4) \<Rightarrow> Inl Null_dereference
                       | (Some assignment, ctx4) \<Rightarrow>
                           Inr (ctx4,
                                statements_list @ init_instrs (initializer v) @
                                  [deref, assignment],
                                if local_scopes ctx = [] then False else local_var))))"
    unfolding declare_var_def using assms n
    by (auto simp add: Let_def simp del: initializer_size.simps)
  show "0 < allocations_left (heap ctx2) \<longrightarrow>
            status (hlsl_report_message ctx2 (def_loc v) HLSL_LEVEL_ERROR
                      (squote @ ''%s'' @ squote @ '' initializer does not match'')
                      [Arg_string (def_name v)]) = PARSE_ERR \<and>
            messages (hlsl_report_message ctx2 (def_loc v) HLSL_LEVEL_ERROR
                        (squote @ ''%s'' @ squote @ '' initializer does not match'')
                        [Arg_string (def_name v)]) =
              messages ctx2 @
                [Reported (def_loc v) HLSL_LEVEL_ERROR
                   (squote @ ''%s'' @ squote @ '' initializer does not match'')
                   [Arg_string (def_name v)]]"
    by (simp add: hlsl_report_message_error)
qed

lemma example_declare_variable:
  "declare_variable
     (new_var (example_ctx\<lparr>heap := \<lparr>next_free = 101, allocations_left = 6\<rparr>\<rparr>) 100
        (example_numeric HLSL_CLASS_VECTOR x 1 {}) {} (example_def ''x'' as)) 100 True =
   Inr (True,
     (new_var (example_ctx\<lparr>heap := \<lparr>next_free = 101, allocations_left = 6\<rparr>\<rparr>) 100
        (example_numeric HLSL_CLASS_VECTOR x 1 {}) {} (example_def ''x'' as))
       \<lparr>local_scopes := [\<lparr>scope_vars = [100], scope_types = []\<rparr>]\<rparr>)"
  by (simp add: declare_variable_def new_var_def example_ctx_def example_global_ctx_def
      example_numeric_def example_def_def check_invalid_matrix_modifiers_def Let_def
      add_declaration_def find_var_def cur_scope_def set_cur_scope_def)

theorem initializer_count_check_witness:
  "(\<exists>ctx'. declare_var example_utils (example_numeric HLSL_CLASS_VECTOR 4 1 {}) {}
             (example_ctx, [], True)
             (example_def ''x'' [example_constant 1 (example_numeric HLSL_CLASS_VECTOR 2 1 {})]) =
           Inr (ctx', [], True) \<and>
          status ctx' = PARSE_ERR) \<and>
   (\<exists>ctx'. declare_var example_utils (example_numeric HLSL_CLASS_VECTOR 2 1 {}) {}
             (example_ctx, [], True)
             (example_def ''x'' [example_constant 1 (example_numeric HLSL_CLASS_VECTOR 3 1 {})]) =
           Inr (ctx',
                [example_constant 1 (example_numeric HLSL_CLASS_VECTOR 3 1 {}),
                 HLSL_IR_DEREF
                   \<lparr>addr = 101, index = 0,
                    data_type = Some (example_numeric HLSL_CLASS_VECTOR 2 1 {}),
                    loc = no_location\<rparr> (HLSL_IR_DEREF_VAR 100),
                 HLSL_IR_ASSIGNMENT
                   \<lparr>addr = 102, index = 0,
                    data_type = Some (example_numeric HLSL_CLASS_VECTOR 2 1 {}),
                    loc = no_location\<rparr> (HLSL_IR_DEREF_VAR 100) 1],
                True) \<and>
          status ctx' = PARSE_SUCCESS)"
proof -
  let ?h = "\<lparr>next_free = 101, allocations_left = 6\<rparr>"
  have 1: "d3dcompiler_alloc (heap example_ctx) = (Some 100, ?h)"
    by (simp add: d3dcompiler_alloc_def example_ctx_def example_global_ctx_def example_heap_def)
  have 10: "local_scopes example_ctx \<noteq> []" by (simp add: example_ctx_def)
  have small: "\<exists>ctx'. declare_var example_utils (example_numeric HLSL_CLASS_VECTOR 4 1 {}) {}
             (example_ctx, [], True)
             (example_def ''x'' [example_constant 1 (example_numeric HLSL_CLASS_VECTOR 2 1 {})]) =
           Inr (ctx', [], True) \<and>
          status ctx' = PARSE_ERR"
  proof -
    let ?v = "example_def ''x'' [example_constant 1 (example_numeric HLSL_CLASS_VECTOR 2 1 {})]"
    let ?t = "example_numeric HLSL_CLASS_VECTOR 4 1 {}"
    let ?ctx2 = "(new_var (example_ctx\<lparr>heap := ?h\<rparr>) 100 ?t {} ?v)
                   \<lparr>local_scopes := [\<lparr>scope_vars = [100], scope_types = []\<rparr>]\<rparr>"
    have 2: "array_size ?v = 0" by (simp add: example_def_def)
    have 3: "le_LAST_NUMERIC (tclass ?t)" by (simp add: example_numeric_def)
    have 4: "init_args (initializer ?v) \<noteq> []" by (simp add: example_def_def)
    have 5: "initializer_size example_utils (init_args (initializer ?v)) 0 = Inr 2"
      by (simp add: example_def_def example_constant_def example_numeric_def example_utils_def
          to_uint_def)
    have 6: "2 < to_uint (dimx ?t * dimy ?t)" by (simp add: example_numeric_def to_uint_def)
    have 8: "declare_variable (new_var (example_ctx\<lparr>heap := ?h\<rparr>) 100 ?t {} ?v) 100
               (if local_scopes example_ctx = [] then False else True) = Inr (True, ?ctx2)"
      using example_declare_variable [of 4]
      by (simp add: example_ctx_def)
    have 9: "0 < allocations_left (heap ?ctx2)" by (simp add: new_var_def)
    from initializer_count_check [OF 1 2 3 4 5 8, of "[]"] 6 9 10 show ?thesis
      by auto
  qed
  have large: "\<exists>ctx'. declare_var example_utils (example_numeric HLSL_CLASS_VECTOR 2 1 {}) {}
             (example_ctx, [], True)
             (example_def ''x'' [example_constant 1 (example_numeric HLSL_CLASS_VECTOR 3 1 {})]) =
           Inr (ctx',
                [example_constant 1 (example_numeric HLSL_CLASS_VECTOR 3 1 {}),
                 HLSL_IR_DEREF
                   \<lparr>addr = 101, index = 0,
                    data_type = Some (example_numeric HLSL_CLASS_VECTOR 2 1 {}),
                    loc = no_location\<rparr> (HLSL_IR_DEREF_VAR 100),
                 HLSL_IR_ASSIGNMENT
                   \<lparr>addr = 102, index = 0,
                    data_type = Some (example_numeric HLSL_CLASS_VECTOR 2 1 {}),
                    loc = no_location\<rparr> (HLSL_IR_DEREF_VAR 100) 1],
                True) \<and>
          status ctx' = PARSE_SUCCESS"
  proof -
    let ?c = "example_constant 1 (example_numeric HLSL_CLASS_VECTOR 3 1 {})"
    let ?v = "example_def ''x'' [?c]"
    let ?t = "example_numeric HLSL_CLASS_VECTOR 2 1 {}"
    let ?ctx2 = "(new_var (example_ctx\<lparr>heap := ?h\<rparr>) 100 ?t {} ?v)
                   \<lparr>local_scopes := [\<lparr>scope_vars = [100], scope_types = []\<rparr>]\<rparr>"
    let ?deref = "HLSL_IR_DEREF
                   \<lparr>addr = 101, index = 0, data_type = Some ?t, loc = no_location\<rparr>
                   (HLSL_IR_DEREF_VAR 100)"
    let ?assignment = "HLSL_IR_ASSIGNMENT
                   \<lparr>addr = 102, index = 0, data_type = Some ?t, loc = no_location\<rparr>
                   (HLSL_IR_DEREF_VAR 100) 1"
    have 2: "array_size ?v = 0" by (simp add: example_def_def)
    have 3: "le_LAST_NUMERIC (tclass ?t)" by (simp add: example_numeric_def)
    have 4: "init_args (initializer ?v) \<noteq> []" by (simp add: example_def_def)
    have 5: "initializer_size example_utils (init_args (initializer ?v)) 0 = Inr 3"
      by (simp add: example_def_def example_constant_def example_numeric_def example_utils_def
          to_uint_def)
    have 6: "\<not> 3 < to_uint (dimx ?t * dimy ?t)" by (simp add: example_numeric_def to_uint_def)
    have 7: "init_args (initializer ?v) = [?c]" "init_instrs (initializer ?v) = [?c]"
      by (simp_all add: example_def_def)
    have 8: "declare_variable (new_var (example_ctx\<lparr>heap := ?h\<rparr>) 100 ?t {} ?v) 100
               (if local_scopes example_ctx = [] then False else True) = Inr (True, ?ctx2)"
      using example_declare_variable [of 2]
      by (simp add: example_ctx_def)
    have d: "new_var_deref example_utils ?ctx2 100 =
               (Some ?deref, ?ctx2\<lparr>heap := \<lparr>next_free = 102, allocations_left = 5\<rparr>\<rparr>)"
      by (simp add: example_utils_def example_new_deref_def new_var_def d3dcompiler_alloc_def
          example_def_def)
    have m: "make_assignment example_utils
               (?ctx2\<lparr>heap := \<lparr>next_free = 102, allocations_left = 5\<rparr>\<rparr>) ?deref
               ASSIGN_OP_ASSIGN ?c =
               (Some ?assignment, ?ctx2\<lparr>heap := \<lparr>next_free = 103, allocations_left = 4\<rparr>\<rparr>)"
      by (simp add: example_utils_def d3dcompiler_alloc_def example_constant_def)
    have s: "status (?ctx2\<lparr>heap := \<lparr>next_free = 103, allocations_left = 4\<rparr>\<rparr>) = PARSE_SUCCESS"
      by (simp add: new_var_def example_ctx_def example_global_ctx_def)
    have r: "declare_var example_utils ?t {} (example_ctx, [], True) ?v =
               Inr (?ctx2\<lparr>heap := \<lparr>next_free = 103, allocations_left = 4\<rparr>\<rparr>,
                    [?c, ?deref, ?assignment], True)"
      using initializer_count_check [OF 1 2 3 4 5 8, of "[]"] 6 10
      by (simp add: 7 d m del: One_nat_def)
    show ?thesis
      by (rule exI [of _ "?ctx2\<lparr>heap := \<lparr>next_free = 103, allocations_left = 4\<rparr>\<rparr>"])
         (rule conjI [OF r s])
  qed
  from small large show ?thesis by (rule conjI)
qed

text \<open>
  An initializer with more components than the type is not reported: a \<^verbatim>\<open>float2\<close> variable
  initialized with two \<^verbatim>\<open>float3\<close> values, six components in all, is declared with no
  message and no statement.
\<close>

theorem initializer_too_large_counterexample:
  "initializer_size example_utils
     [example_constant 1 (example_numeric HLSL_CLASS_VECTOR 3 1 {}),
      example_constant 2 (example_numeric HLSL_CLASS_VECTOR 3 1 {})] 0 = Inr 6 \<and>
   to_uint (dimx (example_numeric HLSL_CLASS_VECTOR 2 1 {}) *
            dimy (example_numeric HLSL_CLASS_VECTOR 2 1 {})) = 2 \<and>
   (\<exists>ctx'. declare_var example_utils (example_numeric HLSL_CLASS_VECTOR 2 1 {}) {}
             (example_ctx, [], True)
             (example_def ''x''
                [example_constant 1 (example_numeric HLSL_CLASS_VECTOR 3 1 {}),
                 example_constant 2 (example_numeric HLSL_CLASS_VECTOR 3 1 {})]) =
           Inr (ctx', [], True) \<and>
          messages ctx' = [] \<and> status ctx' = PARSE_SUCCESS \<and>
          map scope_vars (local_scopes ctx') = [[100]])"
proof -
  let ?as = "[example_constant 1 (example_numeric HLSL_CLASS_VECTOR 3 1 {}),
              example_constant 2 (example_numeric HLSL_CLASS_VECTOR 3 1 {})]"
  let ?v = "example_def ''x'' ?as"
  let ?t = "example_numeric HLSL_CLASS_VECTOR 2 1 {}"
  let ?h = "\<lparr>next_free = 101, allocations_left = 6\<rparr>"
  let ?ctx2 = "(new_var (example_ctx\<lparr>heap := ?h\<rparr>) 100 ?t {} ?v)
                 \<lparr>local_scopes := [\<lparr>scope_vars = [100], scope_types = []\<rparr>]\<rparr>"
  have 1: "d3dcompiler_alloc (heap example_ctx) = (Some 100, ?h)"
    by (simp add: d3dcompiler_alloc_def example_ctx_def example_global_ctx_def example_heap_def)
  have 5: "initializer_size example_utils ?as 0 = Inr 6"
    by (simp add: example_constant_def example_numeric_def example_utils_def to_uint_def)
  have 6: "to_uint (dimx ?t * dimy ?t) = 2" by (simp add: example_numeric_def to_uint_def)
  have 8: "declare_variable (new_var (example_ctx\<lparr>heap := ?h\<rparr>) 100 ?t {} ?v) 100 True =
             Inr (True, ?ctx2)"
    by (rule example_declare_variable)
  have 10: "local_scopes example_ctx \<noteq> []" by (simp add: example_ctx_def)
  have t: "tclass ?t = HLSL_CLASS_VECTOR" "modifiers ?t = {}"
    by (simp_all add: example_numeric_def)
  have v: "array_size ?v = 0" "init_args (initializer ?v) = ?as"
    by (simp_all add: example_def_def)
  have a: "declare_var example_utils ?t {} (example_ctx, [], True) ?v = Inr (?ctx2, [], True)"
    unfolding declare_var_def
    by (simp add: 1 v 10 Let_def 8 5 6 t del: initializer_size.simps One_nat_def)
  have b: "messages ?ctx2 = [] \<and> status ?ctx2 = PARSE_SUCCESS \<and>
           map scope_vars (local_scopes ?ctx2) = [[100]]"
    by (simp add: new_var_def example_ctx_def example_global_ctx_def)
  show ?thesis
  proof (intro conjI exI)
    show "initializer_size example_utils ?as 0 = Inr 6" by (rule 5)
    show "to_uint (dimx ?t * dimy ?t) = 2" by (rule 6)
    show "declare_var example_utils ?t {} (example_ctx, [], True) ?v = Inr (?ctx2, [], True)"
      by (rule a)
    show "messages ?ctx2 = []" using b by (rule conjunct1)
    show "status ?ctx2 = PARSE_SUCCESS" using b by (elim conjE)
    show "map scope_vars (local_scopes ?ctx2) = [[100]]" using b by (elim conjE)
  qed
qed

text \<open>
  A single argument with at least as many components as the type, or with one, is lowered:
  its instructions, a dereference of the variable and the assignment are appended.
\<close>

lemma initializer_lowered:
  assumes "d3dcompiler_alloc (heap ctx) = (Some var, h)"
    and "array_size v = 0"
    and "le_LAST_NUMERIC (tclass basic_type)"
    and "init_args (initializer v) = [a]"
    and "initializer_size U [a] 0 = Inr sz"
    and "to_uint (dimx basic_type * dimy basic_type) \<le> sz \<or> sz = 1"
    and "declare_variable (new_var (ctx\<lparr>heap := h\<rparr>) var basic_type mods v) var
           (if local_scopes ctx = [] then False else local_var) = Inr (True, ctx2)"
    and "new_var_deref U ctx2 var = (Some deref, ctx3)"
    and "make_assignment U ctx3 deref ASSIGN_OP_ASSIGN a = (Some assignment, ctx4)"
  shows "declare_var U basic_type mods (ctx, statements_list, local_var) v =
           Inr (ctx4, statements_list @ init_instrs (initializer v) @ [deref, assignment],
                if local_scopes ctx = [] then False else local_var)"
proof -
  have n: "tclass basic_type \<noteq> HLSL_CLASS_STRUCT" "tclass basic_type \<noteq> HLSL_CLASS_ARRAY"
    using assms(3) by auto
  show ?thesis
    unfolding declare_var_def using assms n
    by (auto simp add: Let_def simp del: initializer_size.simps)
qed

subsection \<open>Matrix majority\<close>

lemma set_modifiers_sel:
  "modifiers (set_modifiers m t) = m" "tclass (set_modifiers m t) = tclass t"
  "dimx (set_modifiers m t) = dimx t" "dimy (set_modifiers m t) = dimy t"
  "reg_size (set_modifiers m t) = reg_size t"
  by (cases t; simp)+

lemma set_reg_size_sel:
  "modifiers (set_reg_size r t) = modifiers t" "tclass (set_reg_size r t) = tclass t"
  "dimx (set_reg_size r t) = dimx t" "dimy (set_reg_size r t) = dimy t"
  "reg_size (set_reg_size r t) = r"
  by (cases t; simp)+

text \<open>
  When the modifiers of the declaration and those of the base type share no bit, a matrix
  type leaves \<^verbatim>\<open>apply_type_modifiers\<close> with exactly one majority bit and the matching
  register size.
\<close>

lemma apply_type_modifiers_majority:
  assumes "apply_type_modifiers MASK ctx type mods location = (Some t, m, ctx')"
    and "tclass type = HLSL_CLASS_MATRIX"
    and "HLSL_MODIFIERS_MAJORITY_MASK \<subseteq> MASK"
    and "modifiers type \<inter> mods = {}"
    and "\<not> (HLSL_MODIFIER_ROW_MAJOR \<in> mods \<and> HLSL_MODIFIER_COLUMN_MAJOR \<in> mods)"
    and "\<not> (HLSL_MODIFIER_ROW_MAJOR \<in> modifiers type
            \<and> HLSL_MODIFIER_COLUMN_MAJOR \<in> modifiers type)"
    and "reg_size type = (if is_row_major type then dimy type else dimx type)"
  shows "tclass t = HLSL_CLASS_MATRIX \<and>
         (HLSL_MODIFIER_ROW_MAJOR \<in> modifiers t) \<noteq> (HLSL_MODIFIER_COLUMN_MAJOR \<in> modifiers t) \<and>
         reg_size t = (if is_row_major t then dimy t else dimx t)"
  using assms
  unfolding apply_type_modifiers_def clone_hlsl_type_def add_modifiers_def
    HLSL_MODIFIERS_MAJORITY_MASK_def is_row_major_def Let_def
  by (auto simp: set_modifiers_sel set_reg_size_sel d3dcompiler_alloc_def
      split: if_splits prod.splits option.splits)

subsection \<open>A matrix type without majority\<close>

lemma example_typedef:
  assumes "HLSL_MODIFIER_CONST \<in> MASK"
  shows "typedef_rule MASK U example_global_ctx {HLSL_MODIFIER_CONST}
           (example_numeric HLSL_CLASS_MATRIX 4 4 {}) [example_def ''cm'' []] no_location =
         (True, example_cm_ctx)"
  using assms
  by (simp add: typedef_rule_def example_def_def clone_hlsl_type_def d3dcompiler_alloc_def
      example_global_ctx_def example_heap_def example_numeric_def is_row_major_def Let_def
      add_type_to_scope_def get_type_def cur_scope_def set_cur_scope_def example_cm_ctx_def
      example_cm_def)

lemma example_get_type: "get_type (cur_scope example_cm_ctx) (Some ''cm'') = Some example_cm"
  by (simp add: get_type_def cur_scope_def example_cm_ctx_def example_global_ctx_def)

lemma example_var_modifiers:
  "var_modifiers example_cm_ctx
     [(HLSL_MODIFIER_CONST, no_location), (HLSL_MODIFIER_ROW_MAJOR, no_location)] =
   ({HLSL_MODIFIER_CONST, HLSL_MODIFIER_ROW_MAJOR}, example_cm_ctx)"
  by (auto simp: add_modifiers_def HLSL_MODIFIERS_MAJORITY_MASK_def)

lemma example_apply_type_modifiers:
  assumes "HLSL_MODIFIER_CONST \<in> MASK"
  shows "apply_type_modifiers MASK example_cm_ctx example_cm
           {HLSL_MODIFIER_CONST, HLSL_MODIFIER_ROW_MAJOR} no_location =
         (Some example_cm, {HLSL_MODIFIER_CONST, HLSL_MODIFIER_ROW_MAJOR} - MASK,
          hlsl_report_message
            (example_cm_ctx\<lparr>heap := \<lparr>next_free = 102, allocations_left = 5\<rparr>\<rparr>)
            no_location HLSL_LEVEL_ERROR ''modifier '%s' already specified''
            [Arg_modifiers {HLSL_MODIFIER_CONST, HLSL_MODIFIER_ROW_MAJOR}])"
  using assms
  by (auto simp: apply_type_modifiers_def HLSL_MODIFIERS_MAJORITY_MASK_def example_cm_def
      clone_hlsl_type_def d3dcompiler_alloc_def example_cm_ctx_def add_modifiers_def
      is_row_major_def Let_def)

text \<open>
  C6. After \<^verbatim>\<open>typedef const float4x4 cm;\<close> the declaration \<^verbatim>\<open>const row_major cm x;\<close> is a
  declaration of a matrix type that carries no majority bit: the type \<^verbatim>\<open>cm\<close> is a matrix
  with the modifier \<^verbatim>\<open>const\<close> and no majority; \<^verbatim>\<open>add_modifiers\<close> finds \<^verbatim>\<open>const\<close> in both sets,
  reports it and returns the modifiers of the type alone, so \<^verbatim>\<open>row_major\<close> is dropped; and
  \<^verbatim>\<open>declare_vars\<close> stops at its assertion that a matrix type has a majority. This holds for
  every value of \<^verbatim>\<open>HLSL_TYPE_MODIFIERS_MASK\<close> that has \<^verbatim>\<open>const\<close> as a type modifier.
\<close>

theorem const_typedef_loses_majority:
  assumes "HLSL_MODIFIER_CONST \<in> MASK"
  shows "typedef_rule MASK U example_global_ctx {HLSL_MODIFIER_CONST}
           (example_numeric HLSL_CLASS_MATRIX 4 4 {}) [example_def ''cm'' []] no_location =
           (True, example_cm_ctx) \<and>
         get_type (cur_scope example_cm_ctx) (Some ''cm'') = Some example_cm \<and>
         var_modifiers example_cm_ctx
           [(HLSL_MODIFIER_CONST, no_location), (HLSL_MODIFIER_ROW_MAJOR, no_location)] =
           ({HLSL_MODIFIER_CONST, HLSL_MODIFIER_ROW_MAJOR}, example_cm_ctx) \<and>
         (\<exists>t m ctx2.
            apply_type_modifiers MASK example_cm_ctx example_cm
              {HLSL_MODIFIER_CONST, HLSL_MODIFIER_ROW_MAJOR} no_location = (Some t, m, ctx2) \<and>
            tclass t = HLSL_CLASS_MATRIX \<and>
            modifiers t \<inter> HLSL_MODIFIERS_MAJORITY_MASK = {} \<and>
            status ctx2 = PARSE_ERR) \<and>
         declaration_rule MASK U example_cm_ctx {HLSL_MODIFIER_CONST, HLSL_MODIFIER_ROW_MAJOR}
           example_cm (Some [example_def ''x'' []]) no_location = Inl Assertion_failed"
proof (intro conjI)
  show "typedef_rule MASK U example_global_ctx {HLSL_MODIFIER_CONST}
           (example_numeric HLSL_CLASS_MATRIX 4 4 {}) [example_def ''cm'' []] no_location =
           (True, example_cm_ctx)"
    by (rule example_typedef [OF assms])
  show "get_type (cur_scope example_cm_ctx) (Some ''cm'') = Some example_cm"
    by (rule example_get_type)
  show "var_modifiers example_cm_ctx
           [(HLSL_MODIFIER_CONST, no_location), (HLSL_MODIFIER_ROW_MAJOR, no_location)] =
           ({HLSL_MODIFIER_CONST, HLSL_MODIFIER_ROW_MAJOR}, example_cm_ctx)"
    by (rule example_var_modifiers)
  have m: "tclass example_cm = HLSL_CLASS_MATRIX"
    "modifiers example_cm \<inter> HLSL_MODIFIERS_MAJORITY_MASK = {}"
    by (simp_all add: example_cm_def HLSL_MODIFIERS_MAJORITY_MASK_def)
  have s: "status (hlsl_report_message
            (example_cm_ctx\<lparr>heap := \<lparr>next_free = 102, allocations_left = 5\<rparr>\<rparr>)
            no_location HLSL_LEVEL_ERROR ''modifier '%s' already specified''
            [Arg_modifiers {HLSL_MODIFIER_CONST, HLSL_MODIFIER_ROW_MAJOR}]) = PARSE_ERR"
    by (simp add: hlsl_report_message_error)
  show "\<exists>t m ctx2.
            apply_type_modifiers MASK example_cm_ctx example_cm
              {HLSL_MODIFIER_CONST, HLSL_MODIFIER_ROW_MAJOR} no_location = (Some t, m, ctx2) \<and>
            tclass t = HLSL_CLASS_MATRIX \<and>
            modifiers t \<inter> HLSL_MODIFIERS_MAJORITY_MASK = {} \<and>
            status ctx2 = PARSE_ERR"
    using example_apply_type_modifiers [OF assms] m s by simp
  show "declaration_rule MASK U example_cm_ctx {HLSL_MODIFIER_CONST, HLSL_MODIFIER_ROW_MAJOR}
           example_cm (Some [example_def ''x'' []]) no_location = Inl Assertion_failed"
    unfolding declaration_rule_def example_apply_type_modifiers [OF assms]
    by (simp add: declare_vars_def m split: prod.splits)
qed

theorem const_typedef_loses_majority_witness:
  "HLSL_MODIFIER_CONST \<in> example_mask \<and>
   typedef_rule example_mask example_utils example_global_ctx {HLSL_MODIFIER_CONST}
     (example_numeric HLSL_CLASS_MATRIX 4 4 {}) [example_def ''cm'' []] no_location =
     (True, example_cm_ctx) \<and>
   declaration_rule example_mask example_utils example_cm_ctx
     {HLSL_MODIFIER_CONST, HLSL_MODIFIER_ROW_MAJOR} example_cm (Some [example_def ''x'' []])
     no_location = Inl Assertion_failed"
  using const_typedef_loses_majority [of example_mask example_utils]
  by (simp add: example_mask_def)

subsection \<open>The entry point\<close>

text \<open>
  C10. \<^verbatim>\<open>parse_hlsl\<close> returns \<^verbatim>\<open>NULL\<close> whenever it returns, and it returns unless the parser
  crashed, the table of source files could not be allocated, the entry function is a
  prototype, or an assertion of the liveness pass failed. In particular, when the parse
  reports no error, the entry function has a body and the liveness pass completes, the
  result is \<^verbatim>\<open>NULL\<close> and \<^verbatim>\<open>*messages\<close> is the message buffer, or \<^verbatim>\<open>NULL\<close> when it is empty.
\<close>

theorem parse_hlsl_returns_null:
  "((\<exists>msgs. parse_hlsl P h st type major minor entrypoint want_messages = Inr (None, msgs)) \<or>
    (\<exists>c. parse_hlsl P h st type major minor entrypoint want_messages = Inl c \<and>
       (P (parse_hlsl_init h st) = Inl c \<or>
        (\<exists>ctx. P (parse_hlsl_init h st) = Inr ctx \<and>
           (source_files ctx = None \<or>
            (status ctx \<noteq> PARSE_ERR \<and>
             (\<exists>f. get_func_entry ctx entrypoint = Some f \<and>
                (func_body f = None \<or>
                 (\<exists>b. func_body f = Some b \<and>
                    compute_liveness (scope_vars (globals ctx)) (parameters f)
                      (fst (index_instructions b 2)) (store ctx) = None))))))))) \<and>
   (\<forall>ctx f b st'.
      P (parse_hlsl_init h st) = Inr ctx \<and> source_files ctx \<noteq> None \<and>
      status ctx \<noteq> PARSE_ERR \<and> get_func_entry ctx entrypoint = Some f \<and>
      func_body f = Some b \<and>
      compute_liveness (scope_vars (globals ctx)) (parameters f)
        (fst (index_instructions b 2)) (store ctx) = Some st' \<longrightarrow>
      parse_hlsl P h st type major minor entrypoint want_messages =
        Inr (None, if want_messages \<and> messages ctx \<noteq> [] then Some (messages ctx) else None))"
proof (intro conjI allI impI)
  show "(\<exists>msgs. parse_hlsl P h st type major minor entrypoint want_messages = Inr (None, msgs)) \<or>
    (\<exists>c. parse_hlsl P h st type major minor entrypoint want_messages = Inl c \<and>
       (P (parse_hlsl_init h st) = Inl c \<or>
        (\<exists>ctx. P (parse_hlsl_init h st) = Inr ctx \<and>
           (source_files ctx = None \<or>
            (status ctx \<noteq> PARSE_ERR \<and>
             (\<exists>f. get_func_entry ctx entrypoint = Some f \<and>
                (func_body f = None \<or>
                 (\<exists>b. func_body f = Some b \<and>
                    compute_liveness (scope_vars (globals ctx)) (parameters f)
                      (fst (index_instructions b 2)) (store ctx) = None))))))))"
    unfolding parse_hlsl_def
    by (cases "P (parse_hlsl_init h st)")
       (auto simp: Let_def split: option.splits)
next
  fix ctx f b st'
  assume "P (parse_hlsl_init h st) = Inr ctx \<and> source_files ctx \<noteq> None \<and>
      status ctx \<noteq> PARSE_ERR \<and> get_func_entry ctx entrypoint = Some f \<and>
      func_body f = Some b \<and>
      compute_liveness (scope_vars (globals ctx)) (parameters f)
        (fst (index_instructions b 2)) (store ctx) = Some st'"
  then show "parse_hlsl P h st type major minor entrypoint want_messages =
        Inr (None, if want_messages \<and> messages ctx \<noteq> [] then Some (messages ctx) else None)"
    unfolding parse_hlsl_def
    by (auto simp: Let_def)
qed

lemma example_parse:
  "example_parser (parse_hlsl_init example_heap example_store) =
     Inr ((parse_hlsl_init example_heap example_store)
            \<lparr>ctx_functions := (\<lambda>name. None)(''main'' \<mapsto> [example_entry])\<rparr>)"
  by (simp add: example_parser_def parse_hlsl_init_def d3dcompiler_alloc_def example_heap_def)

theorem parse_hlsl_returns_null_witness:
  "parse_hlsl example_parser example_heap example_store ST_PIXEL 2 0 ''main'' True =
     Inr (None, None)"
proof -
  let ?ctx = "(parse_hlsl_init example_heap example_store)
                \<lparr>ctx_functions := (\<lambda>name. None)(''main'' \<mapsto> [example_entry])\<rparr>"
  have 1: "source_files ?ctx \<noteq> None" "status ?ctx \<noteq> PARSE_ERR" "messages ?ctx = []"
    "store ?ctx = example_store" "scope_vars (globals ?ctx) = []"
    by (simp_all add: parse_hlsl_init_def d3dcompiler_alloc_def example_heap_def)
  have 2: "get_func_entry ?ctx ''main'' = Some example_entry"
    by (simp add: get_func_entry_def)
  have 3: "func_body example_entry = Some example_body" "parameters example_entry = []"
    by (simp_all add: example_entry_def)
  have 4: "compute_liveness (scope_vars (globals ?ctx)) (parameters example_entry)
             (fst (index_instructions example_body 2)) (store ?ctx) =
           Some (example_store\<lparr>vars := (vars example_store)
             (0 := example_var\<lparr>last_read := 2\<rparr>, 1 := example_var\<lparr>last_read := 8\<rparr>),
           node_last_read := (node_last_read example_store)(3 := 5, 4 := 6, 1 := 8)\<rparr>)"
    unfolding 1 3 compute_liveness_def liveness_start_def
    by (simp add: liveness_globals_def liveness_parameters_def example_liveness)
  from parse_hlsl_returns_null [of example_parser example_heap example_store ST_PIXEL 2 0
      "''main''" True] example_parse 1 2 3 4
  show ?thesis by (auto simp del: fun_upd_apply)
qed

end
